theory Spec2Isabelle
  imports Main "HOL-Library.List_Lexorder" "HOL-Library.AList"
begin

text \<open>
  A model of \<open>start.py\<close>: the functions \<open>safe_filename\<close>, \<open>run_cmd_capture\<close>,
  \<open>get_duration_seconds\<close> and \<open>process_url_to_text\<close>, with the properties stated of them.

  What the program does to the outside is explicit. The external collaborators
  (\<open>subprocess.run\<close>, the audio reader, the speech recogniser, \<open>langdetect\<close>, the Unicode
  table behind \<open>\w\<close>, \<open>float\<close>, the floating-point percentage) are parameters, so every
  statement holds for all their behaviours. The calls of the user interface and of \<open>log\<close>
  are recorded on a trace, in order, and do not raise. The file system is that of Linux
  without permissions and quotas: reading or moving a file that is not there raises, a
  file cannot be created at a path that cannot be encoded or under a name longer than 255
  bytes, and a text that holds a surrogate code point cannot be written as UTF-8. Every
  exception is an \<open>Exception\<close>; signals such as \<open>KeyboardInterrupt\<close> are outside the model.
\<close>

section \<open>Python strings\<close>

text \<open>
  A Python \<open>str\<close> is a sequence of Unicode code points, so it is modelled as a list of
  natural numbers (the code points), not as a list of 8-bit characters. \<open>lit\<close> turns an
  ASCII literal of the source into that representation.
\<close>

type_synonym pystr = "nat list"

definition lit :: "string \<Rightarrow> pystr" where
  "lit s = map of_char s"

text \<open>
  \<open>str.isspace\<close>: the code points that \<open>str.strip()\<close> removes when called with no
  argument (TAB..CR, FS..US, SPACE, NEL, NBSP, OGHAM SPACE MARK, EN QUAD..HAIR SPACE,
  LINE/PARAGRAPH SEPARATOR, NARROW NBSP, MEDIUM MATHEMATICAL SPACE, IDEOGRAPHIC SPACE).
\<close>

definition py_isspace :: "nat \<Rightarrow> bool" where
  "py_isspace c =
     (9 \<le> c \<and> c \<le> 13 \<or> 28 \<le> c \<and> c \<le> 32 \<or> c = 0x85 \<or> c = 0xA0 \<or> c = 0x1680
      \<or> 0x2000 \<le> c \<and> c \<le> 0x200A \<or> c = 0x2028 \<or> c = 0x2029 \<or> c = 0x202F
      \<or> c = 0x205F \<or> c = 0x3000)"

definition lstrip :: "pystr \<Rightarrow> pystr" where
  "lstrip s = dropWhile py_isspace s"

definition rstrip :: "pystr \<Rightarrow> pystr" where
  "rstrip s = rev (dropWhile py_isspace (rev s))"

definition strip :: "pystr \<Rightarrow> pystr" where
  "strip s = lstrip (rstrip s)"

text \<open>\<open>s.replace(a, b)\<close> for one-character \<open>a\<close> and \<open>b\<close>.\<close>

definition replace_char :: "nat \<Rightarrow> nat \<Rightarrow> pystr \<Rightarrow> pystr" where
  "replace_char a b s = map (\<lambda>c. if c = a then b else c) s"

definition endswith :: "pystr \<Rightarrow> pystr \<Rightarrow> bool" where
  "endswith s suffix = (length suffix \<le> length s \<and> drop (length s - length suffix) s = suffix)"

text \<open>\<open>str(n)\<close> for a non-negative integer: its decimal digits.\<close>

fun str_nat :: "nat \<Rightarrow> pystr" where
  "str_nat n = (if n < 10 then [48 + n] else str_nat (n div 10) @ [48 + n mod 10])"

declare str_nat.simps [simp del]

section \<open>\<open>safe_filename\<close>\<close>

text \<open>
  The pattern \<open>[^\w\-_\. ]\<close> is a \<open>str\<close> pattern, so \<open>\w\<close> is Unicode-aware: it matches
  \<open>[A-Za-z0-9_]\<close> and every other code point for which \<open>str.isalnum()\<close> holds. The
  ASCII part is written out; the alphanumeric property of the code points from 128 on is
  a table of the Unicode database and is the parameter \<open>uni\<close>.
\<close>

definition ascii_alnum :: "nat \<Rightarrow> bool" where
  "ascii_alnum c = (48 \<le> c \<and> c \<le> 57 \<or> 65 \<le> c \<and> c \<le> 90 \<or> 97 \<le> c \<and> c \<le> 122)"

definition re_word :: "(nat \<Rightarrow> bool) \<Rightarrow> nat \<Rightarrow> bool" where
  "re_word uni c = (if c < 128 then ascii_alnum c \<or> c = 95 else uni c)"

text \<open>The characters the pattern leaves alone: \<open>\w\<close>, \<open>-\<close>, \<open>_\<close>, \<open>.\<close> and the space.\<close>

definition kept :: "(nat \<Rightarrow> bool) \<Rightarrow> nat \<Rightarrow> bool" where
  "kept uni c = (re_word uni c \<or> c = 45 \<or> c = 95 \<or> c = 46 \<or> c = 32)"

definition safe_filename :: "(nat \<Rightarrow> bool) \<Rightarrow> pystr \<Rightarrow> pystr" where
  "safe_filename uni s =
     (let s2 = map (\<lambda>c. if kept uni c then c else 95) s
      in replace_char 32 95 (strip s2))"

text \<open>The set \<open>[A-Za-z0-9_.-]\<close> of the specification.\<close>

definition ascii_safe :: "nat \<Rightarrow> bool" where
  "ascii_safe c = (ascii_alnum c \<or> c = 95 \<or> c = 46 \<or> c = 45)"

text \<open>
  A fragment of the Unicode table: U+0621..U+064A are the Arabic letters (category Lo),
  for which \<open>str.isalnum()\<close> is true.
\<close>

definition arabic_letter :: "nat \<Rightarrow> bool" where
  "arabic_letter c = (0x621 \<le> c \<and> c \<le> 0x64A)"

section \<open>Exceptions and programs\<close>

text \<open>
  Every exception the modelled code can meet is an \<open>Exception\<close>; \<open>str_exn\<close> is \<open>str(e)\<close>.
  \<open>OSError n m p\<close> has \<open>errno\<close>, \<open>strerror\<close> and \<open>filename\<close>; \<open>UnicodeEncodeError t i j\<close> is
  raised by the \<open>utf-8\<close> codec for the surrogates of \<open>t\<close> from position \<open>i\<close> up to \<open>j\<close>
  (\<open>object\<close>, \<open>start\<close>, \<open>end\<close>). In a message a file name stands between quotes as it is.
  A program is a function from the state to a result (\<open>Inl\<close> a raised exception, \<open>Inr\<close> a
  returned value) and the state it leaves behind. \<open>py_try m h\<close> is
  \<open>try: m except Exception as e: h e\<close>.
\<close>

datatype exn = PyException pystr | FileNotFoundError pystr | ZeroDivisionError
  | OSError nat pystr pystr | UnicodeEncodeError pystr nat nat

text \<open>
  The escape of a code point in a message: a backslash, then \<open>x\<close>, \<open>u\<close> or \<open>U\<close> with two,
  four or eight hexadecimal digits.
\<close>

fun hex_pad :: "nat \<Rightarrow> nat \<Rightarrow> pystr" where
  "hex_pad 0 c = []"
| "hex_pad (Suc n) c = hex_pad n (c div 16) @ [if c mod 16 < 10 then 48 + c mod 16 else 87 + c mod 16]"

definition char_escape :: "nat \<Rightarrow> pystr" where
  "char_escape c =
     (if c \<le> 0xFF then [92, 120] @ hex_pad 2 c
      else if c \<le> 0xFFFF then [92, 117] @ hex_pad 4 c
      else [92, 85] @ hex_pad 8 c)"

fun str_exn :: "exn \<Rightarrow> pystr" where
  "str_exn (PyException m) = m"
| "str_exn (FileNotFoundError p) = lit ''[Errno 2] No such file or directory: '' @ [39] @ p @ [39]"
| "str_exn ZeroDivisionError = lit ''division by zero''"
| "str_exn (OSError n m p) = lit ''[Errno '' @ str_nat n @ lit ''] '' @ m @ lit '': '' @ [39] @ p @ [39]"
| "str_exn (UnicodeEncodeError t i j) =
     [39] @ lit ''utf-8'' @ [39] @ lit '' codec can'' @ [39] @ lit ''t encode ''
     @ (if j = i + 1 \<and> i < length t
        then lit ''character '' @ [39] @ char_escape (t ! i) @ [39] @ lit '' in position '' @ str_nat i
        else lit ''characters in position '' @ str_nat i @ [45] @ str_nat (j - 1))
     @ lit '': surrogates not allowed''"

type_synonym ('s, 'a) prog = "'s \<Rightarrow> (exn + 'a) \<times> 's"

definition py_return :: "'a \<Rightarrow> ('s, 'a) prog" where
  "py_return x s = (Inr x, s)"

definition py_raise :: "exn \<Rightarrow> ('s, 'a) prog" where
  "py_raise e s = (Inl e, s)"

definition py_bind :: "('s, 'a) prog \<Rightarrow> ('a \<Rightarrow> ('s, 'b) prog) \<Rightarrow> ('s, 'b) prog" where
  "py_bind m f s = (case m s of (Inl e, s') \<Rightarrow> (Inl e, s') | (Inr x, s') \<Rightarrow> f x s')"

definition py_then :: "('s, 'a) prog \<Rightarrow> ('s, 'b) prog \<Rightarrow> ('s, 'b) prog" where
  "py_then m n = py_bind m (\<lambda>_. n)"

definition py_try :: "('s, 'a) prog \<Rightarrow> (exn \<Rightarrow> ('s, 'a) prog) \<Rightarrow> ('s, 'a) prog" where
  "py_try m h s = (case m s of (Inl e, s') \<Rightarrow> h e s' | (Inr x, s') \<Rightarrow> (Inr x, s'))"

definition py_lift :: "exn + 'a \<Rightarrow> ('s, 'a) prog" where
  "py_lift r s = (r, s)"

fun for_each :: "('a \<Rightarrow> ('s, unit) prog) \<Rightarrow> 'a list \<Rightarrow> ('s, unit) prog" where
  "for_each f [] s = (Inr (), s)"
| "for_each f (x # xs) s = (case f x s of (Inl e, s') \<Rightarrow> (Inl e, s') | (Inr _, s') \<Rightarrow> for_each f xs s')"

section \<open>Files, effects and the environment\<close>

text \<open>
  The run touches three directories: the two scratch directories \<open>download\<close> and
  \<open>split\<close> under the fresh temporary directory, and the current working directory.
  A file system is an association list from paths to contents (for a text file the
  characters written, for a binary file its bytes). A path is one of the directories
  with the name of a file in it. Such a name is a single component of a path: it holds
  neither \<open>/\<close> nor the character \<open>NUL\<close>, which is what \<open>file_name\<close> says.
\<close>

datatype dir = DownloadDir | SplitDir | Cwd

type_synonym path = "dir \<times> pystr"

type_synonym fs = "(path \<times> pystr) list"

definition file_name :: "pystr \<Rightarrow> bool" where
  "file_name name = (47 \<notin> set name \<and> 0 \<notin> set name)"

type_synonym audio = "nat list"

text \<open>
  \<open>sorted(d.glob("*" + suffix))\<close>: the names in directory \<open>d\<close> that end in \<open>suffix\<close>,
  each once, in the order of Python's string comparison (lexicographic on code points).
\<close>

definition glob :: "dir \<Rightarrow> pystr \<Rightarrow> fs \<Rightarrow> pystr list" where
  "glob d suffix f = remdups (map (snd \<circ> fst) (filter (\<lambda>(p, _). fst p = d \<and> endswith (snd p) suffix) f))"

definition sorted_glob :: "dir \<Rightarrow> pystr \<Rightarrow> fs \<Rightarrow> pystr list" where
  "sorted_glob d suffix f = sort (glob d suffix f)"

text \<open>\<open>PurePath.stem\<close>: the name without its last suffix.\<close>

definition stem :: "pystr \<Rightarrow> pystr" where
  "stem name =
     (let k = length (takeWhile (\<lambda>c. c \<noteq> 46) (rev name)); n = length name
      in if 0 < k \<and> k + 1 < n then take (n - k - 1) name else name)"

text \<open>The messages of the user interface and of the log, by the place that issues them.\<close>

datatype msg =
    MNoUrl | MNoYtDlp | MNoFfmpeg | MMissingLib exn
  | MDownloadStart | MCookie pystr | MYtDlpError int pystr | MDownloadFailed | MDownloadOk
  | MNoWav | MMoved pystr | MAudioReady pystr
  | MDetecting | MSampling nat | MDetected pystr | MDetectFailed exn | MNoSampleText
  | MSampleError exn
  | MSplitting nat | MSplitError pystr | MSplitFailed | MSplitDone nat | MPartCount nat
  | MTranscribing | MPartStart nat nat pystr | MPreview pystr | MPartOk pystr nat
  | MPartFailed pystr exn | MProgress nat
  | MSaved pystr | MFailedCount nat | MFailedHeader | MFailedItem pystr | MAllOk
  | MTmpAuto | MTmpKept | MRaw pystr

datatype ui = Info | Success | Warning | Error | Write | Code

datatype event =
    Log msg
  | St ui msg
  | PartPreview ui msg
  | ProgressCreate nat
  | ProgressBar nat
  | ProgressText msg
  | Sleep
  | RunCmd "pystr list"
  | Recognize audio "pystr option"
  | Detect pystr
  | DownloadButton pystr pystr
  | Balloons

record completed =
  returncode :: int
  stdout :: "pystr option"
  stderr :: "pystr option"

text \<open>
  The state: the files, the rest of the world (network, remote services, anything the
  external tools remember) and the trace of effects in the order they happen.
\<close>

record 'w state =
  files :: fs
  world :: 'w
  trace :: "event list"

text \<open>
  The external collaborators. \<open>ext_run\<close> is \<open>subprocess.run\<close> with captured output: it
  may change files and world and either completes or raises. \<open>ext_record\<close> is
  \<open>sr.AudioFile\<close> with \<open>Recognizer.record\<close> on the bytes of a file (with an optional
  duration). \<open>ext_recognize\<close> is \<open>Recognizer.recognize_google\<close>, \<open>ext_detect\<close> is
  \<open>langdetect.detect\<close>; both may answer differently at every call.
  \<open>ext_percent p t\<close> is the floating-point expression \<open>int((p / t) * 100)\<close> for \<open>t > 0\<close>.
  \<open>ext_alnum\<close> is the Unicode table of \<open>safe_filename\<close>; \<open>ext_import\<close> is the exception of
  the \<open>import\<close> statements inside \<open>process_url_to_text\<close>, if they raise.
\<close>

record 'w env =
  ext_run :: "pystr list \<Rightarrow> fs \<times> 'w \<Rightarrow> (exn + completed) \<times> (fs \<times> 'w)"
  ext_record :: "pystr \<Rightarrow> nat option \<Rightarrow> exn + audio"
  ext_recognize :: "audio \<Rightarrow> pystr option \<Rightarrow> 'w \<Rightarrow> (exn + pystr) \<times> 'w"
  ext_detect :: "pystr \<Rightarrow> 'w \<Rightarrow> (exn + pystr) \<times> 'w"
  ext_percent :: "nat \<Rightarrow> nat \<Rightarrow> nat"
  ext_alnum :: "nat \<Rightarrow> bool"
  ext_import :: "exn option"

text \<open>The module-level settings read by the functions.\<close>

record config =
  bin_yt_dlp :: bool
  bin_ffmpeg :: bool
  bin_ffprobe :: bool
  sample_seconds :: nat
  segment_seconds :: nat
  auto_remove_tmp :: bool
  show_detailed_logs :: bool
  dir_str :: "dir \<Rightarrow> pystr"

definition path_str :: "config \<Rightarrow> path \<Rightarrow> pystr" where
  "path_str cfg p = dir_str cfg (fst p) @ [47] @ snd p"

definition emit :: "event \<Rightarrow> ('w state, unit) prog" where
  "emit e s = (Inr (), s\<lparr>trace := trace s @ [e]\<rparr>)"

definition log :: "msg \<Rightarrow> ('w state, unit) prog" where
  "log m = emit (Log m)"

definition st :: "ui \<Rightarrow> msg \<Rightarrow> ('w state, unit) prog" where
  "st u m = emit (St u m)"

definition part_preview :: "ui \<Rightarrow> msg \<Rightarrow> ('w state, unit) prog" where
  "part_preview u m = emit (PartPreview u m)"

definition subprocess_run :: "'w env \<Rightarrow> pystr list \<Rightarrow> ('w state, completed) prog" where
  "subprocess_run env cmd s =
     (case ext_run env cmd (files s, world s) of
        (r, f, w) \<Rightarrow> (r, s\<lparr>files := f, world := w, trace := trace s @ [RunCmd cmd]\<rparr>))"

definition recognize_google :: "'w env \<Rightarrow> audio \<Rightarrow> pystr option \<Rightarrow> ('w state, pystr) prog" where
  "recognize_google env a language s =
     (case ext_recognize env a language (world s) of
        (r, w) \<Rightarrow> (r, s\<lparr>world := w, trace := trace s @ [Recognize a language]\<rparr>))"

definition detect :: "'w env \<Rightarrow> pystr \<Rightarrow> ('w state, pystr) prog" where
  "detect env text s =
     (case ext_detect env text (world s) of
        (r, w) \<Rightarrow> (r, s\<lparr>world := w, trace := trace s @ [Detect text]\<rparr>))"

text \<open>\<open>with sr.AudioFile(str(p)) as src: recognizer.record(src, duration)\<close>.\<close>

definition audio_file_record :: "'w env \<Rightarrow> config \<Rightarrow> path \<Rightarrow> nat option \<Rightarrow> ('w state, audio) prog" where
  "audio_file_record env cfg p duration s =
     (case map_of (files s) p of
        None \<Rightarrow> (Inl (FileNotFoundError (path_str cfg p)), s)
      | Some bytes \<Rightarrow> (ext_record env bytes duration, s))"

text \<open>
  The codec \<open>utf-8\<close> refuses the surrogates, the code points from \<open>U+D800\<close> to \<open>U+DFFF\<close>:
  \<open>encode_error t\<close> is the exception of \<open>t.encode("utf-8")\<close>, if there is one, for the first
  run of surrogates of \<open>t\<close>. A path is encoded by \<open>os.fsencode\<close>, which lets the surrogates
  from \<open>U+DC80\<close> to \<open>U+DCFF\<close> stand for single bytes and refuses the others:
  \<open>fsencode_error\<close> is its exception, from the first refused code point to the end of the
  run of surrogates it is in. A file name may take at most 255 bytes (\<open>NAME_MAX\<close>), which
  \<open>name_bytes\<close> counts. \<open>create_error cfg p\<close> is the exception met when a file is created
  at path \<open>p\<close>, if there is one, for a path with a file name. The names of the files
  that exist are taken to be encodable, since a directory listing decodes them from
  bytes.
\<close>

definition utf8_len :: "nat \<Rightarrow> nat" where
  "utf8_len c = (if c < 0x80 then 1 else if c < 0x800 then 2 else if c < 0x10000 then 3 else 4)"

definition surrogate :: "nat \<Rightarrow> bool" where
  "surrogate c = (0xD800 \<le> c \<and> c \<le> 0xDFFF)"

definition escaped :: "nat \<Rightarrow> bool" where
  "escaped c = (0xDC80 \<le> c \<and> c \<le> 0xDCFF)"

definition name_bytes :: "pystr \<Rightarrow> nat" where
  "name_bytes name = sum_list (map (\<lambda>c. if escaped c then 1 else utf8_len c) name)"

definition encode_error :: "pystr \<Rightarrow> exn option" where
  "encode_error t =
     (let start = length (takeWhile (\<lambda>c. \<not> surrogate c) t)
      in if start < length t
         then Some (UnicodeEncodeError t start (start + length (takeWhile surrogate (drop start t))))
         else None)"

definition fsencode_error :: "pystr \<Rightarrow> exn option" where
  "fsencode_error t =
     (let start = length (takeWhile (\<lambda>c. \<not> (surrogate c \<and> \<not> escaped c)) t)
      in if start < length t
         then Some (UnicodeEncodeError t start (start + length (takeWhile surrogate (drop start t))))
         else None)"

definition create_error :: "config \<Rightarrow> path \<Rightarrow> exn option" where
  "create_error cfg p =
     (case fsencode_error (path_str cfg p) of
        Some e \<Rightarrow> Some e
      | None \<Rightarrow>
          if 255 < name_bytes (snd p)
          then Some (OSError 36 (lit ''File name too long'') (path_str cfg p))
          else None)"

text \<open>
  \<open>open(p, "rb")\<close> with the whole file read. \<open>open(p, "w", encoding="utf-8")\<close>, which
  creates the file or empties it, and \<open>f.write(t)\<close> on the file opened at \<open>p\<close>, which
  appends \<open>t\<close> unless \<open>t\<close> cannot be encoded; what was written before stays in the file
  when the \<open>with\<close> block is left by an exception. \<open>shutil.move(src, dst)\<close> for files:
  both paths are encoded before anything is looked up, and when the destination cannot
  be created the source stays where it is.
\<close>

definition open_rb :: "config \<Rightarrow> path \<Rightarrow> ('w state, pystr) prog" where
  "open_rb cfg p s =
     (case map_of (files s) p of
        None \<Rightarrow> (Inl (FileNotFoundError (path_str cfg p)), s)
      | Some bytes \<Rightarrow> (Inr bytes, s))"

definition open_w :: "config \<Rightarrow> path \<Rightarrow> ('w state, unit) prog" where
  "open_w cfg p s =
     (case create_error cfg p of
        Some e \<Rightarrow> (Inl e, s)
      | None \<Rightarrow> (Inr (), s\<lparr>files := AList.update p [] (files s)\<rparr>))"

definition file_write :: "path \<Rightarrow> pystr \<Rightarrow> ('w state, unit) prog" where
  "file_write p t s =
     (case encode_error t of
        Some e \<Rightarrow> (Inl e, s)
      | None \<Rightarrow>
          (Inr (), s\<lparr>files := AList.update p
                      ((case map_of (files s) p of None \<Rightarrow> [] | Some written \<Rightarrow> written) @ t)
                      (files s)\<rparr>))"

definition shutil_move :: "config \<Rightarrow> path \<Rightarrow> path \<Rightarrow> ('w state, unit) prog" where
  "shutil_move cfg src dst s =
     (case fsencode_error (path_str cfg dst) of
        Some e \<Rightarrow> (Inl e, s)
      | None \<Rightarrow>
          (case map_of (files s) src of
             None \<Rightarrow> (Inl (FileNotFoundError (path_str cfg src)), s)
           | Some bytes \<Rightarrow>
               if 255 < name_bytes (snd dst)
               then (Inl (OSError 36 (lit ''File name too long'') (path_str cfg dst)), s)
               else (Inr (), s\<lparr>files := AList.update dst bytes (AList.delete src (files s))\<rparr>)))"

text \<open>
  \<open>with tempfile.TemporaryDirectory(...) as base_tmp\<close> and the two \<open>mkdir\<close>: the scratch
  directories are new and empty when the body starts, and are removed when it ends,
  however it ends.
\<close>

definition in_tmp :: "path \<times> pystr \<Rightarrow> bool" where
  "in_tmp e = (fst (fst e) = DownloadDir \<or> fst (fst e) = SplitDir)"

definition clear_tmp :: "'w state \<Rightarrow> 'w state" where
  "clear_tmp s = s\<lparr>files := filter (\<lambda>e. \<not> in_tmp e) (files s)\<rparr>"

definition with_temporary_directory :: "('w state, 'a) prog \<Rightarrow> ('w state, 'a) prog" where
  "with_temporary_directory body s =
     (case body (clear_tmp s) of (r, s') \<Rightarrow> (r, clear_tmp s'))"

section \<open>\<open>run_cmd_capture\<close> and \<open>get_duration_seconds\<close>\<close>

definition or_empty :: "pystr option \<Rightarrow> pystr" where
  "or_empty x = (case x of None \<Rightarrow> [] | Some v \<Rightarrow> v)"

definition run_cmd_capture :: "'w env \<Rightarrow> pystr list \<Rightarrow> ('w state, int \<times> pystr \<times> pystr) prog" where
  "run_cmd_capture env cmd =
     py_try
       (py_bind (subprocess_run env cmd) (\<lambda>completed.
          py_return (returncode completed, or_empty (stdout completed), or_empty (stderr completed))))
       (\<lambda>e. py_return (1, [], str_exn e))"

definition ffprobe_cmd :: "config \<Rightarrow> path \<Rightarrow> pystr list" where
  "ffprobe_cmd cfg file_path =
     [lit ''ffprobe'', lit ''-v'', lit ''error'', lit ''-show_entries'', lit ''format=duration'',
      lit ''-of'', lit ''default=noprint_wrappers=1:nokey=1'', path_str cfg file_path]"

text \<open>
  \<open>py_float\<close> is Python's \<open>float(str)\<close>, which raises \<open>ValueError\<close> on text that is not a
  number; the result type stands for Python's floats and \<open>0\<close> for \<open>0.0\<close>.
\<close>

definition get_duration_seconds ::
  "'w env \<Rightarrow> config \<Rightarrow> (pystr \<Rightarrow> exn + 'f) \<Rightarrow> path \<Rightarrow> ('w state, 'f::zero) prog" where
  "get_duration_seconds env cfg py_float file_path =
     (if \<not> bin_ffprobe cfg then py_return 0
      else py_bind (run_cmd_capture env (ffprobe_cmd cfg file_path)) (\<lambda>(rc, out, err).
        if rc = 0 then py_try (py_lift (py_float (strip out))) (\<lambda>_. py_return 0)
        else py_return 0))"

section \<open>The stages of \<open>process_url_to_text\<close>\<close>

text \<open>
  \<open>process_url_to_text\<close> is one long function; it is cut here at its own section
  comments. A stage that leaves the function with a bare \<open>return\<close> yields \<open>None\<close>, and
  otherwise the values the rest of the function uses. The paths \<open>Path.cwd() / name\<close> are
  the pairs \<open>(Cwd, name)\<close>; the names the function makes up are file names, as
  \<open>safe_filename\<close> keeps neither \<open>/\<close> nor \<open>NUL\<close>.
\<close>

subsection \<open>Download (yt-dlp) and relocation of the WAV file\<close>

definition yt_cmd :: "config \<Rightarrow> pystr \<Rightarrow> pystr \<Rightarrow> pystr list" where
  "yt_cmd cfg url cookie_file =
     [lit ''yt-dlp'', lit ''--extract-audio'', lit ''--audio-format'', lit ''wav'',
      lit ''--no-playlist'', lit ''-o'',
      path_str cfg (DownloadDir, lit ''%(title).100s-%(id)s.%(ext)s''),
      lit ''--no-warnings'', lit ''--embed-metadata'']
     @ (if cookie_file \<noteq> [] then [lit ''--cookies'', cookie_file] else [])
     @ [url]"

definition title_of :: "'w env \<Rightarrow> pystr \<Rightarrow> pystr \<Rightarrow> pystr" where
  "title_of env prefix src_name =
     (let title_base = safe_filename (ext_alnum env) (stem src_name)
      in if prefix \<noteq> [] then safe_filename (ext_alnum env) prefix @ [95] @ title_base
         else title_base)"

definition acquire_audio ::
  "'w env \<Rightarrow> config \<Rightarrow> pystr \<Rightarrow> pystr \<Rightarrow> pystr \<Rightarrow> ('w state, (path \<times> pystr) option) prog" where
  "acquire_audio env cfg url cookie_file prefix =
     py_then (log MDownloadStart)
    (py_then (st Info MDownloadStart)
    (py_then (if cookie_file \<noteq> [] then log (MCookie cookie_file) else py_return ())
    (py_bind (run_cmd_capture env (yt_cmd cfg url cookie_file)) (\<lambda>(rc, out, err).
       if rc \<noteq> 0 then
         py_then (log (MYtDlpError rc err))
        (py_then (st Error MDownloadFailed)
        (py_then (if show_detailed_logs cfg then st Code (MRaw (if err \<noteq> [] then err else out))
                  else py_return ())
        (py_return None)))
       else
         py_then (log MDownloadOk)
        (\<lambda>s. (case sorted_glob DownloadDir (lit ''.wav'') (files s) of
                [] \<Rightarrow>
                  py_then (log MNoWav) (py_then (st Error MNoWav) (py_return None))
              | src_name # _ \<Rightarrow>
                  (let title_base = title_of env prefix src_name;
                       dst_wav = (Cwd, title_base @ lit ''.wav'')
                   in py_then (shutil_move cfg (DownloadDir, src_name) dst_wav)
                     (py_then (log (MMoved (path_str cfg dst_wav)))
                     (py_then (st Success (MAudioReady (snd dst_wav)))
                     (py_return (Some (dst_wav, title_base)))))))
              s)))))"

subsection \<open>Language detection from a short sample\<close>

definition sample_transcribe :: "'w env \<Rightarrow> audio \<Rightarrow> ('w state, pystr) prog" where
  "sample_transcribe env sample_audio =
     py_try (recognize_google env sample_audio None)
       (\<lambda>_. py_try (recognize_google env sample_audio (Some (lit ''ar'')))
          (\<lambda>_. py_return []))"

definition detect_language :: "'w env \<Rightarrow> config \<Rightarrow> path \<Rightarrow> ('w state, pystr) prog" where
  "detect_language env cfg dst_wav =
     py_then (st Info MDetecting)
    (py_then (log (MSampling (sample_seconds cfg)))
    (py_try
       (py_bind (audio_file_record env cfg dst_wav (Some (sample_seconds cfg))) (\<lambda>sample_audio.
        py_bind (sample_transcribe env sample_audio) (\<lambda>sample_text.
          if strip sample_text \<noteq> [] then
            py_try
              (py_bind (detect env sample_text) (\<lambda>detected_lang.
               py_then (log (MDetected detected_lang))
              (py_then (st Success (MDetected detected_lang))
              (py_return detected_lang))))
              (\<lambda>e. py_then (log (MDetectFailed e))
                   (py_then (st Warning (MDetectFailed e))
                   (py_return (lit ''en''))))
          else
            py_then (log MNoSampleText)
           (py_then (st Warning MNoSampleText)
           (py_return (lit ''en''))))))
       (\<lambda>e. py_then (log (MSampleError e))
            (py_then (st Warning (MSampleError e))
            (py_return (lit ''en''))))))"

subsection \<open>Splitting (ffmpeg)\<close>

definition split_cmd :: "config \<Rightarrow> path \<Rightarrow> pystr list" where
  "split_cmd cfg dst_wav =
     [lit ''ffmpeg'', lit ''-y'', lit ''-i'', path_str cfg dst_wav, lit ''-f'', lit ''segment'',
      lit ''-segment_time'', str_nat (segment_seconds cfg), lit ''-c'', lit ''copy'',
      path_str cfg (SplitDir, lit ''part_%03d.wav'')]"

definition split_audio :: "'w env \<Rightarrow> config \<Rightarrow> path \<Rightarrow> ('w state, pystr list option) prog" where
  "split_audio env cfg dst_wav =
     py_then (st Info (MSplitting (segment_seconds cfg)))
    (py_then (log (MSplitting (segment_seconds cfg)))
    (py_bind (run_cmd_capture env (split_cmd cfg dst_wav)) (\<lambda>(rc, out, err).
       if rc \<noteq> 0 then
         py_then (log (MSplitError err))
        (py_then (st Error MSplitFailed)
        (py_then (if show_detailed_logs cfg then st Code (MRaw (if err \<noteq> [] then err else out))
                  else py_return ())
        (py_return None)))
       else
         (\<lambda>s. (let split_files = sorted_glob SplitDir (lit ''.wav'') (files s);
                    total_parts = length split_files
                in py_then (st Success (MSplitDone total_parts))
                  (py_then (log (MPartCount total_parts))
                  (py_return (Some split_files))))
               s))))"

subsection \<open>The transcription loop\<close>

text \<open>The variables the loop updates.\<close>

record vars =
  text_lines :: "pystr list"
  failed_parts :: "pystr list"
  parts_processed :: nat

text \<open>The four nested \<open>try\<close> blocks around \<open>recognize_google\<close>.\<close>

definition recognize_part :: "'w env \<Rightarrow> pystr \<Rightarrow> audio \<Rightarrow> ('w state, pystr) prog" where
  "recognize_part env detected_lang audio_data =
     py_try (recognize_google env audio_data (Some detected_lang))
       (\<lambda>e1. py_try (recognize_google env audio_data None)
          (\<lambda>_. py_try (recognize_google env audio_data (Some (lit ''ar'')))
             (\<lambda>_. py_try (recognize_google env audio_data (Some (lit ''en'')))
                (\<lambda>e_final. py_raise e_final))))"

text \<open>The body of the outer \<open>try\<close> of one iteration.\<close>

definition try_part ::
  "'w env \<Rightarrow> config \<Rightarrow> pystr \<Rightarrow> pystr \<Rightarrow> vars \<Rightarrow> ('w state, vars) prog" where
  "try_part env cfg detected_lang part v =
     py_bind (audio_file_record env cfg (SplitDir, part) None) (\<lambda>audio_data.
     py_bind (recognize_part env detected_lang audio_data) (\<lambda>text.
     py_then (part_preview Success
                (MPreview (take 600 text @ (if 600 < length text then lit ''...'' else []))))
    (py_then (log (MPartOk part (length text)))
    (py_return (v\<lparr>text_lines := text_lines v @ [text]\<rparr>)))))"

text \<open>\<open>int((parts_processed / total_parts) * 100)\<close>: the division raises on zero.\<close>

definition py_percent :: "'w env \<Rightarrow> nat \<Rightarrow> nat \<Rightarrow> ('w state, nat) prog" where
  "py_percent env p t = (if t = 0 then py_raise ZeroDivisionError else py_return (ext_percent env p t))"

text \<open>The outer \<open>try\<close> statement of one iteration with its \<open>except\<close> clause.\<close>

definition try_except_part ::
  "'w env \<Rightarrow> config \<Rightarrow> pystr \<Rightarrow> pystr \<Rightarrow> vars \<Rightarrow> ('w state, vars) prog" where
  "try_except_part env cfg detected_lang part v1 =
     py_try (try_part env cfg detected_lang part v1)
       (\<lambda>e. py_then (log (MPartFailed part e))
            (py_then (part_preview Warning (MPartFailed part e))
            (py_return (v1\<lparr>failed_parts := failed_parts v1 @ [part]\<rparr>))))"

definition loop_body ::
  "'w env \<Rightarrow> config \<Rightarrow> pystr \<Rightarrow> nat \<Rightarrow> nat \<times> pystr \<Rightarrow> vars \<Rightarrow> ('w state, vars) prog" where
  "loop_body env cfg detected_lang total_parts ip v =
     (let idx = fst ip; part = snd ip;
          v1 = v\<lparr>parts_processed := parts_processed v + 1\<rparr>
      in py_then (log (MPartStart idx total_parts part))
        (py_then (part_preview Info (MPartStart idx total_parts part))
        (py_bind (try_except_part env cfg detected_lang part v1) (\<lambda>v2.
         py_bind (py_percent env (parts_processed v2) total_parts) (\<lambda>percent.
         py_then (emit (ProgressBar percent))
        (py_then (emit (ProgressText (MProgress percent)))
        (py_then (emit Sleep)
        (py_return v2))))))))"

fun for_parts ::
  "'w env \<Rightarrow> config \<Rightarrow> pystr \<Rightarrow> nat \<Rightarrow> (nat \<times> pystr) list \<Rightarrow> vars \<Rightarrow> ('w state, vars) prog" where
  "for_parts env cfg detected_lang total_parts [] v s = (Inr v, s)"
| "for_parts env cfg detected_lang total_parts (ip # rest) v s =
     (case loop_body env cfg detected_lang total_parts ip v s of
        (Inl e, s') \<Rightarrow> (Inl e, s')
      | (Inr v', s') \<Rightarrow> for_parts env cfg detected_lang total_parts rest v' s')"

definition transcribe_loop ::
  "'w env \<Rightarrow> config \<Rightarrow> pystr \<Rightarrow> pystr list \<Rightarrow> ('w state, vars) prog" where
  "transcribe_loop env cfg detected_lang split_files =
     py_then (st Info MTranscribing)
    (py_then (emit (ProgressCreate 0))
    (for_parts env cfg detected_lang (length split_files) (List.enumerate 1 split_files)
       \<lparr>text_lines = [], failed_parts = [], parts_processed = 0\<rparr>))"

subsection \<open>Saving the text and reporting\<close>

text \<open>
  The text file is opened with \<open>"w"\<close> and \<open>for line in text_lines: f.write(line + "\n\n")\<close>
  writes it; neither is inside a \<open>try\<close>.
\<close>

definition save_text ::
  "config \<Rightarrow> pystr \<Rightarrow> pystr list \<Rightarrow> pystr list \<Rightarrow> ('w state, path) prog" where
  "save_text cfg title_base lines failed =
     (let final_txt = (Cwd, title_base @ lit ''.txt'')
      in py_then (open_w cfg final_txt)
        (py_then (for_each (\<lambda>line. file_write final_txt (line @ [10, 10])) lines)
        (py_then (st Success (MSaved (snd final_txt)))
        (py_then (log (MSaved (snd final_txt)))
        (py_then
           (if failed \<noteq> [] then
              py_then (st Error (MFailedCount (length failed)))
             (py_then (st Write MFailedHeader)
             (for_each (\<lambda>p. st Write (MFailedItem p)) failed))
            else st Success MAllOk)
        (py_return final_txt))))))"

definition offer_downloads :: "config \<Rightarrow> path \<Rightarrow> path \<Rightarrow> ('w state, unit) prog" where
  "offer_downloads cfg final_txt dst_wav =
     py_bind (open_rb cfg final_txt) (\<lambda>f.
     py_then (emit (DownloadButton f (snd final_txt)))
    (py_bind (open_rb cfg dst_wav) (\<lambda>f.
     py_then (emit (DownloadButton f (snd dst_wav)))
    (py_then (if auto_remove_tmp cfg then log MTmpAuto else st Info MTmpKept)
    (py_then (emit Balloons)
    (py_then (emit (ProgressBar 100))
    (py_return ())))))))"

subsection \<open>The whole function\<close>

text \<open>What the function does once the audio is split: the loop, the text file, the report.\<close>

definition transcribe_and_save ::
  "'w env \<Rightarrow> config \<Rightarrow> pystr \<Rightarrow> path \<Rightarrow> pystr \<Rightarrow> pystr list \<Rightarrow> ('w state, unit) prog" where
  "transcribe_and_save env cfg detected_lang dst_wav title_base split_files =
     py_bind (transcribe_loop env cfg detected_lang split_files) (\<lambda>v.
     py_bind (save_text cfg title_base (text_lines v) (failed_parts v)) (\<lambda>final_txt.
     offer_downloads cfg final_txt dst_wav))"

definition process_url_to_text ::
  "'w env \<Rightarrow> config \<Rightarrow> pystr \<Rightarrow> pystr \<Rightarrow> pystr \<Rightarrow> ('w state, unit) prog" where
  "process_url_to_text env cfg url cookie_file prefix =
     (if url = [] then py_then (st Error MNoUrl) (py_return ())
      else if \<not> bin_yt_dlp cfg then py_then (st Error MNoYtDlp) (py_return ())
      else if \<not> bin_ffmpeg cfg then py_then (st Error MNoFfmpeg) (py_return ())
      else case ext_import env of
        Some e \<Rightarrow> py_then (st Error (MMissingLib e)) (py_return ())
      | None \<Rightarrow>
          with_temporary_directory
            (py_bind (acquire_audio env cfg url cookie_file prefix) (\<lambda>acquired.
               case acquired of
                 None \<Rightarrow> py_return ()
               | Some (dst_wav, title_base) \<Rightarrow>
                   py_bind (detect_language env cfg dst_wav) (\<lambda>detected_lang.
                   py_bind (split_audio env cfg dst_wav) (\<lambda>split.
                     case split of
                       None \<Rightarrow> py_return ()
                     | Some split_files \<Rightarrow>
                         transcribe_and_save env cfg detected_lang dst_wav title_base split_files)))))"

section \<open>The specification's view of the transcription loop\<close>

text \<open>
  These definitions follow the words of the specification, not the code: an outcome per
  segment, the ordered list of language hints tried until the first success, and
  \<open>transcribeAll\<close>, which returns the outcomes in segment order. They also return the
  recognition attempts made, as pairs of audio and hint, and the world they leave. The
  specification does not say what a segment gives whose audio cannot be read; here it
  gives a failure, with no attempt.
\<close>

datatype outcome = Recognized pystr | Failed pystr

fun first_success ::
  "'w env \<Rightarrow> audio \<Rightarrow> pystr option \<Rightarrow> pystr option list \<Rightarrow> 'w
   \<Rightarrow> (exn + pystr) \<times> pystr option list \<times> 'w" where
  "first_success env a h [] w =
     (case ext_recognize env a h w of (r, w') \<Rightarrow> (r, [h], w'))"
| "first_success env a h (h' # hs) w =
     (case ext_recognize env a h w of
        (Inr t, w') \<Rightarrow> (Inr t, [h], w')
      | (Inl e, w') \<Rightarrow>
          (case first_success env a h' hs w' of (r, tried, w'') \<Rightarrow> (r, h # tried, w'')))"

definition transcribe_segment ::
  "'w env \<Rightarrow> pystr \<Rightarrow> fs \<Rightarrow> pystr \<Rightarrow> 'w \<Rightarrow> outcome \<times> (audio \<times> pystr option) list \<times> 'w" where
  "transcribe_segment env languageCode f segment w =
     (case map_of f (SplitDir, segment) of
        None \<Rightarrow> (Failed segment, [], w)
      | Some bytes \<Rightarrow>
          (case ext_record env bytes None of
             Inl e \<Rightarrow> (Failed segment, [], w)
           | Inr a \<Rightarrow>
               (case first_success env a (Some languageCode)
                       [None, Some (lit ''ar''), Some (lit ''en'')] w of
                  (Inr text, tried, w') \<Rightarrow> (Recognized text, map (Pair a) tried, w')
                | (Inl e, tried, w') \<Rightarrow> (Failed segment, map (Pair a) tried, w'))))"

fun transcribeAll ::
  "'w env \<Rightarrow> pystr \<Rightarrow> fs \<Rightarrow> pystr list \<Rightarrow> 'w
   \<Rightarrow> outcome list \<times> (audio \<times> pystr option) list \<times> 'w" where
  "transcribeAll env languageCode f [] w = ([], [], w)"
| "transcribeAll env languageCode f (segment # segments) w =
     (case transcribe_segment env languageCode f segment w of
        (out, att, w') \<Rightarrow>
          (case transcribeAll env languageCode f segments w' of
             (outs, atts, w'') \<Rightarrow> (out # outs, att @ atts, w'')))"

definition texts_of :: "outcome list \<Rightarrow> pystr list" where
  "texts_of outs = concat (map (\<lambda>out. case out of Recognized t \<Rightarrow> [t] | Failed _ \<Rightarrow> []) outs)"

definition failures_of :: "outcome list \<Rightarrow> pystr list" where
  "failures_of outs = concat (map (\<lambda>out. case out of Recognized _ \<Rightarrow> [] | Failed n \<Rightarrow> [n]) outs)"

text \<open>What one outcome does to the loop's variables and which messages announce it.\<close>

definition record_outcome :: "outcome \<Rightarrow> vars \<Rightarrow> vars" where
  "record_outcome out v =
     (case out of
        Recognized t \<Rightarrow> v\<lparr>text_lines := text_lines v @ [t]\<rparr>
      | Failed n \<Rightarrow> v\<lparr>failed_parts := failed_parts v @ [n]\<rparr>)"

definition outcome_events :: "pystr \<Rightarrow> outcome \<Rightarrow> exn \<Rightarrow> event list" where
  "outcome_events part out e =
     (case out of
        Recognized t \<Rightarrow>
          [PartPreview Success (MPreview (take 600 t @ (if 600 < length t then lit ''...'' else []))),
           Log (MPartOk part (length t))]
      | Failed _ \<Rightarrow> [Log (MPartFailed part e), PartPreview Warning (MPartFailed part e)])"

section \<open>Observations on the trace\<close>

definition recognize_calls :: "event list \<Rightarrow> (audio \<times> pystr option) list" where
  "recognize_calls tr = concat (map (\<lambda>e. case e of Recognize a h \<Rightarrow> [(a, h)] | _ \<Rightarrow> []) tr)"

definition detect_calls :: "event list \<Rightarrow> pystr list" where
  "detect_calls tr = concat (map (\<lambda>e. case e of Detect t \<Rightarrow> [t] | _ \<Rightarrow> []) tr)"

definition run_calls :: "event list \<Rightarrow> pystr list list" where
  "run_calls tr = concat (map (\<lambda>e. case e of RunCmd c \<Rightarrow> [c] | _ \<Rightarrow> []) tr)"

text \<open>
  The steps of the loop that matter for progress reporting: a segment is started, it is
  finished (recognised or failed), the progress bar is set.
\<close>

datatype step = Started nat pystr | Finished pystr | Progressed nat

definition step_of :: "event \<Rightarrow> step list" where
  "step_of e =
     (case e of
        Log m \<Rightarrow>
          (case m of
             MPartStart i n p \<Rightarrow> [Started i p]
           | MPartOk p k \<Rightarrow> [Finished p]
           | MPartFailed p x \<Rightarrow> [Finished p]
           | _ \<Rightarrow> [])
      | ProgressBar k \<Rightarrow> [Progressed k]
      | _ \<Rightarrow> [])"

definition progress_steps :: "event list \<Rightarrow> step list" where
  "progress_steps tr = concat (map step_of tr)"

text \<open>The values passed to \<open>progress_bar.progress\<close>, in the order of the calls.\<close>

definition progress_calls :: "event list \<Rightarrow> nat list" where
  "progress_calls tr = concat (map (\<lambda>e. case e of ProgressBar k \<Rightarrow> [k] | _ \<Rightarrow> []) tr)"

section \<open>A scripted environment for concrete runs\<close>

text \<open>
  A table of installed tools: the name of the program, its exit code, what it prints and
  the files it creates. A program that is not in the table is not installed, and running
  it raises, as \<open>subprocess.run\<close> does. The world counts the calls made.
\<close>

definition demo_run ::
  "(pystr \<times> int \<times> pystr \<times> fs) list \<Rightarrow> pystr list \<Rightarrow> fs \<times> nat
   \<Rightarrow> (exn + completed) \<times> (fs \<times> nat)" where
  "demo_run tools cmd fw =
     (case cmd of
        [] \<Rightarrow> (Inl (PyException (lit ''list index out of range'')), fw)
      | tool # _ \<Rightarrow>
          (case map_of tools tool of
             None \<Rightarrow> (Inl (FileNotFoundError tool), fw)
           | Some (rc, out, created) \<Rightarrow>
               (Inr \<lparr>returncode = rc, stdout = Some out, stderr = Some []\<rparr>,
                (created @ fst fw, Suc (snd fw)))))"

definition demo_record :: "pystr \<Rightarrow> nat option \<Rightarrow> exn + audio" where
  "demo_record bytes duration =
     (if bytes = [] then Inl (PyException (lit ''not a WAV file'')) else Inr bytes)"

text \<open>
  The first byte of the audio says which hint the recogniser needs (0: any, 1: none,
  2: \<open>ar\<close>, 3: \<open>en\<close>, otherwise it never understands); the rest is the text it hears.
\<close>

definition demo_recognize :: "audio \<Rightarrow> pystr option \<Rightarrow> nat \<Rightarrow> (exn + pystr) \<times> nat" where
  "demo_recognize a language n =
     (case a of
        [] \<Rightarrow> (Inl (PyException (lit ''UnknownValueError'')), Suc n)
      | k # text \<Rightarrow>
          if text \<noteq> []
             \<and> (k = 0 \<or> k = 1 \<and> language = None \<or> k = 2 \<and> language = Some (lit ''ar'')
                \<or> k = 3 \<and> language = Some (lit ''en''))
          then (Inr text, Suc n)
          else (Inl (PyException (lit ''UnknownValueError'')), Suc n))"

definition demo_detect :: "pystr \<Rightarrow> nat \<Rightarrow> (exn + pystr) \<times> nat" where
  "demo_detect text n =
     (if list_ex arabic_letter text then (Inr (lit ''ar''), Suc n)
      else if length text < 3 then (Inl (PyException (lit ''LangDetectException'')), Suc n)
      else (Inr (lit ''en''), Suc n))"

definition demo_env :: "(pystr \<times> int \<times> pystr \<times> fs) list \<Rightarrow> nat env" where
  "demo_env tools =
     \<lparr>ext_run = demo_run tools, ext_record = demo_record, ext_recognize = demo_recognize,
      ext_detect = demo_detect, ext_percent = (\<lambda>p t. p * 100 div t),
      ext_alnum = arabic_letter, ext_import = None\<rparr>"

text \<open>The same environment with a recogniser that always answers with the empty text.\<close>

definition silent_env :: "(pystr \<times> int \<times> pystr \<times> fs) list \<Rightarrow> nat env" where
  "silent_env tools = (demo_env tools)\<lparr>ext_recognize := (\<lambda>a language n. (Inr [], Suc n))\<rparr>"

definition demo_dir :: "dir \<Rightarrow> pystr" where
  "demo_dir d =
     (case d of
        DownloadDir \<Rightarrow> lit ''/tmp/vid2text_x/download''
      | SplitDir \<Rightarrow> lit ''/tmp/vid2text_x/split''
      | Cwd \<Rightarrow> lit ''/app'')"

definition demo_cfg :: config where
  "demo_cfg =
     \<lparr>bin_yt_dlp = True, bin_ffmpeg = True, bin_ffprobe = True, sample_seconds = 20,
      segment_seconds = 300, auto_remove_tmp = True, show_detailed_logs = False,
      dir_str = demo_dir\<rparr>"

definition demo_state :: "fs \<Rightarrow> nat state" where
  "demo_state f = \<lparr>files = f, world = 0, trace = []\<rparr>"

text \<open>A stand-in for \<open>float\<close> that reads whole seconds and rejects everything else.\<close>

definition demo_float :: "pystr \<Rightarrow> exn + nat" where
  "demo_float s =
     (if s \<noteq> [] \<and> list_all (\<lambda>c. 48 \<le> c \<and> c \<le> 57) s
      then Inr (foldl (\<lambda>a c. 10 * a + (c - 48)) 0 s)
      else Inl (PyException (lit ''could not convert string to float'')))"

text \<open>Three segment files: one understood at once, one never, one only with hint \<open>ar\<close>.\<close>

definition demo_parts :: fs where
  "demo_parts =
     [((SplitDir, lit ''part_000.wav''), 0 # lit ''hello''),
      ((SplitDir, lit ''part_001.wav''), [4, 1]),
      ((SplitDir, lit ''part_002.wav''), 2 # lit ''bye'')]"

definition demo_names :: "pystr list" where
  "demo_names = [lit ''part_000.wav'', lit ''part_001.wav'', lit ''part_002.wav'']"

text \<open>The relocated audio file of the concrete runs, and an Arabic word (marhaban).\<close>

definition demo_wav :: path where
  "demo_wav = (Cwd, lit ''a.wav'')"

definition marhaban :: pystr where
  "marhaban = [0x645, 0x631, 0x62D, 0x628, 0x627]"

text \<open>
  Two tables of tools. With \<open>demo_tools\<close> the download leaves two WAV files and the
  splitter makes the three segments; with \<open>quiet_tools\<close> the download leaves one WAV file
  and the splitter makes no segment.
\<close>

definition demo_url :: pystr where
  "demo_url = lit ''https://x''"

definition demo_tools :: "(pystr \<times> int \<times> pystr \<times> fs) list" where
  "demo_tools =
     [(lit ''yt-dlp'', 0, [],
       [((DownloadDir, lit ''b talk-2.wav''), 0 # lit ''hello''),
        ((DownloadDir, lit ''a talk!-1.wav''), 0 # marhaban)]),
      (lit ''ffmpeg'', 0, [], demo_parts)]"

definition quiet_tools :: "(pystr \<times> int \<times> pystr \<times> fs) list" where
  "quiet_tools =
     [(lit ''yt-dlp'', 0, [], [((DownloadDir, lit ''a talk!-1.wav''), 0 # marhaban)]),
      (lit ''ffmpeg'', 0, [], [])]"

text \<open>A prefix of 300 letters \<open>a\<close>, as the user may type it.\<close>

definition long_prefix :: pystr where
  "long_prefix = replicate 300 97"

text \<open>The outcomes of the three segments of the concrete run.\<close>

definition demo_outs :: "outcome list" where
  "demo_outs = [Recognized (lit ''hello''), Failed (lit ''part_001.wav''), Recognized (lit ''bye'')]"

section \<open>Auxiliary notions for the statements\<close>

text \<open>What \<open>run_cmd_capture\<close> returns for an outcome of \<open>subprocess.run\<close>.\<close>

definition captured :: "exn + completed \<Rightarrow> int \<times> pystr \<times> pystr" where
  "captured r =
     (case r of
        Inr c \<Rightarrow> (returncode c, or_empty (stdout c), or_empty (stderr c))
      | Inl e \<Rightarrow> (1, [], str_exn e))"

text \<open>The messages that open the download stage and the language detection stage.\<close>

definition acquire_opening :: "pystr \<Rightarrow> event list" where
  "acquire_opening cookie_file =
     [Log MDownloadStart, St Info MDownloadStart]
     @ (if cookie_file \<noteq> [] then [Log (MCookie cookie_file)] else [])"

definition announced :: "config \<Rightarrow> 'w state \<Rightarrow> 'w state" where
  "announced cfg s =
     s\<lparr>trace := trace s @ [St Info MDetecting, Log (MSampling (sample_seconds cfg))]\<rparr>"

text \<open>A recognition attempt that gives no usable text: it raised, or the text is blank.\<close>

definition no_text :: "exn + pystr \<Rightarrow> bool" where
  "no_text r = (case r of Inl _ \<Rightarrow> True | Inr t \<Rightarrow> strip t = [])"

text \<open>
  The first answer among the results of successive attempts, each given with the world
  it leaves.
\<close>

fun first_answer :: "((exn + 'a) \<times> 'w) list \<Rightarrow> ('a \<times> 'w) option" where
  "first_answer [] = None"
| "first_answer ((Inr t, w) # rest) = Some (t, w)"
| "first_answer ((Inl e, w) # rest) = first_answer rest"

text \<open>
  What the writes of \<open>save_text\<close> put into the text file when each of them succeeds, and
  the texts for which they do.
\<close>

definition written_text :: "pystr list \<Rightarrow> pystr" where
  "written_text lines = foldl (\<lambda>file line. file @ (line @ [10, 10])) [] lines"

definition encodable :: "pystr \<Rightarrow> bool" where
  "encodable t = list_all (\<lambda>c. \<not> surrogate c) t"

text \<open>What a run shows after the splitter has produced no segment at all.\<close>

definition empty_run_events :: "config \<Rightarrow> pystr \<Rightarrow> pystr \<Rightarrow> pystr \<Rightarrow> event list" where
  "empty_run_events cfg title_base wav_name bytes =
     [St Info MTranscribing, ProgressCreate 0,
      St Success (MSaved (title_base @ lit ''.txt'')), Log (MSaved (title_base @ lit ''.txt'')),
      St Success MAllOk,
      DownloadButton [] (title_base @ lit ''.txt''),
      DownloadButton bytes wav_name,
      if auto_remove_tmp cfg then Log MTmpAuto else St Info MTmpKept,
      Balloons, ProgressBar 100]"

section \<open>Basic facts\<close>

lemmas prog_defs = py_return_def py_raise_def py_bind_def py_then_def py_try_def py_lift_def

lemmas eff_defs = emit_def log_def st_def part_preview_def

lemmas demo_defs = demo_env_def silent_env_def demo_run_def demo_record_def demo_recognize_def
  demo_detect_def demo_cfg_def demo_state_def demo_dir_def demo_float_def

lemmas str_defs = lit_def safe_filename_def strip_def lstrip_def rstrip_def replace_char_def
  kept_def re_word_def ascii_alnum_def ascii_safe_def py_isspace_def arabic_letter_def

subsection \<open>Observations distribute over the trace\<close>

lemma recognize_calls_append [simp]:
  "recognize_calls (xs @ ys) = recognize_calls xs @ recognize_calls ys"
  by (simp add: recognize_calls_def)

lemma detect_calls_append [simp]: "detect_calls (xs @ ys) = detect_calls xs @ detect_calls ys"
  by (simp add: detect_calls_def)

lemma run_calls_append [simp]: "run_calls (xs @ ys) = run_calls xs @ run_calls ys"
  by (simp add: run_calls_def)

lemma progress_steps_append [simp]:
  "progress_steps (xs @ ys) = progress_steps xs @ progress_steps ys"
  by (simp add: progress_steps_def)

lemma views_Cons [simp]:
  "recognize_calls (e # tr) = (case e of Recognize a h \<Rightarrow> [(a, h)] | _ \<Rightarrow> []) @ recognize_calls tr"
  "detect_calls (e # tr) = (case e of Detect t \<Rightarrow> [t] | _ \<Rightarrow> []) @ detect_calls tr"
  "run_calls (e # tr) = (case e of RunCmd c \<Rightarrow> [c] | _ \<Rightarrow> []) @ run_calls tr"
  "progress_steps (e # tr) = step_of e @ progress_steps tr"
  by (simp_all add: recognize_calls_def detect_calls_def run_calls_def progress_steps_def)

lemma views_Nil [simp]:
  "recognize_calls [] = []" "detect_calls [] = []" "run_calls [] = []" "progress_steps [] = []"
  by (simp_all add: recognize_calls_def detect_calls_def run_calls_def progress_steps_def)

lemma recognize_calls_Recognize [simp]:
  "recognize_calls (map (\<lambda>(a, h). Recognize a h) att) = att"
  by (induction att) auto

lemma views_Recognize [simp]:
  "detect_calls (map (\<lambda>(a, h). Recognize a h) att) = []"
  "run_calls (map (\<lambda>(a, h). Recognize a h) att) = []"
  "progress_steps (map (\<lambda>(a, h). Recognize a h) att) = []"
  by (induction att) (auto simp: step_of_def)

lemma views_outcome_events [simp]:
  "recognize_calls (outcome_events part out e) = []"
  "detect_calls (outcome_events part out e) = []"
  "run_calls (outcome_events part out e) = []"
  "progress_steps (outcome_events part out e) = [Finished part]"
  by (auto simp: outcome_events_def step_of_def split: outcome.splits)

subsection \<open>Stripping\<close>

lemma last_dropWhile: "dropWhile P xs \<noteq> [] \<Longrightarrow> last (dropWhile P xs) = last xs"
  by (induction xs) auto

lemma set_strip: "set (strip s) \<subseteq> set s"
  unfolding strip_def lstrip_def rstrip_def
  by (metis set_dropWhileD set_rev subsetI)

lemma strip_ends:
  assumes ne: "strip s \<noteq> []"
  shows "\<not> py_isspace (hd (strip s)) \<and> \<not> py_isspace (last (strip s))"
proof -
  let ?d = "dropWhile py_isspace (rev s)"
  have s: "strip s = dropWhile py_isspace (rev ?d)"
    by (simp add: strip_def lstrip_def rstrip_def)
  from ne have ne': "dropWhile py_isspace (rev ?d) \<noteq> []"
    unfolding s .
  have dne: "?d \<noteq> []"
  proof
    assume e: "?d = []"
    from ne' show False unfolding e by simp
  qed
  have "\<not> py_isspace (hd ?d)" using dne by (rule hd_dropWhile)
  moreover have "last (rev ?d) = hd ?d" using dne by (simp add: last_rev)
  ultimately have lu: "\<not> py_isspace (last (rev ?d))" by simp
  have "last (dropWhile py_isspace (rev ?d)) = last (rev ?d)"
    using ne' by (rule last_dropWhile)
  with lu have 1: "\<not> py_isspace (last (strip s))" unfolding s by simp
  have 2: "\<not> py_isspace (hd (strip s))" unfolding s using ne' by (rule hd_dropWhile)
  from 1 2 show ?thesis by simp
qed

lemma strip_id:
  "s = [] \<or> (\<not> py_isspace (hd s) \<and> \<not> py_isspace (last s)) \<Longrightarrow> strip s = s"
  unfolding strip_def lstrip_def rstrip_def
  by (cases s rule: rev_cases) (auto simp: dropWhile_eq_self_iff hd_append split: if_splits)

subsection \<open>\<open>safe_filename\<close>\<close>

lemma kept_result: "c \<in> set (safe_filename uni s) \<Longrightarrow> kept uni c \<and> c \<noteq> 32"
proof -
  assume "c \<in> set (safe_filename uni s)"
  then obtain d where d: "d \<in> set (strip (map (\<lambda>c. if kept uni c then c else 95) s))"
    and c: "c = (if d = 32 then 95 else d)"
    by (auto simp: safe_filename_def replace_char_def Let_def)
  from d set_strip have "d \<in> set (map (\<lambda>c. if kept uni c then c else 95) s)" by blast
  then have "kept uni d" by (auto simp: kept_def split: if_splits)
  with c show ?thesis by (auto simp: kept_def)
qed

lemma safe_filename_fix:
  assumes "\<And>c. c \<in> set r \<Longrightarrow> kept uni c \<and> c \<noteq> 32"
    and "r = [] \<or> (\<not> py_isspace (hd r) \<and> \<not> py_isspace (last r))"
  shows "safe_filename uni r = r"
proof -
  have 1: "map (\<lambda>c. if kept uni c then c else 95) r = r" using assms(1) by (simp add: map_idI)
  have 2: "strip r = r" using assms(2) by (rule strip_id)
  have 3: "replace_char 32 95 r = r" unfolding replace_char_def using assms(1) by (simp add: map_idI)
  show ?thesis by (simp add: safe_filename_def 1 2 3)
qed

lemma safe_filename_ends:
  "safe_filename uni s = []
   \<or> (\<not> py_isspace (hd (safe_filename uni s)) \<and> \<not> py_isspace (last (safe_filename uni s)))"
proof -
  let ?t = "strip (map (\<lambda>c. if kept uni c then c else 95) s)"
  have r: "safe_filename uni s = replace_char 32 95 ?t" by (simp add: safe_filename_def)
  show ?thesis
  proof (cases "?t = []")
    case True then show ?thesis by (simp add: r replace_char_def)
  next
    case False
    then have e: "\<not> py_isspace (hd ?t) \<and> \<not> py_isspace (last ?t)" by (rule strip_ends)
    have sp: "py_isspace 32" by (simp add: py_isspace_def)
    from e sp have "hd ?t \<noteq> 32" "last ?t \<noteq> 32" by auto
    then have "hd (replace_char 32 95 ?t) = hd ?t" "last (replace_char 32 95 ?t) = last ?t"
      using False by (simp_all add: replace_char_def hd_map last_map)
    with e show ?thesis by (simp add: r)
  qed
qed

lemma safe_filename_idem: "safe_filename uni (safe_filename uni s) = safe_filename uni s"
  by (rule safe_filename_fix) (use kept_result safe_filename_ends in blast)+

lemma safe_filename_file_name: "file_name (safe_filename uni s)"
proof -
  have "\<not> kept uni 47" "\<not> kept uni 0" by (simp_all add: kept_def re_word_def ascii_alnum_def)
  with kept_result[of _ uni s] show ?thesis unfolding file_name_def by blast
qed

lemma file_name_append [simp]: "file_name (a @ b) = (file_name a \<and> file_name b)"
  by (auto simp: file_name_def)

lemma file_name_ext [simp]: "file_name (lit ''.txt'')" "file_name (lit ''.wav'')"
  by (simp_all add: file_name_def lit_def)

lemma title_of_file_name: "file_name (title_of env prefix src)"
  using safe_filename_file_name[of "ext_alnum env" prefix]
    safe_filename_file_name[of "ext_alnum env" "stem src"]
  by (simp add: title_of_def Let_def file_name_def)

subsection \<open>Running commands\<close>

lemma run_cmd_capture_eq:
  "run_cmd_capture env cmd s =
     (case ext_run env cmd (files s, world s) of
        (r, f, w) \<Rightarrow>
          (Inr (captured r), s\<lparr>files := f, world := w, trace := trace s @ [RunCmd cmd]\<rparr>))"
  by (simp add: run_cmd_capture_def subprocess_run_def captured_def prog_defs
      split: prod.splits sum.splits)

lemma get_duration_seconds_eq:
  "get_duration_seconds env cfg py_float p s =
     (if \<not> bin_ffprobe cfg then (Inr 0, s)
      else case run_cmd_capture env (ffprobe_cmd cfg p) s of
        (Inr (rc, out, err), s') \<Rightarrow>
           (Inr (if rc = 0 then (case py_float (strip out) of Inr d \<Rightarrow> d | Inl _ \<Rightarrow> 0) else 0), s')
      | (Inl e, s') \<Rightarrow> (Inl e, s'))"
  by (simp add: get_duration_seconds_def prog_defs split: prod.splits sum.splits)

subsection \<open>The download stage\<close>

lemma glob_exists: "n \<in> set (glob d suffix f) \<Longrightarrow> \<exists>bytes. map_of f (d, n) = Some bytes"
proof -
  assume "n \<in> set (glob d suffix f)"
  then have "(d, n) \<in> fst ` set f" by (force simp: glob_def)
  then show ?thesis by (metis map_of_eq_None_iff not_Some_eq)
qed

lemma sorted_glob_first:
  assumes "sorted_glob d suffix f = src # rest"
  shows "src \<in> set (glob d suffix f) \<and> (\<forall>n \<in> set (glob d suffix f). src \<le> n)"
proof -
  have s: "sort (glob d suffix f) = src # rest" using assms by (simp add: sorted_glob_def)
  have "set (sort (glob d suffix f)) = set (glob d suffix f)" by simp
  with s have m: "set (glob d suffix f) = insert src (set rest)" by simp
  have "sorted (sort (glob d suffix f))" by simp
  with s have "\<forall>n \<in> set rest. src \<le> n" by simp
  with m show ?thesis by auto
qed

lemma shutil_move_eq:
  assumes "map_of (files s) src = Some bytes"
  shows "shutil_move cfg src dst s =
           (case create_error cfg dst of
              Some e \<Rightarrow> (Inl e, s)
            | None \<Rightarrow> (Inr (), s\<lparr>files := AList.update dst bytes (AList.delete src (files s))\<rparr>))"
  using assms by (simp add: shutil_move_def create_error_def split: option.splits)

lemma acquire_audio_failed:
  assumes "ext_run env (yt_cmd cfg url cookie_file) (files s, world s) = (r, f1, w1)"
    and "captured r = (rc, out, err)" and "rc \<noteq> 0"
  shows "acquire_audio env cfg url cookie_file prefix s =
           (Inr None, s\<lparr>files := f1, world := w1,
              trace := trace s @ acquire_opening cookie_file @ [RunCmd (yt_cmd cfg url cookie_file)]
                @ [Log (MYtDlpError rc err), St Error MDownloadFailed]
                @ (if show_detailed_logs cfg then [St Code (MRaw (if err \<noteq> [] then err else out))]
                   else [])\<rparr>)"
  using assms
  by (cases "cookie_file = []")
     (simp_all add: acquire_audio_def acquire_opening_def run_cmd_capture_eq captured_def
        prog_defs eff_defs)

lemma acquire_audio_no_wav:
  assumes "ext_run env (yt_cmd cfg url cookie_file) (files s, world s) = (Inr c, f1, w1)"
    and "returncode c = 0"
    and "sorted_glob DownloadDir (lit ''.wav'') f1 = []"
  shows "acquire_audio env cfg url cookie_file prefix s =
           (Inr None, s\<lparr>files := f1, world := w1,
              trace := trace s @ acquire_opening cookie_file @ [RunCmd (yt_cmd cfg url cookie_file)]
                 @ [Log MDownloadOk, Log MNoWav, St Error MNoWav]\<rparr>)"
  using assms
  by (cases "cookie_file = []")
     (simp_all add: acquire_audio_def acquire_opening_def run_cmd_capture_eq captured_def
        prog_defs eff_defs)

lemma acquire_audio_moved:
  assumes "ext_run env (yt_cmd cfg url cookie_file) (files s, world s) = (Inr c, f1, w1)"
    and "returncode c = 0"
    and "sorted_glob DownloadDir (lit ''.wav'') f1 = src # rest"
    and "map_of f1 (DownloadDir, src) = Some bytes"
    and "create_error cfg (Cwd, title_of env prefix src @ lit ''.wav'') = None"
  shows "acquire_audio env cfg url cookie_file prefix s =
           (Inr (Some ((Cwd, title_of env prefix src @ lit ''.wav''), title_of env prefix src)),
            s\<lparr>files := AList.update (Cwd, title_of env prefix src @ lit ''.wav'') bytes
                         (AList.delete (DownloadDir, src) f1),
              world := w1,
              trace := trace s @ acquire_opening cookie_file @ [RunCmd (yt_cmd cfg url cookie_file)]
                 @ [Log MDownloadOk,
                    Log (MMoved (path_str cfg (Cwd, title_of env prefix src @ lit ''.wav''))),
                    St Success (MAudioReady (title_of env prefix src @ lit ''.wav''))]\<rparr>)"
  using assms
  by (cases "cookie_file = []")
     (simp_all add: acquire_audio_def acquire_opening_def run_cmd_capture_eq captured_def
        shutil_move_eq Let_def prog_defs eff_defs)

lemma acquire_audio_refused:
  assumes "ext_run env (yt_cmd cfg url cookie_file) (files s, world s) = (Inr c, f1, w1)"
    and "returncode c = 0"
    and "sorted_glob DownloadDir (lit ''.wav'') f1 = src # rest"
    and "map_of f1 (DownloadDir, src) = Some bytes"
    and "create_error cfg (Cwd, title_of env prefix src @ lit ''.wav'') = Some e"
  shows "acquire_audio env cfg url cookie_file prefix s =
           (Inl e,
            s\<lparr>files := f1, world := w1,
              trace := trace s @ acquire_opening cookie_file @ [RunCmd (yt_cmd cfg url cookie_file)]
                 @ [Log MDownloadOk]\<rparr>)"
  using assms
  by (cases "cookie_file = []")
     (simp_all add: acquire_audio_def acquire_opening_def run_cmd_capture_eq captured_def
        shutil_move_eq Let_def prog_defs eff_defs)

subsection \<open>Language detection\<close>

lemma sample_transcribe_eq:
  "sample_transcribe env a s =
     (case ext_recognize env a None (world s) of
        (Inr t, w1) \<Rightarrow> (Inr t, s\<lparr>world := w1, trace := trace s @ [Recognize a None]\<rparr>)
      | (Inl e, w1) \<Rightarrow>
          (case ext_recognize env a (Some (lit ''ar'')) w1 of
             (r2, w2) \<Rightarrow>
               (Inr (case r2 of Inr t \<Rightarrow> t | Inl _ \<Rightarrow> []),
                s\<lparr>world := w2,
                  trace := trace s @ [Recognize a None, Recognize a (Some (lit ''ar''))]\<rparr>)))"
  by (simp add: sample_transcribe_def recognize_google_def prog_defs split: prod.splits sum.splits)

lemma sample_transcribe_total: "\<exists>t s1. sample_transcribe env a s = (Inr t, s1)"
  by (simp add: sample_transcribe_eq split: prod.splits sum.splits)

lemma audio_file_record_state: "audio_file_record env cfg p d s = (r, s') \<Longrightarrow> s' = s"
  by (auto simp: audio_file_record_def split: option.splits)

lemma detect_language_unreadable:
  assumes "audio_file_record env cfg dst (Some (sample_seconds cfg)) (announced cfg s) = (Inl e, s1)"
  shows "detect_language env cfg dst s =
           (Inr (lit ''en''),
            s1\<lparr>trace := trace s1 @ [Log (MSampleError e), St Warning (MSampleError e)]\<rparr>)"
  using assms by (simp add: detect_language_def announced_def prog_defs eff_defs)

lemma detect_language_readable:
  assumes "audio_file_record env cfg dst (Some (sample_seconds cfg)) (announced cfg s) = (Inr a, s0)"
    and "sample_transcribe env a s0 = (Inr t, s1)"
  shows "detect_language env cfg dst s =
     (if strip t \<noteq> [] then
        (case ext_detect env t (world s1) of
           (Inr l, w2) \<Rightarrow>
             (Inr l, s1\<lparr>world := w2,
                        trace := trace s1 @ [Detect t, Log (MDetected l), St Success (MDetected l)]\<rparr>)
         | (Inl e, w2) \<Rightarrow>
             (Inr (lit ''en''),
              s1\<lparr>world := w2,
                 trace := trace s1 @ [Detect t, Log (MDetectFailed e), St Warning (MDetectFailed e)]\<rparr>))
      else (Inr (lit ''en''), s1\<lparr>trace := trace s1 @ [Log MNoSampleText, St Warning MNoSampleText]\<rparr>))"
  using assms
  by (simp add: detect_language_def announced_def detect_def prog_defs eff_defs
      split: prod.splits sum.splits)

lemma detect_language_total: "\<exists>l s'. detect_language env cfg dst s = (Inr l, s')"
proof (cases "audio_file_record env cfg dst (Some (sample_seconds cfg)) (announced cfg s)")
  case (Pair r s0)
  show ?thesis
  proof (cases r)
    case (Inl e)
    with Pair show ?thesis using detect_language_unreadable by blast
  next
    case (Inr a)
    obtain t s1 where st: "sample_transcribe env a s0 = (Inr t, s1)"
      using sample_transcribe_total by blast
    from Pair Inr
    have "audio_file_record env cfg dst (Some (sample_seconds cfg)) (announced cfg s) = (Inr a, s0)"
      by simp
    from detect_language_readable[OF this st] show ?thesis
      by (auto split: prod.splits sum.splits if_splits)
  qed
qed

subsection \<open>The transcription loop\<close>

lemma recognize_part_eq:
  "recognize_part env lang a s =
     (case first_success env a (Some lang) [None, Some (lit ''ar''), Some (lit ''en'')] (world s) of
        (r, tried, w') \<Rightarrow> (r, s\<lparr>world := w', trace := trace s @ map (Recognize a) tried\<rparr>))"
proof -
  obtain r1 w1 where 1: "ext_recognize env a (Some lang) (world s) = (r1, w1)" by force
  obtain r2 w2 where 2: "ext_recognize env a None w1 = (r2, w2)" by force
  obtain r3 w3 where 3: "ext_recognize env a (Some (lit ''ar'')) w2 = (r3, w3)" by force
  obtain r4 w4 where 4: "ext_recognize env a (Some (lit ''en'')) w3 = (r4, w4)" by force
  show ?thesis
    by (cases r1; cases r2; cases r3; cases r4)
       (simp_all add: recognize_part_def recognize_google_def prog_defs 1 2 3 4)
qed

lemma try_except_part_eq:
  "\<exists>e. try_except_part env cfg lang part v1 s =
     (case transcribe_segment env lang (files s) part (world s) of
        (out, att, w') \<Rightarrow>
          (Inr (record_outcome out v1),
           s\<lparr>world := w',
             trace := trace s @ map (\<lambda>(a, h). Recognize a h) att @ outcome_events part out e\<rparr>))"
proof (cases "map_of (files s) (SplitDir, part)")
  case None
  then show ?thesis
    by (auto simp add: try_except_part_def try_part_def audio_file_record_def transcribe_segment_def
        record_outcome_def outcome_events_def prog_defs eff_defs)
next
  case (Some bytes)
  show ?thesis
  proof (cases "ext_record env bytes None")
    case (Inl e)
    with Some show ?thesis
      by (auto simp add: try_except_part_def try_part_def audio_file_record_def
          transcribe_segment_def record_outcome_def outcome_events_def prog_defs eff_defs)
  next
    case (Inr a)
    obtain r tried w' where fs:
      "first_success env a (Some lang) [None, Some (lit ''ar''), Some (lit ''en'')] (world s)
         = (r, tried, w')"
      by (metis prod_cases3)
    show ?thesis
    proof (cases r)
      case (Inl e)
      with Some Inr fs show ?thesis
        by (auto simp add: try_except_part_def try_part_def audio_file_record_def
            transcribe_segment_def recognize_part_eq record_outcome_def outcome_events_def
            prog_defs eff_defs comp_def)
    next
      case (Inr t)
      with Some \<open>ext_record env bytes None = Inr a\<close> fs show ?thesis
        by (auto simp add: try_except_part_def try_part_def audio_file_record_def
            transcribe_segment_def recognize_part_eq record_outcome_def outcome_events_def
            prog_defs eff_defs comp_def)
    qed
  qed
qed

lemma parts_processed_record_outcome [simp]:
  "parts_processed (record_outcome out v) = parts_processed v"
  by (simp add: record_outcome_def split: outcome.splits)

lemma loop_body_eq:
  assumes "tp \<noteq> 0"
  shows "\<exists>e. loop_body env cfg lang tp (idx, part) v s =
     (case transcribe_segment env lang (files s) part (world s) of
        (out, att, w') \<Rightarrow>
          (Inr (record_outcome out (v\<lparr>parts_processed := parts_processed v + 1\<rparr>)),
           s\<lparr>world := w',
             trace := trace s
               @ [Log (MPartStart idx tp part), PartPreview Info (MPartStart idx tp part)]
               @ map (\<lambda>(a, h). Recognize a h) att
               @ outcome_events part out e
               @ [ProgressBar (ext_percent env (parts_processed v + 1) tp),
                  ProgressText (MProgress (ext_percent env (parts_processed v + 1) tp)),
                  Sleep]\<rparr>))"
proof -
  let ?s0 = "s\<lparr>trace := trace s @ [Log (MPartStart idx tp part), PartPreview Info (MPartStart idx tp part)]\<rparr>"
  let ?v1 = "v\<lparr>parts_processed := parts_processed v + 1\<rparr>"
  obtain e where e: "try_except_part env cfg lang part ?v1 ?s0 =
     (case transcribe_segment env lang (files ?s0) part (world ?s0) of
        (out, att, w') \<Rightarrow>
          (Inr (record_outcome out ?v1),
           ?s0\<lparr>world := w',
               trace := trace ?s0 @ map (\<lambda>(a, h). Recognize a h) att @ outcome_events part out e\<rparr>))"
    using try_except_part_eq by blast
  obtain out att w' where t: "transcribe_segment env lang (files s) part (world s) = (out, att, w')"
    by (metis prod_cases3)
  show ?thesis
    by (rule exI[of _ e])
       (use assms e t in \<open>simp add: loop_body_def Let_def prog_defs eff_defs py_percent_def\<close>)
qed

lemma for_parts_eq:
  assumes "tp \<noteq> 0"
  shows "k = Suc (parts_processed v) \<Longrightarrow>
    transcribeAll env lang (files s) parts (world s) = (outs, atts, w') \<Longrightarrow>
    \<exists>s'. for_parts env cfg lang tp (List.enumerate k parts) v s =
            (Inr \<lparr>text_lines = text_lines v @ texts_of outs,
                  failed_parts = failed_parts v @ failures_of outs,
                  parts_processed = parts_processed v + length parts\<rparr>, s')
        \<and> files s' = files s \<and> world s' = w'
        \<and> recognize_calls (trace s') = recognize_calls (trace s) @ atts
        \<and> detect_calls (trace s') = detect_calls (trace s)
        \<and> run_calls (trace s') = run_calls (trace s)
        \<and> progress_steps (trace s') = progress_steps (trace s)
            @ concat (map (\<lambda>(i, p). [Started i p, Finished p, Progressed (ext_percent env i tp)])
                        (List.enumerate k parts))"
proof (induction parts arbitrary: k v s outs atts w')
  case Nil
  then show ?case by (simp add: texts_of_def failures_of_def)
next
  case (Cons p ps)
  obtain out att w1 where t: "transcribe_segment env lang (files s) p (world s) = (out, att, w1)"
    by (metis prod_cases3)
  obtain outs' atts' w2 where r: "transcribeAll env lang (files s) ps w1 = (outs', atts', w2)"
    by (metis prod_cases3)
  from Cons.prems(2) t r have o: "outs = out # outs'" "atts = att @ atts'" "w' = w2"
    by simp_all
  from loop_body_eq[OF assms, of env cfg lang k p v s] t obtain e where
    b: "loop_body env cfg lang tp (k, p) v s =
          (Inr (record_outcome out (v\<lparr>parts_processed := parts_processed v + 1\<rparr>)),
           s\<lparr>world := w1,
             trace := trace s
               @ [Log (MPartStart k tp p), PartPreview Info (MPartStart k tp p)]
               @ map (\<lambda>(a, h). Recognize a h) att
               @ outcome_events p out e
               @ [ProgressBar (ext_percent env (parts_processed v + 1) tp),
                  ProgressText (MProgress (ext_percent env (parts_processed v + 1) tp)),
                  Sleep]\<rparr>)"
    by auto
  let ?v1 = "record_outcome out (v\<lparr>parts_processed := parts_processed v + 1\<rparr>)"
  let ?s1 = "s\<lparr>world := w1,
             trace := trace s
               @ [Log (MPartStart k tp p), PartPreview Info (MPartStart k tp p)]
               @ map (\<lambda>(a, h). Recognize a h) att
               @ outcome_events p out e
               @ [ProgressBar (ext_percent env (parts_processed v + 1) tp),
                  ProgressText (MProgress (ext_percent env (parts_processed v + 1) tp)),
                  Sleep]\<rparr>"
  have k1: "Suc k = Suc (parts_processed ?v1)" using Cons.prems(1) by simp
  have r1: "transcribeAll env lang (files ?s1) ps (world ?s1) = (outs', atts', w2)"
    using r by simp
  from Cons.IH[OF k1 r1] obtain s' where
    ih: "for_parts env cfg lang tp (List.enumerate (Suc k) ps) ?v1 ?s1 =
            (Inr \<lparr>text_lines = text_lines ?v1 @ texts_of outs',
                  failed_parts = failed_parts ?v1 @ failures_of outs',
                  parts_processed = parts_processed ?v1 + length ps\<rparr>, s')"
      "files s' = files ?s1" "world s' = w2"
      "recognize_calls (trace s') = recognize_calls (trace ?s1) @ atts'"
      "detect_calls (trace s') = detect_calls (trace ?s1)"
      "run_calls (trace s') = run_calls (trace ?s1)"
      "progress_steps (trace s') = progress_steps (trace ?s1)
            @ concat (map (\<lambda>(i, p). [Started i p, Finished p, Progressed (ext_percent env i tp)])
                        (List.enumerate (Suc k) ps))"
    by blast
  have vars: "\<lparr>text_lines = text_lines ?v1 @ texts_of outs',
                  failed_parts = failed_parts ?v1 @ failures_of outs',
                  parts_processed = parts_processed ?v1 + length ps\<rparr>
            = \<lparr>text_lines = text_lines v @ texts_of outs,
                  failed_parts = failed_parts v @ failures_of outs,
                  parts_processed = parts_processed v + length (p # ps)\<rparr>"
    by (cases out) (simp_all add: o record_outcome_def texts_of_def failures_of_def)
  have run: "for_parts env cfg lang tp (List.enumerate k (p # ps)) v s =
            (Inr \<lparr>text_lines = text_lines v @ texts_of outs,
                  failed_parts = failed_parts v @ failures_of outs,
                  parts_processed = parts_processed v + length (p # ps)\<rparr>, s')"
    using ih(1) unfolding vars by (simp add: b)
  have pk: "Suc (parts_processed v) = k" using Cons.prems(1) by simp
  have views:
    "recognize_calls (trace s') = recognize_calls (trace s) @ atts"
    "detect_calls (trace s') = detect_calls (trace s)"
    "run_calls (trace s') = run_calls (trace s)"
    "progress_steps (trace s') = progress_steps (trace s)
       @ concat (map (\<lambda>(i, p). [Started i p, Finished p, Progressed (ext_percent env i tp)])
                   (List.enumerate k (p # ps)))"
    by (simp_all add: ih o pk step_of_def)
  from run views ih(2,3) o(3) show ?case by auto
qed

lemma transcribe_loop_nil:
  "transcribe_loop env cfg lang [] s =
     (Inr \<lparr>text_lines = [], failed_parts = [], parts_processed = 0\<rparr>,
      s\<lparr>trace := trace s @ [St Info MTranscribing, ProgressCreate 0]\<rparr>)"
  by (simp add: transcribe_loop_def prog_defs eff_defs)

subsection \<open>Saving and reporting\<close>

lemma written_text_acc:
  "foldl (\<lambda>file line. file @ (line @ [10, 10])) acc lines
     = acc @ concat (map (\<lambda>l. l @ [10, 10]) lines)"
  by (induction lines arbitrary: acc) simp_all

lemma written_text_eq: "written_text lines = concat (map (\<lambda>l. l @ [10, 10]) lines)"
  by (simp add: written_text_def written_text_acc)

lemma for_each_emit:
  "for_each (\<lambda>p. emit (g p)) xs s = (Inr (), s\<lparr>trace := trace s @ map g xs\<rparr>)"
  by (induction xs arbitrary: s) (simp_all add: emit_def)

lemma name_bytes_append [simp]: "name_bytes (a @ b) = name_bytes a + name_bytes b"
  by (simp add: name_bytes_def)

lemma name_bytes_ext [simp]:
  "name_bytes (lit ''.txt'') = 4" "name_bytes (lit ''.wav'') = 4"
  by (simp_all add: name_bytes_def utf8_len_def escaped_def lit_def)

lemma length_le_name_bytes: "length name \<le> name_bytes name"
  by (induction name) (simp_all add: name_bytes_def utf8_len_def)

lemma fsencode_error_None:
  "(fsencode_error t = None) = list_all (\<lambda>c. surrogate c \<longrightarrow> escaped c) t"
proof -
  have "(length (takeWhile (\<lambda>c. \<not> (surrogate c \<and> \<not> escaped c)) t) < length t)
          = (\<exists>c \<in> set t. surrogate c \<and> \<not> escaped c)"
    by (induction t) auto
  then show ?thesis by (auto simp: fsencode_error_def Let_def list_all_iff)
qed

lemma create_error_None:
  "(create_error cfg p = None)
     = (list_all (\<lambda>c. surrogate c \<longrightarrow> escaped c) (path_str cfg p) \<and> name_bytes (snd p) \<le> 255)"
  using fsencode_error_None[of "path_str cfg p"]
  by (auto simp: create_error_def split: option.splits)

lemma create_error_wav_txt:
  "(create_error cfg (d, title_base @ lit ''.txt'') = None)
     = (create_error cfg (d, title_base @ lit ''.wav'') = None)"
  by (simp add: create_error_None path_str_def) (simp add: lit_def surrogate_def)

lemma create_error_long:
  assumes "list_all (\<lambda>c. \<not> surrogate c) (path_str cfg p)" and "255 < name_bytes (snd p)"
  shows "create_error cfg p = Some (OSError 36 (lit ''File name too long'') (path_str cfg p))"
proof -
  from assms(1) have "list_all (\<lambda>c. surrogate c \<longrightarrow> escaped c) (path_str cfg p)"
    by (simp add: list_all_iff)
  then have "fsencode_error (path_str cfg p) = None" by (simp add: fsencode_error_None)
  with assms(2) show ?thesis by (simp add: create_error_def)
qed

lemma encode_error_None: "(encode_error t = None) = encodable t"
proof -
  have "(length (takeWhile (\<lambda>c. \<not> surrogate c) t) < length t) = (\<exists>c \<in> set t. surrogate c)"
    by (induction t) auto
  then show ?thesis by (auto simp: encode_error_def encodable_def Let_def list_all_iff)
qed

lemma encode_error_Some:
  "\<not> encodable t \<Longrightarrow> \<exists>i j. encode_error t = Some (UnicodeEncodeError t i j)"
  using encode_error_None[of t] by (auto simp: encode_error_def Let_def split: if_splits)

lemma encodable_line [simp]: "encodable (t @ [10, 10]) = encodable t"
  by (simp add: encodable_def surrogate_def)

lemma for_each_append:
  "for_each f (xs @ ys) s =
     (case for_each f xs s of (Inl e, s') \<Rightarrow> (Inl e, s') | (Inr u, s') \<Rightarrow> for_each f ys s')"
  by (induction xs arbitrary: s) (auto split: prod.splits sum.splits)

lemma for_each_file_write:
  assumes "list_all encodable lines" and "map_of (files s) p = Some written"
  shows "for_each (\<lambda>line. file_write p (line @ [10, 10])) lines s =
           (Inr (), s\<lparr>files := AList.update p (written @ concat (map (\<lambda>t. t @ [10, 10]) lines))
                                    (files s)\<rparr>)"
  using assms
proof (induction lines arbitrary: s written)
  case Nil
  then show ?case by (simp add: update_triv)
next
  case (Cons t ts)
  from Cons.prems have e: "encode_error (t @ [10, 10]) = None" by (simp add: encode_error_None)
  let ?s = "s\<lparr>files := AList.update p (written @ t @ [10, 10]) (files s)\<rparr>"
  have w: "file_write p (t @ [10, 10]) s = (Inr (), ?s)"
    using e Cons.prems(2) by (simp add: file_write_def)
  have m: "map_of (files ?s) p = Some (written @ t @ [10, 10])" by (simp add: update_conv')
  from Cons.prems have "list_all encodable ts" by simp
  from Cons.IH[OF this m] w show ?case by simp
qed

lemma file_write_refused:
  assumes "\<not> encodable t"
  shows "\<exists>i j. file_write p (t @ [10, 10]) s = (Inl (UnicodeEncodeError (t @ [10, 10]) i j), s)"
proof -
  from assms have "\<not> encodable (t @ [10, 10])" by simp
  from encode_error_Some[OF this] show ?thesis by (auto simp: file_write_def)
qed

lemma for_each_file_write_refused:
  assumes "list_all encodable before" and "\<not> encodable t"
    and "map_of (files s) p = Some written"
  shows "\<exists>i j. for_each (\<lambda>line. file_write p (line @ [10, 10])) (before @ t # rest) s =
           (Inl (UnicodeEncodeError (t @ [10, 10]) i j),
            s\<lparr>files := AList.update p (written @ concat (map (\<lambda>t. t @ [10, 10]) before))
                                    (files s)\<rparr>)"
proof -
  let ?s = "s\<lparr>files := AList.update p (written @ concat (map (\<lambda>t. t @ [10, 10]) before))
                                    (files s)\<rparr>"
  from file_write_refused[OF assms(2), of p ?s] obtain i j where
    w: "file_write p (t @ [10, 10]) ?s = (Inl (UnicodeEncodeError (t @ [10, 10]) i j), ?s)"
    by blast
  have "for_each (\<lambda>line. file_write p (line @ [10, 10])) (before @ t # rest) s =
           (Inl (UnicodeEncodeError (t @ [10, 10]) i j), ?s)"
    by (simp add: for_each_append for_each_file_write[OF assms(1,3)] w)
  then show ?thesis by blast
qed

lemma save_text_eq:
  assumes "create_error cfg (Cwd, title_base @ lit ''.txt'') = None" and "list_all encodable lines"
  shows "save_text cfg title_base lines failed s =
      (Inr (Cwd, title_base @ lit ''.txt''),
       s\<lparr>files := AList.update (Cwd, title_base @ lit ''.txt'')
                   (concat (map (\<lambda>t. t @ [10, 10]) lines)) (files s),
         trace := trace s
           @ [St Success (MSaved (title_base @ lit ''.txt'')), Log (MSaved (title_base @ lit ''.txt''))]
           @ (if failed = [] then [St Success MAllOk]
              else [St Error (MFailedCount (length failed)), St Write MFailedHeader]
                   @ map (\<lambda>p. St Write (MFailedItem p)) failed)\<rparr>)"
proof -
  let ?p = "(Cwd, title_base @ lit ''.txt'')"
  let ?s = "s\<lparr>files := AList.update ?p [] (files s)\<rparr>"
  have m: "map_of (files ?s) ?p = Some []" by (simp add: update_conv')
  note w = for_each_file_write[OF assms(2) m]
  show ?thesis
    using assms(1)
    by (simp add: save_text_def Let_def open_w_def w for_each_emit prog_defs eff_defs)
qed

lemma save_text_refused:
  assumes "create_error cfg (Cwd, title_base @ lit ''.txt'') = Some e"
  shows "save_text cfg title_base lines failed s = (Inl e, s)"
  using assms by (simp add: save_text_def Let_def open_w_def prog_defs)

lemma save_text_unencodable:
  assumes "create_error cfg (Cwd, title_base @ lit ''.txt'') = None"
    and "list_all encodable before" and "\<not> encodable t"
  shows "\<exists>i j. save_text cfg title_base (before @ t # rest) failed s =
      (Inl (UnicodeEncodeError (t @ [10, 10]) i j),
       s\<lparr>files := AList.update (Cwd, title_base @ lit ''.txt'')
                   (concat (map (\<lambda>t. t @ [10, 10]) before)) (files s)\<rparr>)"
proof -
  let ?p = "(Cwd, title_base @ lit ''.txt'')"
  let ?s = "s\<lparr>files := AList.update ?p [] (files s)\<rparr>"
  have m: "map_of (files ?s) ?p = Some []" by (simp add: update_conv')
  from for_each_file_write_refused[OF assms(2,3) m, of rest] obtain i j where
    w: "for_each (\<lambda>line. file_write ?p (line @ [10, 10])) (before @ t # rest) ?s =
           (Inl (UnicodeEncodeError (t @ [10, 10]) i j),
            ?s\<lparr>files := AList.update ?p ([] @ concat (map (\<lambda>t. t @ [10, 10]) before))
                                    (files ?s)\<rparr>)"
    by blast
  have "save_text cfg title_base (before @ t # rest) failed s =
      (Inl (UnicodeEncodeError (t @ [10, 10]) i j),
       s\<lparr>files := AList.update ?p (concat (map (\<lambda>t. t @ [10, 10]) before)) (files s)\<rparr>)"
    using assms(1) by (simp add: save_text_def Let_def open_w_def w prog_defs)
  then show ?thesis by blast
qed

lemma texts_of_Failed: "texts_of (map Failed names) = []"
  by (induction names) (simp_all add: texts_of_def)

lemma failures_of_Failed: "failures_of (map Failed names) = names"
  by (induction names) (simp_all add: failures_of_def)

lemma transcribe_and_save_nil:
  assumes "map_of (files s) dst_wav = Some bytes"
    and "dst_wav \<noteq> (Cwd, title_base @ lit ''.txt'')"
    and "create_error cfg (Cwd, title_base @ lit ''.txt'') = None"
  shows "transcribe_and_save env cfg lang dst_wav title_base [] s =
     (Inr (),
      s\<lparr>files := AList.update (Cwd, title_base @ lit ''.txt'') [] (files s),
        trace := trace s
          @ [St Info MTranscribing, ProgressCreate 0,
             St Success (MSaved (title_base @ lit ''.txt'')), Log (MSaved (title_base @ lit ''.txt'')),
             St Success MAllOk,
             DownloadButton [] (title_base @ lit ''.txt''),
             DownloadButton bytes (snd dst_wav),
             if auto_remove_tmp cfg then Log MTmpAuto else St Info MTmpKept,
             Balloons, ProgressBar 100]\<rparr>)"
  using assms(1,2)
  by (simp add: transcribe_and_save_def transcribe_loop_nil save_text_eq[OF assms(3)]
      offer_downloads_def open_rb_def update_conv' prog_defs eff_defs)

subsection \<open>The loop against the specification's view\<close>

lemma transcribe_segment_outcome:
  "transcribe_segment env lang f seg w = (out, att, w') \<Longrightarrow>
     (\<exists>t. out = Recognized t) \<or> out = Failed seg"
  by (auto simp: transcribe_segment_def split: option.splits sum.splits prod.splits)

lemma transcribeAll_aligned:
  "transcribeAll env lang f segs w = (outs, atts, w') \<Longrightarrow>
     list_all2 (\<lambda>segment out. (\<exists>t. out = Recognized t) \<or> out = Failed segment) segs outs"
proof (induction segs arbitrary: w outs atts w')
  case Nil
  then show ?case by simp
next
  case (Cons seg segs)
  obtain out att w1 where t: "transcribe_segment env lang f seg w = (out, att, w1)"
    by (metis prod_cases3)
  obtain outs' atts' w2 where r: "transcribeAll env lang f segs w1 = (outs', atts', w2)"
    by (metis prod_cases3)
  from Cons.prems t r have o: "outs = out # outs'" by simp
  from transcribe_segment_outcome[OF t] Cons.IH[OF r] show ?case by (simp add: o)
qed

lemma transcribe_loop_eq:
  assumes "transcribeAll env lang (files s) split_files (world s) = (outs, atts, w')"
  shows "\<exists>s'. transcribe_loop env cfg lang split_files s =
            (Inr \<lparr>text_lines = texts_of outs, failed_parts = failures_of outs,
                  parts_processed = length split_files\<rparr>, s')
        \<and> files s' = files s \<and> world s' = w'
        \<and> recognize_calls (trace s') = recognize_calls (trace s) @ atts
        \<and> detect_calls (trace s') = detect_calls (trace s)
        \<and> run_calls (trace s') = run_calls (trace s)
        \<and> progress_steps (trace s') = progress_steps (trace s)
            @ concat (map (\<lambda>(i, p). [Started i p, Finished p,
                                       Progressed (ext_percent env i (length split_files))])
                        (List.enumerate 1 split_files))"
proof (cases "split_files = []")
  case True
  with assms show ?thesis by (simp add: transcribe_loop_nil texts_of_def failures_of_def step_of_def)
next
  case False
  then have tp: "length split_files \<noteq> 0" by simp
  let ?s0 = "s\<lparr>trace := trace s @ [St Info MTranscribing, ProgressCreate 0]\<rparr>"
  let ?v0 = "\<lparr>text_lines = [], failed_parts = [], parts_processed = 0\<rparr>"
  have k: "1 = Suc (parts_processed ?v0)" by simp
  have t: "transcribeAll env lang (files ?s0) split_files (world ?s0) = (outs, atts, w')"
    using assms by simp
  from for_parts_eq[OF tp k t, of cfg] obtain s' where
    r: "for_parts env cfg lang (length split_files) (List.enumerate 1 split_files) ?v0 ?s0 =
            (Inr \<lparr>text_lines = text_lines ?v0 @ texts_of outs,
                  failed_parts = failed_parts ?v0 @ failures_of outs,
                  parts_processed = parts_processed ?v0 + length split_files\<rparr>, s')"
      "files s' = files ?s0" "world s' = w'"
      "recognize_calls (trace s') = recognize_calls (trace ?s0) @ atts"
      "detect_calls (trace s') = detect_calls (trace ?s0)"
      "run_calls (trace s') = run_calls (trace ?s0)"
      "progress_steps (trace s') = progress_steps (trace ?s0)
            @ concat (map (\<lambda>(i, p). [Started i p, Finished p,
                                       Progressed (ext_percent env i (length split_files))])
                        (List.enumerate 1 split_files))"
    by blast
  have run: "transcribe_loop env cfg lang split_files s =
            (Inr \<lparr>text_lines = texts_of outs, failed_parts = failures_of outs,
                  parts_processed = length split_files\<rparr>, s')"
    using r(1) by (simp add: transcribe_loop_def prog_defs eff_defs)
  from run r(2-7) show ?thesis by (auto simp: step_of_def)
qed

lemma loop_body_all_fail:
  assumes "tp \<noteq> 0"
    and "map_of (files s) (SplitDir, part) = Some bytes" and "ext_record env bytes None = Inr a"
    and "ext_recognize env a (Some lang) (world s) = (Inl e1, w1)"
    and "ext_recognize env a None w1 = (Inl e2, w2)"
    and "ext_recognize env a (Some (lit ''ar'')) w2 = (Inl e3, w3)"
    and "ext_recognize env a (Some (lit ''en'')) w3 = (Inl e4, w4)"
  shows "\<exists>s'. loop_body env cfg lang tp (idx, part) v s =
            (Inr (v\<lparr>parts_processed := parts_processed v + 1,
                    failed_parts := failed_parts v @ [part]\<rparr>), s')
          \<and> recognize_calls (trace s') = recognize_calls (trace s)
              @ [(a, Some lang), (a, None), (a, Some (lit ''ar'')), (a, Some (lit ''en''))]"
proof -
  have ts: "transcribe_segment env lang (files s) part (world s) =
     (Failed part, [(a, Some lang), (a, None), (a, Some (lit ''ar'')), (a, Some (lit ''en''))], w4)"
    using assms(2-) by (simp add: transcribe_segment_def)
  from loop_body_eq[OF assms(1), of env cfg lang idx part v s] ts show ?thesis
    by (auto simp: record_outcome_def)
qed

lemma loop_body_attempts:
  assumes "tp \<noteq> 0"
    and "map_of (files s) (SplitDir, part) = Some bytes" and "ext_record env bytes None = Inr a"
    and "ext_recognize env a (Some lang) (world s) = (r1, w1)"
    and "ext_recognize env a None w1 = (r2, w2)"
    and "ext_recognize env a (Some (lit ''ar'')) w2 = (r3, w3)"
    and "ext_recognize env a (Some (lit ''en'')) w3 = (r4, w4)"
  shows "\<exists>s'. loop_body env cfg lang tp (idx, part) v s =
            (Inr (case first_answer [(r1, w1), (r2, w2), (r3, w3), (r4, w4)] of
                    Some (t, w) \<Rightarrow>
                      v\<lparr>parts_processed := parts_processed v + 1, text_lines := text_lines v @ [t]\<rparr>
                  | None \<Rightarrow>
                      v\<lparr>parts_processed := parts_processed v + 1,
                        failed_parts := failed_parts v @ [part]\<rparr>), s')
          \<and> world s' = (case first_answer [(r1, w1), (r2, w2), (r3, w3), (r4, w4)] of
                          Some (t, w) \<Rightarrow> w | None \<Rightarrow> w4)"
proof -
  obtain out att w' where ts: "transcribe_segment env lang (files s) part (world s) = (out, att, w')"
    by (metis prod_cases3)
  have o: "out = (case first_answer [(r1, w1), (r2, w2), (r3, w3), (r4, w4)] of
                    Some (t, w) \<Rightarrow> Recognized t | None \<Rightarrow> Failed part)
           \<and> w' = (case first_answer [(r1, w1), (r2, w2), (r3, w3), (r4, w4)] of
                          Some (t, w) \<Rightarrow> w | None \<Rightarrow> w4)"
    using ts assms(2-)
    by (cases r1; cases r2; cases r3; cases r4) (auto simp: transcribe_segment_def)
  from loop_body_eq[OF assms(1), of env cfg lang idx part v s] ts o show ?thesis
    by (cases "first_answer [(r1, w1), (r2, w2), (r3, w3), (r4, w4)]")
       (auto simp: record_outcome_def)
qed

lemma loop_body_unreadable:
  assumes "tp \<noteq> 0"
    and "map_of (files s) (SplitDir, part) = None
         \<or> (\<exists>bytes e. map_of (files s) (SplitDir, part) = Some bytes \<and> ext_record env bytes None = Inl e)"
  shows "\<exists>s'. loop_body env cfg lang tp (idx, part) v s =
            (Inr (v\<lparr>parts_processed := parts_processed v + 1,
                    failed_parts := failed_parts v @ [part]\<rparr>), s')
          \<and> world s' = world s \<and> recognize_calls (trace s') = recognize_calls (trace s)"
proof -
  have ts: "transcribe_segment env lang (files s) part (world s) = (Failed part, [], world s)"
    using assms(2) by (auto simp: transcribe_segment_def)
  from loop_body_eq[OF assms(1), of env cfg lang idx part v s] ts show ?thesis
    by (auto simp: record_outcome_def)
qed

subsection \<open>Progress steps\<close>

lemma progress_calls_steps:
  "progress_calls tr =
     concat (map (\<lambda>st. case st of Progressed k \<Rightarrow> [k] | _ \<Rightarrow> []) (progress_steps tr))"
proof (induction tr)
  case Nil
  show ?case by (simp add: progress_calls_def)
next
  case (Cons e tr)
  have "(case e of ProgressBar k \<Rightarrow> [k] | _ \<Rightarrow> [])
          = concat (map (\<lambda>st. case st of Progressed k \<Rightarrow> [k] | _ \<Rightarrow> []) (step_of e))"
    by (simp add: step_of_def split: event.splits msg.splits)
  with Cons show ?case by (simp add: progress_calls_def)
qed

lemma progressed_of_blocks:
  "concat (map (\<lambda>st. case st of Progressed k \<Rightarrow> [k] | _ \<Rightarrow> [])
      (concat (map (\<lambda>(i, p). [Started i p, Finished p, Progressed (f i)]) (List.enumerate k ps))))
   = map f [k..<k + length ps]"
proof (induction ps arbitrary: k)
  case Nil
  show ?case by simp
next
  case (Cons p ps)
  have "[k..<k + length (p # ps)] = k # [Suc k..<k + length (p # ps)]"
    by (rule upt_conv_Cons) simp
  then have "[k..<k + length (p # ps)] = k # [Suc k..<Suc k + length ps]"
    by simp
  with Cons[of "Suc k"] show ?case by simp
qed

subsection \<open>Where a recorded text comes from\<close>

lemma first_success_source:
  "first_success env a h hs w = (Inr t, tried, w') \<Longrightarrow>
     \<exists>h' w0 w1. ext_recognize env a h' w0 = (Inr t, w1)"
proof (induction hs arbitrary: h w tried)
  case Nil
  then show ?case by (auto split: prod.splits)
next
  case (Cons h' hs)
  then show ?case by (auto split: prod.splits sum.splits)
qed

lemma transcribe_segment_source:
  "transcribe_segment env lang f seg w = (Recognized t, att, w') \<Longrightarrow>
     \<exists>a h w0 w1. ext_recognize env a h w0 = (Inr t, w1)"
  by (auto simp: transcribe_segment_def split: option.splits sum.splits prod.splits
      dest: first_success_source)

lemma transcribeAll_source:
  "transcribeAll env lang f segs w = (outs, atts, w') \<Longrightarrow> t \<in> set (texts_of outs) \<Longrightarrow>
     \<exists>a h w0 w1. ext_recognize env a h w0 = (Inr t, w1)"
proof (induction segs arbitrary: w outs atts w')
  case Nil
  then show ?case by (simp add: texts_of_def)
next
  case (Cons seg segs)
  obtain out att w1 where ts: "transcribe_segment env lang f seg w = (out, att, w1)"
    by (metis prod_cases3)
  obtain outs' atts' w2 where r: "transcribeAll env lang f segs w1 = (outs', atts', w2)"
    by (metis prod_cases3)
  from Cons.prems(1) ts r have o: "outs = out # outs'" by simp
  from Cons.prems(2) o have "out = Recognized t \<or> t \<in> set (texts_of outs')"
    by (auto simp: texts_of_def split: outcome.splits)
  then show ?case
  proof
    assume "out = Recognized t"
    with ts have "transcribe_segment env lang f seg w = (Recognized t, att, w1)" by simp
    then show ?thesis by (rule transcribe_segment_source)
  next
    assume "t \<in> set (texts_of outs')"
    with Cons.IH[OF r] show ?thesis .
  qed
qed

lemmas loop_demo = demo_defs demo_parts_def demo_names_def transcribe_segment_def lit_def

subsection \<open>Language detection, case by case\<close>

lemma strip_Nil [simp]: "strip [] = []"
  by (simp add: strip_def lstrip_def rstrip_def)

lemma detect_language_read_fails:
  assumes h: "audio_file_record env cfg dst (Some (sample_seconds cfg)) (announced cfg s) = (Inl e, s0)"
  shows "fst (detect_language env cfg dst s) = Inr (lit ''en'')
            \<and> detect_calls (trace (snd (detect_language env cfg dst s))) = detect_calls (trace s)"
proof -
  from audio_file_record_state[OF h] have s0: "s0 = announced cfg s" .
  from detect_language_unreadable[OF h] show ?thesis by (simp add: s0 announced_def)
qed

lemma detect_language_no_text:
  assumes rd: "audio_file_record env cfg dst (Some (sample_seconds cfg)) (announced cfg s) = (Inr a, s0)"
    and r1: "ext_recognize env a None (world s) = (r1, w1)"
    and r2: "ext_recognize env a (Some (lit ''ar'')) w1 = (r2, w2)"
    and n: "no_text r1" "no_text r2"
  shows "fst (detect_language env cfg dst s) = Inr (lit ''en'')
            \<and> detect_calls (trace (snd (detect_language env cfg dst s))) = detect_calls (trace s)"
proof -
  from audio_file_record_state[OF rd] have s0: "s0 = announced cfg s" .
  obtain t s1 where st: "sample_transcribe env a s0 = (Inr t, s1)"
    using sample_transcribe_total by blast
  from st r1 r2 n have blank: "strip t = []" and tr: "detect_calls (trace s1) = detect_calls (trace s)"
    by (auto simp: sample_transcribe_eq s0 announced_def no_text_def split: sum.splits)
  from detect_language_readable[OF rd st] blank tr show ?thesis by simp
qed

lemma detect_language_detect_raises:
  assumes rd: "audio_file_record env cfg dst (Some (sample_seconds cfg)) (announced cfg s) = (Inr a, s0)"
    and st: "sample_transcribe env a s0 = (Inr t, s1)" and "strip t \<noteq> []"
    and "ext_detect env t (world s1) = (Inl e, w2)"
  shows "fst (detect_language env cfg dst s) = Inr (lit ''en'')"
  using detect_language_readable[OF rd st] assms(3,4) by simp

lemma detect_language_detected:
  assumes rd: "audio_file_record env cfg dst (Some (sample_seconds cfg)) (announced cfg s) = (Inr a, s0)"
    and st: "sample_transcribe env a s0 = (Inr t, s1)" and "strip t \<noteq> []"
    and "ext_detect env t (world s1) = (Inr l, w2)"
  shows "fst (detect_language env cfg dst s) = Inr l"
  using detect_language_readable[OF rd st] assms(3,4) by simp

lemmas detect_demo = demo_defs demo_wav_def marhaban_def announced_def audio_file_record_def
  sample_transcribe_eq lit_def arabic_letter_def

subsection \<open>The download stage, case by case\<close>

lemma run_calls_acquire_opening [simp]: "run_calls (acquire_opening c) = []"
  by (simp add: acquire_opening_def)

lemma acquire_audio_cases:
  assumes run: "ext_run env (yt_cmd cfg url cookie_file) (files s, world s) = (r, f1, w1)"
  shows "(((\<exists>e. r = Inl e) \<or> (\<exists>c. r = Inr c \<and> returncode c \<noteq> 0)
            \<or> sorted_glob DownloadDir (lit ''.wav'') f1 = [])
          \<and> (\<exists>ev. acquire_audio env cfg url cookie_file prefix s =
                 (Inr None, s\<lparr>files := f1, world := w1,
                    trace := trace s @ acquire_opening cookie_file
                       @ [RunCmd (yt_cmd cfg url cookie_file)] @ ev\<rparr>)
               \<and> run_calls ev = []))
       \<or> (\<exists>c src rest bytes. r = Inr c \<and> returncode c = 0
            \<and> sorted_glob DownloadDir (lit ''.wav'') f1 = src # rest
            \<and> map_of f1 (DownloadDir, src) = Some bytes
            \<and> create_error cfg (Cwd, title_of env prefix src @ lit ''.wav'') = None
            \<and> acquire_audio env cfg url cookie_file prefix s =
                (Inr (Some ((Cwd, title_of env prefix src @ lit ''.wav''), title_of env prefix src)),
                 s\<lparr>files := AList.update (Cwd, title_of env prefix src @ lit ''.wav'') bytes
                              (AList.delete (DownloadDir, src) f1),
                   world := w1,
                   trace := trace s @ acquire_opening cookie_file
                      @ [RunCmd (yt_cmd cfg url cookie_file)]
                      @ [Log MDownloadOk,
                         Log (MMoved (path_str cfg (Cwd, title_of env prefix src @ lit ''.wav''))),
                         St Success (MAudioReady (title_of env prefix src @ lit ''.wav''))]\<rparr>))
       \<or> (\<exists>c src rest bytes e. r = Inr c \<and> returncode c = 0
            \<and> sorted_glob DownloadDir (lit ''.wav'') f1 = src # rest
            \<and> map_of f1 (DownloadDir, src) = Some bytes
            \<and> create_error cfg (Cwd, title_of env prefix src @ lit ''.wav'') = Some e
            \<and> acquire_audio env cfg url cookie_file prefix s =
                (Inl e,
                 s\<lparr>files := f1, world := w1,
                   trace := trace s @ acquire_opening cookie_file
                      @ [RunCmd (yt_cmd cfg url cookie_file)] @ [Log MDownloadOk]\<rparr>))"
proof -
  obtain rc out err where cap: "captured r = (rc, out, err)" by (metis prod_cases3)
  show ?thesis
  proof (cases "rc = 0")
    case False
    from cap False have bad: "(\<exists>e. r = Inl e) \<or> (\<exists>c. r = Inr c \<and> returncode c \<noteq> 0)"
      by (cases r) (auto simp: captured_def)
    have "\<exists>ev. acquire_audio env cfg url cookie_file prefix s =
                 (Inr None, s\<lparr>files := f1, world := w1,
                    trace := trace s @ acquire_opening cookie_file
                       @ [RunCmd (yt_cmd cfg url cookie_file)] @ ev\<rparr>)
               \<and> run_calls ev = []"
      using acquire_audio_failed[OF run cap False, of prefix]
      by (intro exI[of _ "[Log (MYtDlpError rc err), St Error MDownloadFailed]
                @ (if show_detailed_logs cfg then [St Code (MRaw (if err \<noteq> [] then err else out))]
                   else [])"]) simp
    with bad show ?thesis by blast
  next
    case True
    with cap obtain c where c: "r = Inr c" "returncode c = 0"
      by (cases r) (auto simp: captured_def)
    from run c have run': "ext_run env (yt_cmd cfg url cookie_file) (files s, world s) = (Inr c, f1, w1)"
      by simp
    show ?thesis
    proof (cases "sorted_glob DownloadDir (lit ''.wav'') f1")
      case Nil
      have "\<exists>ev. acquire_audio env cfg url cookie_file prefix s =
                 (Inr None, s\<lparr>files := f1, world := w1,
                    trace := trace s @ acquire_opening cookie_file
                       @ [RunCmd (yt_cmd cfg url cookie_file)] @ ev\<rparr>)
               \<and> run_calls ev = []"
        using acquire_audio_no_wav[OF run' c(2) Nil, of prefix]
        by (intro exI[of _ "[Log MDownloadOk, Log MNoWav, St Error MNoWav]"]) simp
      with Nil show ?thesis by blast
    next
      case (Cons src rest)
      from sorted_glob_first[OF Cons] glob_exists obtain bytes where
        b: "map_of f1 (DownloadDir, src) = Some bytes" by blast
      show ?thesis
      proof (cases "create_error cfg (Cwd, title_of env prefix src @ lit ''.wav'')")
        case None
        from acquire_audio_moved[OF run' c(2) Cons b None] c Cons b None show ?thesis
          by blast
      next
        case (Some e)
        from acquire_audio_refused[OF run' c(2) Cons b Some] c Cons b Some show ?thesis
          by blast
      qed
    qed
  qed
qed

lemma acquire_audio_name:
  assumes a: "acquire_audio env cfg url cookie_file prefix s = (Inr (Some (dst_wav, title_base)), s1)"
  shows "create_error cfg (Cwd, title_base @ lit ''.wav'') = None
         \<and> dst_wav = (Cwd, title_base @ lit ''.wav'')"
proof -
  obtain r f1 w1 where run: "ext_run env (yt_cmd cfg url cookie_file) (files s, world s) = (r, f1, w1)"
    by (metis prod_cases3)
  from acquire_audio_cases[OF run, of prefix] a show ?thesis by auto
qed

lemma process_no_yt_dlp:
  "url \<noteq> [] \<Longrightarrow> \<not> bin_yt_dlp cfg \<Longrightarrow>
     process_url_to_text env cfg url cookie_file prefix s0 =
       (Inr (), s0\<lparr>trace := trace s0 @ [St Error MNoYtDlp]\<rparr>)"
  by (simp add: process_url_to_text_def prog_defs eff_defs)

lemma process_aborts_after_acquire:
  assumes "url \<noteq> []" "bin_yt_dlp cfg" "bin_ffmpeg cfg" "ext_import env = None"
    and "acquire_audio env cfg url cookie_file prefix (clear_tmp s0) = (Inr None, s1)"
  shows "process_url_to_text env cfg url cookie_file prefix s0 = (Inr (), clear_tmp s1)"
  using assms
  by (simp add: process_url_to_text_def with_temporary_directory_def prog_defs)

lemma process_raises_in_acquire:
  assumes "url \<noteq> []" "bin_yt_dlp cfg" "bin_ffmpeg cfg" "ext_import env = None"
    and "acquire_audio env cfg url cookie_file prefix (clear_tmp s0) = (Inl e, s1)"
  shows "process_url_to_text env cfg url cookie_file prefix s0 = (Inl e, clear_tmp s1)"
  using assms
  by (simp add: process_url_to_text_def with_temporary_directory_def prog_defs)

lemma trace_clear_tmp [simp]: "trace (clear_tmp s) = trace s"
  by (simp add: clear_tmp_def)

subsection \<open>Evaluating the concrete runs\<close>

lemma demo_title: "title_of (demo_env tools) [] (lit ''a talk!-1.wav'') = lit ''a_talk_-1''"
  by (simp add: title_of_def stem_def str_defs demo_env_def)

lemma demo_glob:
  "sorted_glob DownloadDir (lit ''.wav'')
     [((DownloadDir, lit ''b talk-2.wav''), 0 # lit ''hello''),
      ((DownloadDir, lit ''a talk!-1.wav''), 0 # marhaban)]
   = [lit ''a talk!-1.wav'', lit ''b talk-2.wav'']"
  by (simp add: sorted_glob_def glob_def endswith_def lit_def)

lemma letters_safe: "safe_filename arabic_letter (replicate n 97) = replicate n 97"
proof (rule safe_filename_fix)
  fix c :: nat
  assume "c \<in> set (replicate n 97)"
  then have "c = 97" by simp
  then show "kept arabic_letter c \<and> c \<noteq> 32" by (simp add: kept_def re_word_def ascii_alnum_def)
next
  show "replicate n 97 = []
        \<or> (\<not> py_isspace (hd (replicate n 97)) \<and> \<not> py_isspace (last (replicate n 97)))"
    by (cases n) (simp_all add: py_isspace_def)
qed

lemma long_prefix_facts:
  "length long_prefix = 300" "long_prefix \<noteq> []"
  "safe_filename arabic_letter long_prefix = long_prefix"
proof -
  show "length long_prefix = 300" by (simp only: long_prefix_def length_replicate)
  then show "long_prefix \<noteq> []" by auto
  show "safe_filename arabic_letter long_prefix = long_prefix"
    unfolding long_prefix_def by (rule letters_safe)
qed

lemma long_name: "255 < name_bytes (long_prefix @ x)"
  using length_le_name_bytes[of long_prefix] by (simp add: long_prefix_facts)

lemma long_prefix_letters: "set long_prefix \<subseteq> {97}"
  unfolding long_prefix_def by (rule subsetI) (simp only: in_set_replicate, simp)

lemma long_prefix_plain: "list_all (\<lambda>c. \<not> surrogate c) long_prefix"
  using long_prefix_letters by (auto simp: list_all_iff surrogate_def)

lemma long_prefix_file_name: "file_name long_prefix"
  using long_prefix_letters by (auto simp: file_name_def)

lemma demo_create_long:
  assumes "list_all (\<lambda>c. \<not> surrogate c) x"
  shows "create_error demo_cfg (Cwd, long_prefix @ x)
           = Some (OSError 36 (lit ''File name too long'') (lit ''/app/'' @ long_prefix @ x))"
proof -
  have p: "path_str demo_cfg (Cwd, long_prefix @ x) = lit ''/app/'' @ long_prefix @ x"
    by (simp add: path_str_def demo_cfg_def demo_dir_def lit_def)
  have "list_all (\<lambda>c. \<not> surrogate c) (lit ''/app/'')" by (simp add: lit_def surrogate_def)
  with assms long_prefix_plain
  have "list_all (\<lambda>c. \<not> surrogate c) (path_str demo_cfg (Cwd, long_prefix @ x))"
    by (simp add: p)
  from create_error_long[OF this] long_name[of x] show ?thesis by (simp add: p)
qed

lemma demo_create_short:
  "create_error demo_cfg (Cwd, lit ''t.txt'') = None"
  "create_error demo_cfg (Cwd, lit ''a_talk_-1.wav'') = None"
  by (simp_all add: create_error_None path_str_def demo_cfg_def demo_dir_def name_bytes_def
      utf8_len_def surrogate_def escaped_def lit_def)

lemma demo_long_title:
  "title_of (demo_env tools) long_prefix (lit ''a talk!-1.wav'') = long_prefix @ lit ''_a_talk_-1''"
proof -
  have "title_of (demo_env tools) long_prefix (lit ''a talk!-1.wav'')
          = long_prefix @ [95] @ title_of (demo_env tools) [] (lit ''a talk!-1.wav'')"
    by (simp add: title_of_def Let_def demo_env_def long_prefix_facts)
  also have "\<dots> = long_prefix @ [95] @ lit ''a_talk_-1''" by (simp only: demo_title)
  also have "\<dots> = long_prefix @ lit ''_a_talk_-1''" by (simp add: lit_def)
  finally show ?thesis .
qed

lemmas model_defs = process_url_to_text_def with_temporary_directory_def clear_tmp_def in_tmp_def
  acquire_audio_def yt_cmd_def title_of_def stem_def run_cmd_capture_def subprocess_run_def or_empty_def
  sorted_glob_def glob_def endswith_def shutil_move_def path_str_def
  detect_language_def sample_transcribe_def recognize_google_def detect_def audio_file_record_def
  split_audio_def split_cmd_def
  transcribe_and_save_def transcribe_loop_def loop_body_def try_except_part_def try_part_def
  recognize_part_def py_percent_def
  save_text_def written_text_def open_w_def file_write_def encode_error_def surrogate_def
  create_error_def fsencode_error_def escaped_def
  name_bytes_def utf8_len_def offer_downloads_def open_rb_def
  prog_defs eff_defs str_defs Let_def

subsection \<open>A run without segments\<close>

lemma map_of_clear_tmp [simp]: "map_of (files (clear_tmp s)) (Cwd, n) = map_of (files s) (Cwd, n)"
proof -
  have "map_of (filter (\<lambda>e. \<not> in_tmp e) f) (Cwd, n) = map_of f (Cwd, n)" for f :: fs
    by (induction f) (auto simp: in_tmp_def)
  then show ?thesis by (simp add: clear_tmp_def)
qed

lemma transcribe_and_save_empty:
  assumes "map_of (files s) dst_wav = Some bytes"
    and "dst_wav \<noteq> (Cwd, title_base @ lit ''.txt'')"
    and "create_error cfg (Cwd, title_base @ lit ''.txt'') = None"
  shows "transcribe_and_save env cfg lang dst_wav title_base [] s =
     (Inr (),
      s\<lparr>files := AList.update (Cwd, title_base @ lit ''.txt'') [] (files s),
        trace := trace s @ empty_run_events cfg title_base (snd dst_wav) bytes\<rparr>)"
  using transcribe_and_save_nil[OF assms, of env lang] by (simp add: empty_run_events_def)

lemma process_empty_split:
  assumes "url \<noteq> []" "bin_yt_dlp cfg" "bin_ffmpeg cfg" "ext_import env = None"
    and "acquire_audio env cfg url cookie_file prefix (clear_tmp s0) = (Inr (Some (dst_wav, title_base)), s1)"
    and "detect_language env cfg dst_wav s1 = (Inr lang, s2)"
    and "split_audio env cfg dst_wav s2 = (Inr (Some []), s)"
    and "map_of (files s) dst_wav = Some bytes"
    and "dst_wav \<noteq> (Cwd, title_base @ lit ''.txt'')"
  shows "process_url_to_text env cfg url cookie_file prefix s0 =
     (Inr (),
      clear_tmp (s\<lparr>files := AList.update (Cwd, title_base @ lit ''.txt'') [] (files s),
                   trace := trace s @ empty_run_events cfg title_base (snd dst_wav) bytes\<rparr>))"
proof -
  from acquire_audio_name[OF assms(5)] have "create_error cfg (Cwd, title_base @ lit ''.txt'') = None"
    by (simp add: create_error_wav_txt)
  from transcribe_and_save_empty[OF assms(8,9) this] assms(1-7) show ?thesis
    by (simp add: process_url_to_text_def with_temporary_directory_def py_bind_def py_return_def)
qed

section \<open>The transcription loop (claim C1)\<close>

text \<open>
  Claim C1: for a non-empty list of segments the loop produces exactly one outcome per
  segment, in the order of the segments. With \<open>outs\<close> the outcomes of the specification's
  \<open>transcribeAll\<close>, the loop of the code returns normally, its \<open>text_lines\<close> are the texts of
  the successes of \<open>outs\<close> and its \<open>failed_parts\<close> the names of the failures, both in order,
  and the recognition calls it makes are those of \<open>transcribeAll\<close>. The four nested \<open>try\<close>
  blocks are the first success among the hints: detected language, none, \<open>ar\<close>, \<open>en\<close>, in
  that order. When all four attempts fail, the iteration records the name of the segment
  in \<open>failed_parts\<close> and ends normally, so the loop goes on. (A segment whose file cannot
  be read is recorded as failed in the same way, before any attempt is made.)
\<close>

theorem transcribe_loop_outcomes:
  assumes "split_files \<noteq> []"
    and "transcribeAll (env :: 'w env) lang (files s) split_files (world s) = (outs, atts, w')"
  shows "length outs = length split_files
     \<and> list_all2 (\<lambda>segment out. (\<exists>t. out = Recognized t) \<or> out = Failed segment) split_files outs
     \<and> (\<exists>s'. transcribe_loop env cfg lang split_files s =
                (Inr \<lparr>text_lines = texts_of outs, failed_parts = failures_of outs,
                      parts_processed = length split_files\<rparr>, s')
             \<and> world s' = w'
             \<and> recognize_calls (trace s') = recognize_calls (trace s) @ atts)
     \<and> (\<forall>a st. recognize_part env lang a st =
           (case first_success env a (Some lang) [None, Some (lit ''ar''), Some (lit ''en'')] (world st) of
              (r, tried, w1) \<Rightarrow>
                (r, st\<lparr>world := w1, trace := trace st @ map (Recognize a) tried\<rparr>)))
     \<and> (\<forall>idx part v st bytes a e1 w1 e2 w2 e3 w3 e4 w4.
           map_of (files st) (SplitDir, part) = Some bytes \<and> ext_record env bytes None = Inr a
           \<and> ext_recognize env a (Some lang) (world st) = (Inl e1, w1)
           \<and> ext_recognize env a None w1 = (Inl e2, w2)
           \<and> ext_recognize env a (Some (lit ''ar'')) w2 = (Inl e3, w3)
           \<and> ext_recognize env a (Some (lit ''en'')) w3 = (Inl e4, w4)
           \<longrightarrow> (\<exists>s'. loop_body env cfg lang (length split_files) (idx, part) v st =
                        (Inr (v\<lparr>parts_processed := parts_processed v + 1,
                                failed_parts := failed_parts v @ [part]\<rparr>), s')
                    \<and> recognize_calls (trace s') = recognize_calls (trace st)
                        @ [(a, Some lang), (a, None), (a, Some (lit ''ar'')), (a, Some (lit ''en''))]))"
proof (intro conjI allI impI)
  from transcribeAll_aligned[OF assms(2)]
  show al: "list_all2 (\<lambda>segment out. (\<exists>t. out = Recognized t) \<or> out = Failed segment) split_files outs" .
  then show "length outs = length split_files" by (simp add: list_all2_lengthD)
  from transcribe_loop_eq[OF assms(2), of cfg]
  show "\<exists>s'. transcribe_loop env cfg lang split_files s =
                (Inr \<lparr>text_lines = texts_of outs, failed_parts = failures_of outs,
                      parts_processed = length split_files\<rparr>, s')
             \<and> world s' = w'
             \<and> recognize_calls (trace s') = recognize_calls (trace s) @ atts"
    by blast
next
  fix a and st :: "'w state"
  show "recognize_part env lang a st =
           (case first_success env a (Some lang) [None, Some (lit ''ar''), Some (lit ''en'')] (world st) of
              (r, tried, w1) \<Rightarrow>
                (r, st\<lparr>world := w1, trace := trace st @ map (Recognize a) tried\<rparr>))"
    by (rule recognize_part_eq)
next
  fix idx part v and st :: "'w state" and bytes a e1 w1 e2 w2 e3 w3 e4 w4
  assume h: "map_of (files st) (SplitDir, part) = Some bytes \<and> ext_record env bytes None = Inr a
           \<and> ext_recognize env a (Some lang) (world st) = (Inl e1, w1)
           \<and> ext_recognize env a None w1 = (Inl e2, w2)
           \<and> ext_recognize env a (Some (lit ''ar'')) w2 = (Inl e3, w3)
           \<and> ext_recognize env a (Some (lit ''en'')) w3 = (Inl e4, w4)"
  from assms(1) have tp: "length split_files \<noteq> 0" by simp
  from h loop_body_all_fail[OF tp, of st part bytes env a lang e1 w1 e2 w2 e3 w3 e4 w4 cfg idx v]
  show "\<exists>s'. loop_body env cfg lang (length split_files) (idx, part) v st =
                        (Inr (v\<lparr>parts_processed := parts_processed v + 1,
                                failed_parts := failed_parts v @ [part]\<rparr>), s')
                    \<and> recognize_calls (trace s') = recognize_calls (trace st)
                        @ [(a, Some lang), (a, None), (a, Some (lit ''ar'')), (a, Some (lit ''en''))]"
    by blast
qed

theorem transcribe_loop_outcomes_witness:
  "demo_names \<noteq> []
   \<and> transcribeAll (demo_env []) (lit ''en'') (files (demo_state demo_parts)) demo_names
        (world (demo_state demo_parts))
      = ([Recognized (lit ''hello''), Failed (lit ''part_001.wav''), Recognized (lit ''bye'')],
         [(0 # lit ''hello'', Some (lit ''en'')),
          ([4, 1], Some (lit ''en'')), ([4, 1], None), ([4, 1], Some (lit ''ar'')),
          ([4, 1], Some (lit ''en'')),
          (2 # lit ''bye'', Some (lit ''en'')), (2 # lit ''bye'', None),
          (2 # lit ''bye'', Some (lit ''ar''))],
         8)
   \<and> fst (transcribe_loop (demo_env []) demo_cfg (lit ''en'') demo_names (demo_state demo_parts))
      = Inr \<lparr>text_lines = [lit ''hello'', lit ''bye''], failed_parts = [lit ''part_001.wav''],
             parts_processed = 3\<rparr>"
proof -
  have h1: "demo_names \<noteq> []" by (simp add: demo_names_def)
  have h2: "transcribeAll (demo_env []) (lit ''en'') (files (demo_state demo_parts)) demo_names
        (world (demo_state demo_parts))
      = ([Recognized (lit ''hello''), Failed (lit ''part_001.wav''), Recognized (lit ''bye'')],
         [(0 # lit ''hello'', Some (lit ''en'')),
          ([4, 1], Some (lit ''en'')), ([4, 1], None), ([4, 1], Some (lit ''ar'')),
          ([4, 1], Some (lit ''en'')),
          (2 # lit ''bye'', Some (lit ''en'')), (2 # lit ''bye'', None),
          (2 # lit ''bye'', Some (lit ''ar''))],
         8)"
    by (simp add: loop_demo)
  from transcribe_loop_outcomes[OF h1 h2, of demo_cfg]
  have "fst (transcribe_loop (demo_env []) demo_cfg (lit ''en'') demo_names (demo_state demo_parts))
      = Inr \<lparr>text_lines = [lit ''hello'', lit ''bye''], failed_parts = [lit ''part_001.wav''],
             parts_processed = 3\<rparr>"
    by (auto simp: texts_of_def failures_of_def demo_names_def)
  with h1 h2 show ?thesis by blast
qed

section \<open>Language detection (claim C2)\<close>

text \<open>
  Claim C2: language detection never raises and every error path ends in the fallback
  \<open>en\<close>: when the audio file cannot be read or sampled, when the sample gives no text, and
  when \<open>langdetect\<close> raises. In particular, when the attempt without a hint and the attempt
  with hint \<open>ar\<close> both give no text (they raise, or return empty or whitespace-only text),
  the result is \<open>en\<close> and \<open>langdetect\<close> is not called at all. Otherwise the result is the
  code that \<open>langdetect\<close> returns.
\<close>

theorem detect_language_never_fails:
  "(\<exists>l s'. detect_language env cfg dst s = (Inr l, s'))
   \<and> (\<forall>e s0. audio_file_record env cfg dst (Some (sample_seconds cfg)) (announced cfg s) = (Inl e, s0)
        \<longrightarrow> fst (detect_language env cfg dst s) = Inr (lit ''en'')
            \<and> detect_calls (trace (snd (detect_language env cfg dst s))) = detect_calls (trace s))
   \<and> (\<forall>a s0 r1 w1 r2 w2.
         audio_file_record env cfg dst (Some (sample_seconds cfg)) (announced cfg s) = (Inr a, s0)
         \<and> ext_recognize env a None (world s) = (r1, w1)
         \<and> ext_recognize env a (Some (lit ''ar'')) w1 = (r2, w2)
         \<and> no_text r1 \<and> no_text r2
        \<longrightarrow> fst (detect_language env cfg dst s) = Inr (lit ''en'')
            \<and> detect_calls (trace (snd (detect_language env cfg dst s))) = detect_calls (trace s))
   \<and> (\<forall>a s0 t s1 e w2.
         audio_file_record env cfg dst (Some (sample_seconds cfg)) (announced cfg s) = (Inr a, s0)
         \<and> sample_transcribe env a s0 = (Inr t, s1) \<and> strip t \<noteq> []
         \<and> ext_detect env t (world s1) = (Inl e, w2)
        \<longrightarrow> fst (detect_language env cfg dst s) = Inr (lit ''en''))
   \<and> (\<forall>a s0 t s1 l w2.
         audio_file_record env cfg dst (Some (sample_seconds cfg)) (announced cfg s) = (Inr a, s0)
         \<and> sample_transcribe env a s0 = (Inr t, s1) \<and> strip t \<noteq> []
         \<and> ext_detect env t (world s1) = (Inr l, w2)
        \<longrightarrow> fst (detect_language env cfg dst s) = Inr l)"
proof -
  have A: "\<exists>l s'. detect_language env cfg dst s = (Inr l, s')" by (rule detect_language_total)
  show ?thesis
    using A detect_language_read_fails[of env cfg dst s] detect_language_no_text[of env cfg dst s]
      detect_language_detect_raises[of env cfg dst s] detect_language_detected[of env cfg dst s]
    by blast
qed

theorem detect_language_never_fails_witness:
  "fst (detect_language (demo_env []) demo_cfg demo_wav (demo_state [])) = Inr (lit ''en'')
   \<and> fst (detect_language (demo_env []) demo_cfg demo_wav (demo_state [(demo_wav, [4, 1])]))
       = Inr (lit ''en'')
   \<and> detect_calls (trace (snd (detect_language (demo_env []) demo_cfg demo_wav
         (demo_state [(demo_wav, [4, 1])])))) = []
   \<and> fst (detect_language (demo_env []) demo_cfg demo_wav (demo_state [(demo_wav, 0 # lit ''hi'')]))
       = Inr (lit ''en'')
   \<and> fst (detect_language (demo_env []) demo_cfg demo_wav (demo_state [(demo_wav, 0 # marhaban)]))
       = Inr (lit ''ar'')"
proof -
  let ?env = "demo_env []"
  note th = detect_language_never_fails[of ?env demo_cfg demo_wav]
  have a: "audio_file_record ?env demo_cfg demo_wav (Some (sample_seconds demo_cfg))
             (announced demo_cfg (demo_state []))
           = (Inl (FileNotFoundError (path_str demo_cfg demo_wav)), announced demo_cfg (demo_state []))"
    by (simp add: audio_file_record_def demo_state_def announced_def)
  from th[of "demo_state []"] a
  have 1: "fst (detect_language ?env demo_cfg demo_wav (demo_state [])) = Inr (lit ''en'')"
    by blast
  let ?s2 = "demo_state [(demo_wav, [4, 1])]"
  have b: "audio_file_record ?env demo_cfg demo_wav (Some (sample_seconds demo_cfg))
             (announced demo_cfg ?s2) = (Inr [4, 1], announced demo_cfg ?s2)"
      "ext_recognize ?env [4, 1] None (world ?s2) = (Inl (PyException (lit ''UnknownValueError'')), 1)"
      "ext_recognize ?env [4, 1] (Some (lit ''ar'')) 1 = (Inl (PyException (lit ''UnknownValueError'')), 2)"
      "no_text (Inl (PyException (lit ''UnknownValueError'')))"
    by (simp_all add: detect_demo no_text_def)
  from th[of ?s2] b
  have 2: "fst (detect_language ?env demo_cfg demo_wav ?s2) = Inr (lit ''en'')
       \<and> detect_calls (trace (snd (detect_language ?env demo_cfg demo_wav ?s2))) = detect_calls (trace ?s2)"
    by blast
  have e2: "detect_calls (trace ?s2) = []" by (simp add: demo_state_def)
  let ?s3 = "demo_state [(demo_wav, 0 # lit ''hi'')]"
  let ?s3' = "(announced demo_cfg ?s3)\<lparr>world := 1,
                trace := trace (announced demo_cfg ?s3) @ [Recognize (0 # lit ''hi'') None]\<rparr>"
  have c: "audio_file_record ?env demo_cfg demo_wav (Some (sample_seconds demo_cfg))
             (announced demo_cfg ?s3) = (Inr (0 # lit ''hi''), announced demo_cfg ?s3)"
      "sample_transcribe ?env (0 # lit ''hi'') (announced demo_cfg ?s3) = (Inr (lit ''hi''), ?s3')"
      "strip (lit ''hi'') \<noteq> []"
      "ext_detect ?env (lit ''hi'') (world ?s3') = (Inl (PyException (lit ''LangDetectException'')), 2)"
    by (simp_all add: detect_demo strip_def lstrip_def rstrip_def py_isspace_def)
  from th[of ?s3] c
  have 3: "fst (detect_language ?env demo_cfg demo_wav ?s3) = Inr (lit ''en'')"
    by blast
  let ?s4 = "demo_state [(demo_wav, 0 # marhaban)]"
  let ?s4' = "(announced demo_cfg ?s4)\<lparr>world := 1,
                trace := trace (announced demo_cfg ?s4) @ [Recognize (0 # marhaban) None]\<rparr>"
  have d: "audio_file_record ?env demo_cfg demo_wav (Some (sample_seconds demo_cfg))
             (announced demo_cfg ?s4) = (Inr (0 # marhaban), announced demo_cfg ?s4)"
      "sample_transcribe ?env (0 # marhaban) (announced demo_cfg ?s4) = (Inr marhaban, ?s4')"
      "strip marhaban \<noteq> []"
      "ext_detect ?env marhaban (world ?s4') = (Inr (lit ''ar''), 2)"
    by (simp_all add: detect_demo strip_def lstrip_def rstrip_def py_isspace_def)
  from th[of ?s4] d
  have 4: "fst (detect_language ?env demo_cfg demo_wav ?s4) = Inr (lit ''ar'')"
    by blast
  from 1 2 e2 3 4 show ?thesis by simp
qed

section \<open>The filename sanitiser (claim C3)\<close>

lemma safe_filename_subset: "set (safe_filename uni s) \<subseteq> insert 95 (set s)"
proof
  fix c assume "c \<in> set (safe_filename uni s)"
  then obtain d where d: "d \<in> set (strip (map (\<lambda>c. if kept uni c then c else 95) s))"
    and c: "c = (if d = 32 then 95 else d)"
    by (auto simp: safe_filename_def replace_char_def Let_def)
  from d set_strip have "d \<in> set (map (\<lambda>c. if kept uni c then c else 95) s)" by blast
  then have "d = 95 \<or> d \<in> set s" by auto
  with c show "c \<in> insert 95 (set s)" by auto
qed

lemma safe_filename_chars:
  "c \<in> set (safe_filename uni s) \<Longrightarrow> ascii_safe c \<or> 128 \<le> c \<and> uni c"
  using kept_result[of c uni s]
  by (auto simp: kept_def re_word_def ascii_safe_def split: if_splits)

text \<open>
  Claim C3 says that \<open>safe_filename\<close> returns only characters of \<open>[A-Za-z0-9_.-]\<close>, is
  deterministic and is idempotent. The first part fails: \<open>\w\<close> also keeps every non-ASCII
  letter and digit, so the Arabic letter MEEM (U+0645) comes back unchanged.
\<close>

theorem safe_filename_keeps_arabic_letter:
  "\<not> list_all ascii_safe (safe_filename arabic_letter [0x645])"
  by (simp add: str_defs)

text \<open>
  Claim C3 as amended: every character of the result is in \<open>[A-Za-z0-9_.-]\<close> or is a
  non-ASCII alphanumeric character; for an ASCII input the result lies in
  \<open>[A-Za-z0-9_.-]\<close>; and applying \<open>safe_filename\<close> twice gives the same string as applying
  it once. The function is a HOL function of its argument, hence deterministic.
\<close>

theorem safe_filename_charset_idempotent:
  "list_all (\<lambda>c. ascii_safe c \<or> 128 \<le> c \<and> uni c) (safe_filename uni s)
   \<and> (list_all (\<lambda>c. c < 128) s \<longrightarrow> list_all ascii_safe (safe_filename uni s))
   \<and> safe_filename uni (safe_filename uni s) = safe_filename uni s"
proof (intro conjI impI)
  show "list_all (\<lambda>c. ascii_safe c \<or> 128 \<le> c \<and> uni c) (safe_filename uni s)"
    using safe_filename_chars by (auto simp: list_all_iff)
  show "list_all ascii_safe (safe_filename uni s)" if a: "list_all (\<lambda>c. c < 128) s"
  proof -
    have "c < 128" if "c \<in> set (safe_filename uni s)" for c
      using that safe_filename_subset[of uni s] a by (auto simp: list_all_iff)
    then show ?thesis using safe_filename_chars by (fastforce simp: list_all_iff)
  qed
  show "safe_filename uni (safe_filename uni s) = safe_filename uni s"
    by (rule safe_filename_idem)
qed

theorem safe_filename_charset_idempotent_witness:
  "list_all (\<lambda>c. c < 128) (lit ''My Video! (2020).mp4'')
   \<and> safe_filename arabic_letter (lit ''My Video! (2020).mp4'') = lit ''My_Video___2020_.mp4''
   \<and> list_all ascii_safe (safe_filename arabic_letter (lit ''My Video! (2020).mp4''))
   \<and> safe_filename arabic_letter (lit ''My_Video___2020_.mp4'') = lit ''My_Video___2020_.mp4''"
proof -
  have h: "list_all (\<lambda>c. c < 128) (lit ''My Video! (2020).mp4'')" by (simp add: lit_def)
  have v: "safe_filename arabic_letter (lit ''My Video! (2020).mp4'') = lit ''My_Video___2020_.mp4''"
    by (simp add: str_defs)
  from safe_filename_charset_idempotent[of arabic_letter "lit ''My Video! (2020).mp4''"] h
  have c: "list_all ascii_safe (safe_filename arabic_letter (lit ''My Video! (2020).mp4''))"
    and i: "safe_filename arabic_letter (safe_filename arabic_letter (lit ''My Video! (2020).mp4''))
            = safe_filename arabic_letter (lit ''My Video! (2020).mp4'')"
    by blast+
  from h v c i show ?thesis by (simp only: v)
qed

section \<open>The process runner (claim C4)\<close>

text \<open>
  Claim C4: \<open>run_cmd_capture\<close> never raises. When the command completes, its exit code is
  returned as a result whatever its value, with the captured output and error text; when
  \<open>subprocess.run\<close> raises (command not found, spawn failure), the result is exit code 1,
  empty standard output and the message of the exception as error text.
\<close>

theorem run_cmd_capture_total:
  "(\<exists>r s'. run_cmd_capture env cmd s = (Inr r, s'))
   \<and> (\<forall>c f w. ext_run env cmd (files s, world s) = (Inr c, f, w) \<longrightarrow>
        run_cmd_capture env cmd s =
          (Inr (returncode c, or_empty (stdout c), or_empty (stderr c)),
           s\<lparr>files := f, world := w, trace := trace s @ [RunCmd cmd]\<rparr>))
   \<and> (\<forall>e f w. ext_run env cmd (files s, world s) = (Inl e, f, w) \<longrightarrow>
        run_cmd_capture env cmd s =
          (Inr (1, [], str_exn e),
           s\<lparr>files := f, world := w, trace := trace s @ [RunCmd cmd]\<rparr>))"
  by (simp add: run_cmd_capture_eq captured_def split: prod.splits sum.splits)

theorem run_cmd_capture_total_witness:
  "ext_run (demo_env [(lit ''ffmpeg'', 3, [], [])]) [lit ''ffmpeg'', lit ''-y''] (files (demo_state []), world (demo_state []))
     = (Inr \<lparr>returncode = 3, stdout = Some [], stderr = Some []\<rparr>, [], 1)
   \<and> run_cmd_capture (demo_env [(lit ''ffmpeg'', 3, [], [])]) [lit ''ffmpeg'', lit ''-y''] (demo_state [])
     = (Inr (3, [], []), \<lparr>files = [], world = 1, trace = [RunCmd [lit ''ffmpeg'', lit ''-y'']]\<rparr>)
   \<and> ext_run (demo_env []) [lit ''ffmpeg'', lit ''-y''] (files (demo_state []), world (demo_state []))
     = (Inl (FileNotFoundError (lit ''ffmpeg'')), [], 0)
   \<and> run_cmd_capture (demo_env []) [lit ''ffmpeg'', lit ''-y''] (demo_state [])
     = (Inr (1, [], str_exn (FileNotFoundError (lit ''ffmpeg''))),
        \<lparr>files = [], world = 0, trace = [RunCmd [lit ''ffmpeg'', lit ''-y'']]\<rparr>)"
proof -
  let ?cmd = "[lit ''ffmpeg'', lit ''-y'']"
  have h1: "ext_run (demo_env [(lit ''ffmpeg'', 3, [], [])]) ?cmd (files (demo_state []), world (demo_state []))
     = (Inr \<lparr>returncode = 3, stdout = Some [], stderr = Some []\<rparr>, [], 1)"
    by (simp add: demo_defs)
  have h2: "ext_run (demo_env []) ?cmd (files (demo_state []), world (demo_state []))
     = (Inl (FileNotFoundError (lit ''ffmpeg'')), [], 0)"
    by (simp add: demo_defs)
  from run_cmd_capture_total[of "demo_env [(lit ''ffmpeg'', 3, [], [])]" ?cmd "demo_state []"] h1
  have c1: "run_cmd_capture (demo_env [(lit ''ffmpeg'', 3, [], [])]) ?cmd (demo_state [])
     = (Inr (3, [], []), \<lparr>files = [], world = 1, trace = [RunCmd ?cmd]\<rparr>)"
    by (simp add: or_empty_def demo_state_def)
  from run_cmd_capture_total[of "demo_env []" ?cmd "demo_state []"] h2
  have c2: "run_cmd_capture (demo_env []) ?cmd (demo_state [])
     = (Inr (1, [], str_exn (FileNotFoundError (lit ''ffmpeg''))),
        \<lparr>files = [], world = 0, trace = [RunCmd ?cmd]\<rparr>)"
    by (simp add: demo_state_def)
  from h1 h2 c1 c2 show ?thesis by blast
qed

section \<open>The media prober (claim C5)\<close>

text \<open>
  Claim C5: \<open>get_duration_seconds\<close> never raises, and it returns \<open>0.0\<close> when \<open>ffprobe\<close> is
  known to be absent, when running it raises, when it exits with a non-zero code and
  when what it prints is not a number.
\<close>

theorem get_duration_seconds_zero:
  "(\<exists>d s'. get_duration_seconds env cfg py_float p s = (Inr d, s'))
   \<and> (\<not> bin_ffprobe cfg \<longrightarrow> get_duration_seconds env cfg py_float p s = (Inr 0, s))
   \<and> (\<forall>e f w. ext_run env (ffprobe_cmd cfg p) (files s, world s) = (Inl e, f, w) \<longrightarrow>
        fst (get_duration_seconds env cfg py_float p s) = Inr 0)
   \<and> (\<forall>c f w. ext_run env (ffprobe_cmd cfg p) (files s, world s) = (Inr c, f, w)
          \<and> returncode c \<noteq> 0 \<longrightarrow>
        fst (get_duration_seconds env cfg py_float p s) = Inr 0)
   \<and> (\<forall>c f w e. ext_run env (ffprobe_cmd cfg p) (files s, world s) = (Inr c, f, w)
          \<and> py_float (strip (or_empty (stdout c))) = Inl e \<longrightarrow>
        fst (get_duration_seconds env cfg py_float p s) = Inr 0)"
  by (auto simp add: get_duration_seconds_eq run_cmd_capture_eq captured_def
      split: prod.splits sum.splits)

theorem get_duration_seconds_zero_witness:
  "\<not> bin_ffprobe (demo_cfg\<lparr>bin_ffprobe := False\<rparr>)
   \<and> get_duration_seconds (demo_env []) (demo_cfg\<lparr>bin_ffprobe := False\<rparr>) demo_float
        (Cwd, lit ''a.wav'') (demo_state []) = (Inr 0, demo_state [])
   \<and> ext_run (demo_env []) (ffprobe_cmd demo_cfg (Cwd, lit ''a.wav''))
        (files (demo_state []), world (demo_state []))
      = (Inl (FileNotFoundError (lit ''ffprobe'')), [], 0)
   \<and> fst (get_duration_seconds (demo_env []) demo_cfg demo_float (Cwd, lit ''a.wav'')
        (demo_state [])) = Inr 0
   \<and> ext_run (demo_env [(lit ''ffprobe'', 1, [], [])]) (ffprobe_cmd demo_cfg (Cwd, lit ''a.wav''))
        (files (demo_state []), world (demo_state []))
      = (Inr \<lparr>returncode = 1, stdout = Some [], stderr = Some []\<rparr>, [], 1)
   \<and> fst (get_duration_seconds (demo_env [(lit ''ffprobe'', 1, [], [])]) demo_cfg demo_float
        (Cwd, lit ''a.wav'') (demo_state [])) = Inr 0
   \<and> ext_run (demo_env [(lit ''ffprobe'', 0, lit ''N/A'' @ [10], [])])
        (ffprobe_cmd demo_cfg (Cwd, lit ''a.wav'')) (files (demo_state []), world (demo_state []))
      = (Inr \<lparr>returncode = 0, stdout = Some (lit ''N/A'' @ [10]), stderr = Some []\<rparr>, [], 1)
   \<and> demo_float (strip (lit ''N/A'' @ [10]))
      = Inl (PyException (lit ''could not convert string to float''))
   \<and> fst (get_duration_seconds (demo_env [(lit ''ffprobe'', 0, lit ''N/A'' @ [10], [])]) demo_cfg
        demo_float (Cwd, lit ''a.wav'') (demo_state [])) = Inr 0"
proof -
  let ?p = "(Cwd, lit ''a.wav'')"
  let ?s = "demo_state []"
  have a: "\<not> bin_ffprobe (demo_cfg\<lparr>bin_ffprobe := False\<rparr>)" by simp
  from get_duration_seconds_zero[of "demo_env []" "demo_cfg\<lparr>bin_ffprobe := False\<rparr>" demo_float ?p ?s] a
  have a': "get_duration_seconds (demo_env []) (demo_cfg\<lparr>bin_ffprobe := False\<rparr>) demo_float ?p ?s
        = (Inr 0, ?s)"
    by blast
  have b: "ext_run (demo_env []) (ffprobe_cmd demo_cfg ?p) (files ?s, world ?s)
      = (Inl (FileNotFoundError (lit ''ffprobe'')), [], 0)"
    by (simp add: demo_defs ffprobe_cmd_def)
  from get_duration_seconds_zero[of "demo_env []" demo_cfg demo_float ?p ?s] b
  have b': "fst (get_duration_seconds (demo_env []) demo_cfg demo_float ?p ?s) = Inr 0"
    by blast
  have c: "ext_run (demo_env [(lit ''ffprobe'', 1, [], [])]) (ffprobe_cmd demo_cfg ?p) (files ?s, world ?s)
      = (Inr \<lparr>returncode = 1, stdout = Some [], stderr = Some []\<rparr>, [], 1)"
    by (simp add: demo_defs ffprobe_cmd_def)
  from get_duration_seconds_zero[of "demo_env [(lit ''ffprobe'', 1, [], [])]" demo_cfg demo_float ?p ?s] c
  have c': "fst (get_duration_seconds (demo_env [(lit ''ffprobe'', 1, [], [])]) demo_cfg demo_float
        ?p ?s) = Inr 0"
    by (metis completed.select_convs(1) zero_neq_one)
  have d: "ext_run (demo_env [(lit ''ffprobe'', 0, lit ''N/A'' @ [10], [])])
        (ffprobe_cmd demo_cfg ?p) (files ?s, world ?s)
      = (Inr \<lparr>returncode = 0, stdout = Some (lit ''N/A'' @ [10]), stderr = Some []\<rparr>, [], 1)"
    by (simp add: demo_defs ffprobe_cmd_def)
  have e: "demo_float (strip (lit ''N/A'' @ [10]))
      = Inl (PyException (lit ''could not convert string to float''))"
    by (simp add: demo_float_def lit_def strip_def lstrip_def rstrip_def py_isspace_def)
  from get_duration_seconds_zero[of "demo_env [(lit ''ffprobe'', 0, lit ''N/A'' @ [10], [])]" demo_cfg demo_float ?p ?s] d e
  have d': "fst (get_duration_seconds (demo_env [(lit ''ffprobe'', 0, lit ''N/A'' @ [10], [])]) demo_cfg
        demo_float ?p ?s) = Inr 0"
    by (simp add: or_empty_def)
  from a a' b b' c c' d d' e show ?thesis by blast
qed

section \<open>The aggregator (claim C6)\<close>

text \<open>
  Claim C6 says that saving never fails. Neither \<open>open\<close> nor \<open>f.write\<close> is inside a \<open>try\<close>:
  a recognised text that holds a lone surrogate (here \<open>U+D800\<close>, after the text \<open>hello\<close>)
  makes \<open>f.write\<close> raise \<open>UnicodeEncodeError\<close>. The function ends with that exception, the
  file holds only what was written before, and nothing is reported.
\<close>

theorem save_text_raises_on_surrogate:
  "save_text demo_cfg (lit ''t'')
      (texts_of [Recognized (lit ''hello''), Recognized [0xD800], Failed (lit ''part_002.wav'')])
      (failures_of [Recognized (lit ''hello''), Recognized [0xD800], Failed (lit ''part_002.wav'')])
      (demo_state [])
   = (Inl (UnicodeEncodeError [0xD800, 10, 10] 0 1),
      \<lparr>files = [((Cwd, lit ''t.txt''), lit ''hello'' @ [10, 10])], world = 0, trace = []\<rparr>)"
  by (simp add: model_defs texts_of_def failures_of_def demo_state_def demo_cfg_def demo_dir_def)

text \<open>
  Claim C6 as amended, for a text file named by a file name: when the file can be created
  (its path can be encoded and its name takes at most 255 bytes) and every successful
  text can be encoded in UTF-8 (it holds no surrogate), saving returns normally and the
  text file holds the texts of the successful outcomes, in segment order, each followed
  by a newline and a blank line, so that consecutive texts are separated by a blank line;
  the names of the failed segments are reported in segment order. When every segment failed and the file can be created,
  the text file is written with an empty body and all the names are reported. These two
  conditions are exactly those under which saving returns: when the file cannot be
  created \<open>open\<close> raises with nothing written (\<open>OSError\<close> for a name that is too long), and
  the first text that cannot be encoded makes \<open>f.write\<close> raise \<open>UnicodeEncodeError\<close>, with
  the texts before it in the file; in both cases nothing is reported.
\<close>

theorem save_text_contents:
  assumes "file_name title_base"
  shows
  "(create_error cfg (Cwd, title_base @ lit ''.txt'') = None
      \<and> list_all encodable (texts_of outs) \<longrightarrow>
      save_text cfg title_base (texts_of outs) (failures_of outs) s =
        (Inr (Cwd, title_base @ lit ''.txt''),
         s\<lparr>files := AList.update (Cwd, title_base @ lit ''.txt'')
                     (concat (map (\<lambda>t. t @ [10, 10]) (texts_of outs))) (files s),
           trace := trace s
             @ [St Success (MSaved (title_base @ lit ''.txt'')), Log (MSaved (title_base @ lit ''.txt''))]
             @ (if failures_of outs = [] then [St Success MAllOk]
                else [St Error (MFailedCount (length (failures_of outs))), St Write MFailedHeader]
                     @ map (\<lambda>p. St Write (MFailedItem p)) (failures_of outs))\<rparr>)
      \<and> map_of (files (snd (save_text cfg title_base (texts_of outs) (failures_of outs) s)))
           (Cwd, title_base @ lit ''.txt'')
         = Some (concat (map (\<lambda>t. t @ [10, 10]) (texts_of outs))))
   \<and> texts_of (map Failed names) = [] \<and> failures_of (map Failed names) = names
   \<and> (create_error cfg (Cwd, title_base @ lit ''.txt'') = None \<longrightarrow>
        save_text cfg title_base (texts_of (map Failed names)) (failures_of (map Failed names)) s =
          (Inr (Cwd, title_base @ lit ''.txt''),
           s\<lparr>files := AList.update (Cwd, title_base @ lit ''.txt'') [] (files s),
             trace := trace s
               @ [St Success (MSaved (title_base @ lit ''.txt'')), Log (MSaved (title_base @ lit ''.txt''))]
               @ (if names = [] then [St Success MAllOk]
                  else [St Error (MFailedCount (length names)), St Write MFailedHeader]
                       @ map (\<lambda>p. St Write (MFailedItem p)) names)\<rparr>))
   \<and> ((\<exists>x s'. save_text cfg title_base (texts_of outs) (failures_of outs) s = (Inr x, s'))
        = (create_error cfg (Cwd, title_base @ lit ''.txt'') = None
           \<and> list_all encodable (texts_of outs)))
   \<and> (\<forall>e. create_error cfg (Cwd, title_base @ lit ''.txt'') = Some e \<longrightarrow>
        save_text cfg title_base (texts_of outs) (failures_of outs) s = (Inl e, s))
   \<and> (list_all (\<lambda>c. \<not> surrogate c) (path_str cfg (Cwd, title_base @ lit ''.txt''))
        \<and> 255 < name_bytes (title_base @ lit ''.txt'') \<longrightarrow>
        save_text cfg title_base (texts_of outs) (failures_of outs) s =
          (Inl (OSError 36 (lit ''File name too long'')
                  (path_str cfg (Cwd, title_base @ lit ''.txt''))), s))
   \<and> (\<forall>before t rest.
        create_error cfg (Cwd, title_base @ lit ''.txt'') = None
        \<and> texts_of outs = before @ t # rest
        \<and> list_all encodable before \<and> \<not> encodable t \<longrightarrow>
        (\<exists>i j. save_text cfg title_base (texts_of outs) (failures_of outs) s =
           (Inl (UnicodeEncodeError (t @ [10, 10]) i j),
            s\<lparr>files := AList.update (Cwd, title_base @ lit ''.txt'')
                        (concat (map (\<lambda>t. t @ [10, 10]) before)) (files s)\<rparr>)))"
proof -
  let ?S = "save_text cfg title_base (texts_of outs) (failures_of outs) s"
  let ?ok = "create_error cfg (Cwd, title_base @ lit ''.txt'') = None"
  have c1: "?ok \<and> list_all encodable (texts_of outs) \<longrightarrow>
      ?S =
        (Inr (Cwd, title_base @ lit ''.txt''),
         s\<lparr>files := AList.update (Cwd, title_base @ lit ''.txt'')
                     (concat (map (\<lambda>t. t @ [10, 10]) (texts_of outs))) (files s),
           trace := trace s
             @ [St Success (MSaved (title_base @ lit ''.txt'')), Log (MSaved (title_base @ lit ''.txt''))]
             @ (if failures_of outs = [] then [St Success MAllOk]
                else [St Error (MFailedCount (length (failures_of outs))), St Write MFailedHeader]
                     @ map (\<lambda>p. St Write (MFailedItem p)) (failures_of outs))\<rparr>)
      \<and> map_of (files (snd ?S)) (Cwd, title_base @ lit ''.txt'')
         = Some (concat (map (\<lambda>t. t @ [10, 10]) (texts_of outs)))"
    by (simp add: save_text_eq update_conv')
  have c2: "texts_of (map Failed names) = []" by (rule texts_of_Failed)
  have c3: "failures_of (map Failed names) = names" by (rule failures_of_Failed)
  have c4: "?ok \<longrightarrow>
        save_text cfg title_base (texts_of (map Failed names)) (failures_of (map Failed names)) s =
          (Inr (Cwd, title_base @ lit ''.txt''),
           s\<lparr>files := AList.update (Cwd, title_base @ lit ''.txt'') [] (files s),
             trace := trace s
               @ [St Success (MSaved (title_base @ lit ''.txt'')), Log (MSaved (title_base @ lit ''.txt''))]
               @ (if names = [] then [St Success MAllOk]
                  else [St Error (MFailedCount (length names)), St Write MFailedHeader]
                       @ map (\<lambda>p. St Write (MFailedItem p)) names)\<rparr>)"
    by (simp add: save_text_eq texts_of_Failed failures_of_Failed)
  have c6: "\<forall>e. create_error cfg (Cwd, title_base @ lit ''.txt'') = Some e \<longrightarrow> ?S = (Inl e, s)"
    by (simp add: save_text_refused)
  have c6': "list_all (\<lambda>c. \<not> surrogate c) (path_str cfg (Cwd, title_base @ lit ''.txt''))
        \<and> 255 < name_bytes (title_base @ lit ''.txt'') \<longrightarrow>
        ?S = (Inl (OSError 36 (lit ''File name too long'')
                  (path_str cfg (Cwd, title_base @ lit ''.txt''))), s)"
    using create_error_long[of cfg "(Cwd, title_base @ lit ''.txt'')"] c6 by simp
  have c7: "\<forall>before t rest.
        ?ok \<and> texts_of outs = before @ t # rest
        \<and> list_all encodable before \<and> \<not> encodable t \<longrightarrow>
        (\<exists>i j. ?S =
           (Inl (UnicodeEncodeError (t @ [10, 10]) i j),
            s\<lparr>files := AList.update (Cwd, title_base @ lit ''.txt'')
                        (concat (map (\<lambda>t. t @ [10, 10]) before)) (files s)\<rparr>))"
  proof (intro allI impI, elim conjE)
    fix before t rest
    assume h: "?ok" "texts_of outs = before @ t # rest" "list_all encodable before" "\<not> encodable t"
    from save_text_unencodable[OF h(1,3,4), of rest "failures_of outs" s] h(2)
    show "\<exists>i j. ?S =
           (Inl (UnicodeEncodeError (t @ [10, 10]) i j),
            s\<lparr>files := AList.update (Cwd, title_base @ lit ''.txt'')
                        (concat (map (\<lambda>t. t @ [10, 10]) before)) (files s)\<rparr>)"
      by simp
  qed
  have c5: "(\<exists>x s'. ?S = (Inr x, s')) = (?ok \<and> list_all encodable (texts_of outs))"
  proof (cases "create_error cfg (Cwd, title_base @ lit ''.txt'')")
    case (Some e)
    with c6 have "?S = (Inl e, s)" by blast
    with Some show ?thesis by simp
  next
    case None
    show ?thesis
    proof (cases "list_all encodable (texts_of outs)")
      case True
      with None c1 show ?thesis by simp
    next
      case False
      then have "\<exists>t \<in> set (texts_of outs). \<not> encodable t" by (simp add: list_all_iff)
      from split_list_first_prop[OF this] obtain before t rest where
        sp: "texts_of outs = before @ t # rest" "\<not> encodable t" "\<forall>y \<in> set before. \<not> \<not> encodable y"
        by blast
      from sp(3) have "list_all encodable before" by (simp add: list_all_iff)
      with c7 None sp(1,2) obtain e s' where "?S = (Inl e, s')" by blast
      with False show ?thesis by simp
    qed
  qed
  from c1 c2 c3 c4 c5 c6 c6' c7 show ?thesis by - (intro conjI, assumption+)
qed

theorem save_text_contents_witness:
  "map_of (files (snd (save_text demo_cfg (lit ''t'') (texts_of demo_outs) (failures_of demo_outs)
        (demo_state [])))) (Cwd, lit ''t.txt'')
     = Some (lit ''hello'' @ [10, 10] @ lit ''bye'' @ [10, 10])
   \<and> trace (snd (save_text demo_cfg (lit ''t'') (texts_of demo_outs) (failures_of demo_outs)
        (demo_state [])))
     = [St Success (MSaved (lit ''t.txt'')), Log (MSaved (lit ''t.txt'')),
        St Error (MFailedCount 1), St Write MFailedHeader,
        St Write (MFailedItem (lit ''part_001.wav''))]
   \<and> save_text demo_cfg (lit ''t'') (texts_of (map Failed demo_names))
        (failures_of (map Failed demo_names)) (demo_state [])
     = (Inr (Cwd, lit ''t.txt''),
        \<lparr>files = [((Cwd, lit ''t.txt''), [])], world = 0,
         trace = [St Success (MSaved (lit ''t.txt'')), Log (MSaved (lit ''t.txt'')),
            St Error (MFailedCount 3), St Write MFailedHeader,
            St Write (MFailedItem (lit ''part_000.wav'')), St Write (MFailedItem (lit ''part_001.wav'')),
            St Write (MFailedItem (lit ''part_002.wav''))]\<rparr>)
   \<and> (\<exists>x s'. save_text demo_cfg (lit ''t'') (texts_of demo_outs) (failures_of demo_outs)
        (demo_state []) = (Inr x, s'))
   \<and> save_text demo_cfg long_prefix (texts_of demo_outs) (failures_of demo_outs)
        (demo_state [])
     = (Inl (OSError 36 (lit ''File name too long'')
               (path_str demo_cfg (Cwd, long_prefix @ lit ''.txt''))), demo_state [])
   \<and> (\<exists>i j. save_text demo_cfg (lit ''t'')
          (texts_of [Recognized (lit ''hello''), Recognized [0xD800]])
          (failures_of [Recognized (lit ''hello''), Recognized [0xD800]]) (demo_state [])
        = (Inl (UnicodeEncodeError [0xD800, 10, 10] i j),
           \<lparr>files = [((Cwd, lit ''t.txt''), lit ''hello'' @ [10, 10])], world = 0, trace = []\<rparr>))"
proof -
  let ?s = "demo_state [] :: nat state"
  have nm: "lit ''t'' @ lit ''.txt'' = lit ''t.txt''" by (simp add: lit_def)
  have ok: "create_error demo_cfg (Cwd, lit ''t'' @ lit ''.txt'') = None"
    by (simp only: nm demo_create_short)
  have enc: "list_all encodable (texts_of demo_outs)"
    by (simp add: demo_outs_def texts_of_def encodable_def surrogate_def lit_def)
  have fn: "file_name (lit ''t'')" "file_name long_prefix"
    by (simp add: file_name_def lit_def) (rule long_prefix_file_name)
  note t1 = save_text_contents[OF fn(1), of demo_cfg demo_outs ?s demo_names]
  from t1 ok enc have a:
    "map_of (files (snd (save_text demo_cfg (lit ''t'') (texts_of demo_outs) (failures_of demo_outs) ?s)))
        (Cwd, lit ''t'' @ lit ''.txt'')
       = Some (concat (map (\<lambda>t. t @ [10, 10]) (texts_of demo_outs)))"
    by blast
  from t1 ok enc have b:
    "save_text demo_cfg (lit ''t'') (texts_of demo_outs) (failures_of demo_outs) ?s =
        (Inr (Cwd, lit ''t'' @ lit ''.txt''),
         ?s\<lparr>files := AList.update (Cwd, lit ''t'' @ lit ''.txt'')
                     (concat (map (\<lambda>t. t @ [10, 10]) (texts_of demo_outs))) (files ?s),
           trace := trace ?s
             @ [St Success (MSaved (lit ''t'' @ lit ''.txt'')), Log (MSaved (lit ''t'' @ lit ''.txt''))]
             @ (if failures_of demo_outs = [] then [St Success MAllOk]
                else [St Error (MFailedCount (length (failures_of demo_outs))), St Write MFailedHeader]
                     @ map (\<lambda>p. St Write (MFailedItem p)) (failures_of demo_outs))\<rparr>)"
    by blast
  from t1 ok have c:
    "save_text demo_cfg (lit ''t'') (texts_of (map Failed demo_names))
          (failures_of (map Failed demo_names)) ?s =
          (Inr (Cwd, lit ''t'' @ lit ''.txt''),
           ?s\<lparr>files := AList.update (Cwd, lit ''t'' @ lit ''.txt'') [] (files ?s),
             trace := trace ?s
               @ [St Success (MSaved (lit ''t'' @ lit ''.txt'')), Log (MSaved (lit ''t'' @ lit ''.txt''))]
               @ (if demo_names = [] then [St Success MAllOk]
                  else [St Error (MFailedCount (length demo_names)), St Write MFailedHeader]
                       @ map (\<lambda>p. St Write (MFailedItem p)) demo_names)\<rparr>)"
    by blast
  from t1 ok enc have d:
    "\<exists>x s'. save_text demo_cfg (lit ''t'') (texts_of demo_outs) (failures_of demo_outs) ?s = (Inr x, s')"
    by blast
  have "list_all (\<lambda>c. \<not> surrogate c) (lit ''.txt'')" by (simp add: lit_def surrogate_def)
  from demo_create_long[OF this]
  have long: "create_error demo_cfg (Cwd, long_prefix @ lit ''.txt'')
       = Some (OSError 36 (lit ''File name too long'') (path_str demo_cfg (Cwd, long_prefix @ lit ''.txt'')))"
    by (simp add: path_str_def demo_cfg_def demo_dir_def lit_def)
  from save_text_contents[OF fn(2), of demo_cfg demo_outs ?s demo_names] long have e:
    "save_text demo_cfg long_prefix (texts_of demo_outs) (failures_of demo_outs) ?s
     = (Inl (OSError 36 (lit ''File name too long'')
               (path_str demo_cfg (Cwd, long_prefix @ lit ''.txt''))), ?s)"
    by blast
  let ?outs = "[Recognized (lit ''hello''), Recognized [0xD800]]"
  have sp: "texts_of ?outs = [lit ''hello''] @ [0xD800] # []" by (simp add: texts_of_def)
  have e1: "list_all encodable [lit ''hello'']" by (simp add: encodable_def surrogate_def lit_def)
  have e2: "\<not> encodable [0xD800]" by (simp add: encodable_def surrogate_def)
  from ok sp e1 e2 have pr: "create_error demo_cfg (Cwd, lit ''t'' @ lit ''.txt'') = None
        \<and> texts_of ?outs = [lit ''hello''] @ [0xD800] # []
        \<and> list_all encodable [lit ''hello''] \<and> \<not> encodable [0xD800]"
    by - (intro conjI, assumption+)
  note t2 = save_text_contents[OF fn(1), of demo_cfg ?outs ?s demo_names]
  from t2[THEN conjunct2, THEN conjunct2, THEN conjunct2, THEN conjunct2, THEN conjunct2,
      THEN conjunct2, THEN conjunct2, rule_format, OF pr] have f:
    "\<exists>i j. save_text demo_cfg (lit ''t'') (texts_of ?outs) (failures_of ?outs) ?s =
           (Inl (UnicodeEncodeError ([0xD800] @ [10, 10]) i j),
            ?s\<lparr>files := AList.update (Cwd, lit ''t'' @ lit ''.txt'')
                        (concat (map (\<lambda>t. t @ [10, 10]) [lit ''hello''])) (files ?s)\<rparr>)" .
  have a': "map_of (files (snd (save_text demo_cfg (lit ''t'') (texts_of demo_outs) (failures_of demo_outs) ?s)))
        (Cwd, lit ''t.txt'') = Some (lit ''hello'' @ [10, 10] @ lit ''bye'' @ [10, 10])"
    using a by (simp add: demo_outs_def texts_of_def lit_def)
  have b': "trace (snd (save_text demo_cfg (lit ''t'') (texts_of demo_outs) (failures_of demo_outs) ?s))
     = [St Success (MSaved (lit ''t.txt'')), Log (MSaved (lit ''t.txt'')),
        St Error (MFailedCount 1), St Write MFailedHeader,
        St Write (MFailedItem (lit ''part_001.wav''))]"
    unfolding b by (simp add: demo_outs_def failures_of_def demo_state_def lit_def)
  have c': "save_text demo_cfg (lit ''t'') (texts_of (map Failed demo_names))
        (failures_of (map Failed demo_names)) ?s
     = (Inr (Cwd, lit ''t.txt''),
        \<lparr>files = [((Cwd, lit ''t.txt''), [])], world = 0,
         trace = [St Success (MSaved (lit ''t.txt'')), Log (MSaved (lit ''t.txt'')),
            St Error (MFailedCount 3), St Write MFailedHeader,
            St Write (MFailedItem (lit ''part_000.wav'')), St Write (MFailedItem (lit ''part_001.wav'')),
            St Write (MFailedItem (lit ''part_002.wav''))]\<rparr>)"
    unfolding c by (simp add: demo_names_def demo_state_def lit_def)
  have f': "\<exists>i j. save_text demo_cfg (lit ''t'') (texts_of ?outs) (failures_of ?outs) ?s
        = (Inl (UnicodeEncodeError [0xD800, 10, 10] i j),
           \<lparr>files = [((Cwd, lit ''t.txt''), lit ''hello'' @ [10, 10])], world = 0, trace = []\<rparr>)"
    using f by (simp add: demo_state_def lit_def)
  from a' b' c' d e f' show ?thesis by - (intro conjI, assumption+)
qed

section \<open>Audio acquisition (claim C7)\<close>

text \<open>
  Claim C7 says that acquisition fails exactly when the download tool is absent, exits
  with a non-zero code or leaves no \<open>.wav\<close> file. There is a fourth way: \<open>shutil.move\<close>
  is not inside a \<open>try\<close>, and the name of its destination starts with the prefix the
  user typed, which has no bound. With a prefix of 300 letters the download succeeds and
  leaves two \<open>.wav\<close> files, the destination name is refused by the file system, and the
  stage ends with \<open>OSError\<close>; the file stays in the download directory.
\<close>

theorem acquire_audio_relocation_raises:
  "ext_run (demo_env demo_tools) (yt_cmd demo_cfg demo_url []) ([], 0)
     = (Inr \<lparr>returncode = 0, stdout = Some [], stderr = Some []\<rparr>,
        [((DownloadDir, lit ''b talk-2.wav''), 0 # lit ''hello''),
         ((DownloadDir, lit ''a talk!-1.wav''), 0 # marhaban)], 1)
   \<and> sorted_glob DownloadDir (lit ''.wav'')
        [((DownloadDir, lit ''b talk-2.wav''), 0 # lit ''hello''),
         ((DownloadDir, lit ''a talk!-1.wav''), 0 # marhaban)]
     = [lit ''a talk!-1.wav'', lit ''b talk-2.wav'']
   \<and> fst (acquire_audio (demo_env demo_tools) demo_cfg demo_url [] long_prefix (demo_state []))
     = Inl (OSError 36 (lit ''File name too long'')
              (lit ''/app/'' @ long_prefix @ lit ''_a_talk_-1.wav''))
   \<and> files (snd (acquire_audio (demo_env demo_tools) demo_cfg demo_url [] long_prefix
        (demo_state [])))
     = [((DownloadDir, lit ''b talk-2.wav''), 0 # lit ''hello''),
        ((DownloadDir, lit ''a talk!-1.wav''), 0 # marhaban)]
   \<and> fst (process_url_to_text (demo_env demo_tools) demo_cfg demo_url [] long_prefix
        (demo_state []))
     = Inl (OSError 36 (lit ''File name too long'')
              (lit ''/app/'' @ long_prefix @ lit ''_a_talk_-1.wav''))"
proof -
  let ?E = "demo_env demo_tools"
  let ?s = "demo_state [] :: nat state"
  let ?f = "[((DownloadDir, lit ''b talk-2.wav''), 0 # lit ''hello''),
            ((DownloadDir, lit ''a talk!-1.wav''), 0 # marhaban)] :: fs"
  have r: "ext_run ?E (yt_cmd demo_cfg demo_url []) ([], 0)
            = (Inr \<lparr>returncode = 0, stdout = Some [], stderr = Some []\<rparr>, ?f, 1)"
    by (simp add: demo_defs demo_tools_def yt_cmd_def)
  then have r': "ext_run ?E (yt_cmd demo_cfg demo_url []) (files ?s, world ?s)
            = (Inr \<lparr>returncode = 0, stdout = Some [], stderr = Some []\<rparr>, ?f, 1)"
    by (simp add: demo_state_def)
  have rc: "returncode \<lparr>returncode = 0, stdout = Some [], stderr = Some []\<rparr> = 0" by simp
  have b: "map_of ?f (DownloadDir, lit ''a talk!-1.wav'') = Some (0 # marhaban)"
    by (simp add: lit_def)
  have nm: "title_of ?E long_prefix (lit ''a talk!-1.wav'') @ lit ''.wav''
              = long_prefix @ lit ''_a_talk_-1.wav''"
    by (simp add: demo_long_title) (simp add: lit_def)
  have "list_all (\<lambda>c. \<not> surrogate c) (lit ''_a_talk_-1.wav'')" by (simp add: lit_def surrogate_def)
  from demo_create_long[OF this]
  have long: "create_error demo_cfg (Cwd, title_of ?E long_prefix (lit ''a talk!-1.wav'') @ lit ''.wav'')
              = Some (OSError 36 (lit ''File name too long'')
                        (lit ''/app/'' @ long_prefix @ lit ''_a_talk_-1.wav''))"
    by (simp only: nm)
  from acquire_audio_refused[OF r' rc demo_glob b long]
  have a: "acquire_audio ?E demo_cfg demo_url [] long_prefix ?s =
           (Inl (OSError 36 (lit ''File name too long'') (lit ''/app/'' @ long_prefix @ lit ''_a_talk_-1.wav'')),
            ?s\<lparr>files := ?f, world := 1,
              trace := trace ?s @ acquire_opening [] @ [RunCmd (yt_cmd demo_cfg demo_url [])]
                 @ [Log MDownloadOk]\<rparr>)" .
  have pre: "demo_url \<noteq> []" "bin_yt_dlp demo_cfg" "bin_ffmpeg demo_cfg" "ext_import ?E = None"
      "clear_tmp ?s = ?s"
    by (simp_all add: demo_defs demo_url_def lit_def clear_tmp_def)
  from a pre(5) have a0: "acquire_audio ?E demo_cfg demo_url [] long_prefix (clear_tmp ?s) =
           (Inl (OSError 36 (lit ''File name too long'') (lit ''/app/'' @ long_prefix @ lit ''_a_talk_-1.wav'')),
            ?s\<lparr>files := ?f, world := 1,
              trace := trace ?s @ acquire_opening [] @ [RunCmd (yt_cmd demo_cfg demo_url [])]
                 @ [Log MDownloadOk]\<rparr>)"
    by simp
  from process_raises_in_acquire[OF pre(1-4) a0]
  have p: "fst (process_url_to_text ?E demo_cfg demo_url [] long_prefix ?s)
     = Inl (OSError 36 (lit ''File name too long'') (lit ''/app/'' @ long_prefix @ lit ''_a_talk_-1.wav''))"
    by simp
  from a have a1: "fst (acquire_audio ?E demo_cfg demo_url [] long_prefix ?s)
     = Inl (OSError 36 (lit ''File name too long'') (lit ''/app/'' @ long_prefix @ lit ''_a_talk_-1.wav''))"
    by simp
  from a have a2: "files (snd (acquire_audio ?E demo_cfg demo_url [] long_prefix ?s)) = ?f" by simp
  from r demo_glob a1 a2 p show ?thesis by - (intro conjI, assumption+)
qed

text \<open>
  Claim C7 as amended: the download stage gives up, ending the run normally before the
  splitter is ever started, exactly when running the download tool raises (the tool is
  absent), the tool exits with a non-zero code, or no \<open>.wav\<close> file is in the download
  directory afterwards; then no file is moved and the download command is the only
  command that was run. A tool known to be absent (\<open>bin_yt_dlp\<close> false) ends the run
  before anything is run. Otherwise the file taken is the least name among the \<open>.wav\<close>
  files, and its destination is named by a file name. When its destination can be created
  (the path can be encoded and the name takes at most 255 bytes), the move succeeds: the file is no longer at its path in the
  download directory and its bytes are at the new path in the working directory. When
  the destination cannot be created, which is the one case in which the stage raises, the
  move raises (\<open>OSError\<close> for a name that is too long), the files are as the download left
  them, and the whole function ends with that exception, the download command being the
  only command that was run.
\<close>

theorem acquire_audio_outcome:
  assumes run: "ext_run env (yt_cmd cfg url cookie_file) (files s, world s) = (r, f1, w1)"
  shows
   "((fst (acquire_audio env cfg url cookie_file prefix s) = Inr None) =
         ((\<exists>e. r = Inl e) \<or> (\<exists>c. r = Inr c \<and> returncode c \<noteq> 0)
          \<or> sorted_glob DownloadDir (lit ''.wav'') f1 = []))
    \<and> ((\<exists>e. fst (acquire_audio env cfg url cookie_file prefix s) = Inl e) =
         (\<exists>c src rest. r = Inr c \<and> returncode c = 0
            \<and> sorted_glob DownloadDir (lit ''.wav'') f1 = src # rest
            \<and> create_error cfg (Cwd, title_of env prefix src @ lit ''.wav'') \<noteq> None))
    \<and> (fst (acquire_audio env cfg url cookie_file prefix s) = Inr None \<longrightarrow>
          files (snd (acquire_audio env cfg url cookie_file prefix s)) = f1
          \<and> run_calls (trace (snd (acquire_audio env cfg url cookie_file prefix s)))
              = run_calls (trace s) @ [yt_cmd cfg url cookie_file])
    \<and> (\<forall>c src rest. r = Inr c \<and> returncode c = 0
            \<and> sorted_glob DownloadDir (lit ''.wav'') f1 = src # rest \<longrightarrow>
          (\<forall>n \<in> set (glob DownloadDir (lit ''.wav'') f1). src \<le> n)
          \<and> map_of f1 (DownloadDir, src) \<noteq> None
          \<and> file_name (title_of env prefix src @ lit ''.wav'')
          \<and> (create_error cfg (Cwd, title_of env prefix src @ lit ''.wav'') = None \<longrightarrow>
               fst (acquire_audio env cfg url cookie_file prefix s)
                 = Inr (Some ((Cwd, title_of env prefix src @ lit ''.wav''), title_of env prefix src))
               \<and> map_of (files (snd (acquire_audio env cfg url cookie_file prefix s)))
                    (DownloadDir, src) = None
               \<and> map_of (files (snd (acquire_audio env cfg url cookie_file prefix s)))
                    (Cwd, title_of env prefix src @ lit ''.wav'')
                   = map_of f1 (DownloadDir, src))
          \<and> (\<forall>e. create_error cfg (Cwd, title_of env prefix src @ lit ''.wav'') = Some e \<longrightarrow>
               fst (acquire_audio env cfg url cookie_file prefix s) = Inl e
               \<and> files (snd (acquire_audio env cfg url cookie_file prefix s)) = f1
               \<and> run_calls (trace (snd (acquire_audio env cfg url cookie_file prefix s)))
                   = run_calls (trace s) @ [yt_cmd cfg url cookie_file])
          \<and> (list_all (\<lambda>c. \<not> surrogate c)
                (path_str cfg (Cwd, title_of env prefix src @ lit ''.wav''))
              \<and> 255 < name_bytes (title_of env prefix src @ lit ''.wav'') \<longrightarrow>
               fst (acquire_audio env cfg url cookie_file prefix s)
                 = Inl (OSError 36 (lit ''File name too long'')
                          (path_str cfg (Cwd, title_of env prefix src @ lit ''.wav'')))))
    \<and> (\<forall>s0. url \<noteq> [] \<and> \<not> bin_yt_dlp cfg \<longrightarrow>
          process_url_to_text env cfg url cookie_file prefix s0 =
            (Inr (), s0\<lparr>trace := trace s0 @ [St Error MNoYtDlp]\<rparr>))
    \<and> (\<forall>s0. url \<noteq> [] \<and> bin_yt_dlp cfg \<and> bin_ffmpeg cfg \<and> ext_import env = None
            \<and> s = clear_tmp s0
            \<and> fst (acquire_audio env cfg url cookie_file prefix s) = Inr None \<longrightarrow>
          process_url_to_text env cfg url cookie_file prefix s0 =
            (Inr (), clear_tmp (snd (acquire_audio env cfg url cookie_file prefix s)))
          \<and> run_calls (trace (snd (process_url_to_text env cfg url cookie_file prefix s0)))
              = run_calls (trace s0) @ [yt_cmd cfg url cookie_file])
    \<and> (\<forall>s0 e. url \<noteq> [] \<and> bin_yt_dlp cfg \<and> bin_ffmpeg cfg \<and> ext_import env = None
            \<and> s = clear_tmp s0
            \<and> fst (acquire_audio env cfg url cookie_file prefix s) = Inl e \<longrightarrow>
          process_url_to_text env cfg url cookie_file prefix s0 =
            (Inl e, clear_tmp (snd (acquire_audio env cfg url cookie_file prefix s)))
          \<and> run_calls (trace (snd (process_url_to_text env cfg url cookie_file prefix s0)))
              = run_calls (trace s0) @ [yt_cmd cfg url cookie_file])"
proof -
  let ?A = "acquire_audio env cfg url cookie_file prefix s"
  let ?bad = "(\<exists>e. r = Inl e) \<or> (\<exists>c. r = Inr c \<and> returncode c \<noteq> 0)
          \<or> sorted_glob DownloadDir (lit ''.wav'') f1 = []"
  let ?long = "\<exists>c src rest. r = Inr c \<and> returncode c = 0
            \<and> sorted_glob DownloadDir (lit ''.wav'') f1 = src # rest
            \<and> create_error cfg (Cwd, title_of env prefix src @ lit ''.wav'') \<noteq> None"
  let ?C3 = "fst ?A = Inr None \<longrightarrow>
          files (snd ?A) = f1
          \<and> run_calls (trace (snd ?A)) = run_calls (trace s) @ [yt_cmd cfg url cookie_file]"
  let ?C4 = "\<forall>c src rest. r = Inr c \<and> returncode c = 0
            \<and> sorted_glob DownloadDir (lit ''.wav'') f1 = src # rest \<longrightarrow>
          (\<forall>n \<in> set (glob DownloadDir (lit ''.wav'') f1). src \<le> n)
          \<and> map_of f1 (DownloadDir, src) \<noteq> None
          \<and> file_name (title_of env prefix src @ lit ''.wav'')
          \<and> (create_error cfg (Cwd, title_of env prefix src @ lit ''.wav'') = None \<longrightarrow>
               fst ?A
                 = Inr (Some ((Cwd, title_of env prefix src @ lit ''.wav''), title_of env prefix src))
               \<and> map_of (files (snd ?A)) (DownloadDir, src) = None
               \<and> map_of (files (snd ?A)) (Cwd, title_of env prefix src @ lit ''.wav'')
                   = map_of f1 (DownloadDir, src))
          \<and> (\<forall>e. create_error cfg (Cwd, title_of env prefix src @ lit ''.wav'') = Some e \<longrightarrow>
               fst ?A = Inl e
               \<and> files (snd ?A) = f1
               \<and> run_calls (trace (snd ?A)) = run_calls (trace s) @ [yt_cmd cfg url cookie_file])
          \<and> (list_all (\<lambda>c. \<not> surrogate c)
                (path_str cfg (Cwd, title_of env prefix src @ lit ''.wav''))
              \<and> 255 < name_bytes (title_of env prefix src @ lit ''.wav'') \<longrightarrow>
               fst ?A
                 = Inl (OSError 36 (lit ''File name too long'')
                          (path_str cfg (Cwd, title_of env prefix src @ lit ''.wav''))))"
  let ?C6 = "\<forall>s0. url \<noteq> [] \<and> bin_yt_dlp cfg \<and> bin_ffmpeg cfg \<and> ext_import env = None
            \<and> s = clear_tmp s0 \<and> fst ?A = Inr None \<longrightarrow>
          process_url_to_text env cfg url cookie_file prefix s0 = (Inr (), clear_tmp (snd ?A))
          \<and> run_calls (trace (snd (process_url_to_text env cfg url cookie_file prefix s0)))
              = run_calls (trace s0) @ [yt_cmd cfg url cookie_file]"
  let ?C7 = "\<forall>s0 e. url \<noteq> [] \<and> bin_yt_dlp cfg \<and> bin_ffmpeg cfg \<and> ext_import env = None
            \<and> s = clear_tmp s0 \<and> fst ?A = Inl e \<longrightarrow>
          process_url_to_text env cfg url cookie_file prefix s0 = (Inl e, clear_tmp (snd ?A))
          \<and> run_calls (trace (snd (process_url_to_text env cfg url cookie_file prefix s0)))
              = run_calls (trace s0) @ [yt_cmd cfg url cookie_file]"
  have top1: "\<forall>s0. url \<noteq> [] \<and> \<not> bin_yt_dlp cfg \<longrightarrow>
          process_url_to_text env cfg url cookie_file prefix s0 =
            (Inr (), s0\<lparr>trace := trace s0 @ [St Error MNoYtDlp]\<rparr>)"
    using process_no_yt_dlp by blast
  from acquire_audio_cases[OF run, of prefix]
  consider
    (gave_up) ev where "?bad"
      "?A = (Inr None, s\<lparr>files := f1, world := w1,
                    trace := trace s @ acquire_opening cookie_file
                       @ [RunCmd (yt_cmd cfg url cookie_file)] @ ev\<rparr>)"
      "run_calls ev = []"
  | (moved) c src rest bytes where "r = Inr c" "returncode c = 0"
      "sorted_glob DownloadDir (lit ''.wav'') f1 = src # rest"
      "map_of f1 (DownloadDir, src) = Some bytes"
      "create_error cfg (Cwd, title_of env prefix src @ lit ''.wav'') = None"
      "?A = (Inr (Some ((Cwd, title_of env prefix src @ lit ''.wav''), title_of env prefix src)),
                 s\<lparr>files := AList.update (Cwd, title_of env prefix src @ lit ''.wav'') bytes
                              (AList.delete (DownloadDir, src) f1),
                   world := w1,
                   trace := trace s @ acquire_opening cookie_file
                      @ [RunCmd (yt_cmd cfg url cookie_file)]
                      @ [Log MDownloadOk,
                         Log (MMoved (path_str cfg (Cwd, title_of env prefix src @ lit ''.wav''))),
                         St Success (MAudioReady (title_of env prefix src @ lit ''.wav''))]\<rparr>)"
  | (refused) c src rest bytes e where "r = Inr c" "returncode c = 0"
      "sorted_glob DownloadDir (lit ''.wav'') f1 = src # rest"
      "map_of f1 (DownloadDir, src) = Some bytes"
      "create_error cfg (Cwd, title_of env prefix src @ lit ''.wav'') = Some e"
      "?A = (Inl e,
                 s\<lparr>files := f1, world := w1,
                   trace := trace s @ acquire_opening cookie_file
                      @ [RunCmd (yt_cmd cfg url cookie_file)] @ [Log MDownloadOk]\<rparr>)"
    by blast
  then show ?thesis
  proof cases
    case gave_up
    note bad = gave_up(1) and a = gave_up(2) and ev = gave_up(3)
    have c1: "(fst ?A = Inr None) = ?bad" using a bad by simp
    have c2: "(\<exists>e. fst ?A = Inl e) = ?long" using a bad by auto
    have c3: ?C3 using a ev by simp
    have c4: ?C4 using bad by auto
    have c6: ?C6
    proof (intro allI impI, elim conjE)
      fix s0
      assume h: "url \<noteq> []" "bin_yt_dlp cfg" "bin_ffmpeg cfg" "ext_import env = None" "s = clear_tmp s0"
      from a h(5) have "acquire_audio env cfg url cookie_file prefix (clear_tmp s0) = (Inr None, snd ?A)"
        by simp
      from process_aborts_after_acquire[OF h(1-4) this]
      have p: "process_url_to_text env cfg url cookie_file prefix s0 = (Inr (), clear_tmp (snd ?A))" .
      moreover have "run_calls (trace (clear_tmp (snd ?A))) = run_calls (trace s0) @ [yt_cmd cfg url cookie_file]"
        using a ev h(5) by simp
      ultimately show "process_url_to_text env cfg url cookie_file prefix s0 = (Inr (), clear_tmp (snd ?A))
          \<and> run_calls (trace (snd (process_url_to_text env cfg url cookie_file prefix s0)))
              = run_calls (trace s0) @ [yt_cmd cfg url cookie_file]"
        by simp
    qed
    have c7: ?C7 using a by simp
    from c1 c2 c3 c4 top1 c6 c7 show ?thesis by - (intro conjI, assumption+)
  next
    case moved
    note c = moved(1,2) and g = moved(3) and b = moved(4) and ok = moved(5) and a = moved(6)
    from sorted_glob_first[OF g] have least: "\<forall>n \<in> set (glob DownloadDir (lit ''.wav'') f1). src \<le> n"
      by simp
    have gone: "map_of (files (snd ?A)) (DownloadDir, src) = None"
      by (simp add: a update_conv' delete_conv')
    have there: "map_of (files (snd ?A)) (Cwd, title_of env prefix src @ lit ''.wav'')
                   = map_of f1 (DownloadDir, src)"
      by (simp add: a b update_conv')
    from a have res: "fst ?A = Inr (Some ((Cwd, title_of env prefix src @ lit ''.wav''), title_of env prefix src))"
      by simp
    have c1: "(fst ?A = Inr None) = ?bad" using res c g by simp
    have c2: "(\<exists>e. fst ?A = Inl e) = ?long" using res c g ok by simp
    have c3: ?C3 using res by simp
    have nl: "\<not> (list_all (\<lambda>c. \<not> surrogate c)
                (path_str cfg (Cwd, title_of env prefix src @ lit ''.wav''))
              \<and> 255 < name_bytes (title_of env prefix src @ lit ''.wav''))"
      using ok create_error_long[of cfg "(Cwd, title_of env prefix src @ lit ''.wav'')"] by auto
    have c4: ?C4 using g c least res b gone there ok nl by (simp add: title_of_file_name)
    have c6: ?C6 using res by simp
    have c7: ?C7 using res by simp
    from c1 c2 c3 c4 top1 c6 c7 show ?thesis by - (intro conjI, assumption+)
  next
    case refused
    note c = refused(1,2) and g = refused(3) and b = refused(4) and long = refused(5) and a = refused(6)
    from sorted_glob_first[OF g] have least: "\<forall>n \<in> set (glob DownloadDir (lit ''.wav'') f1). src \<le> n"
      by simp
    from a have res: "fst ?A = Inl e" by simp
    have lg: "list_all (\<lambda>c. \<not> surrogate c)
                (path_str cfg (Cwd, title_of env prefix src @ lit ''.wav''))
              \<and> 255 < name_bytes (title_of env prefix src @ lit ''.wav'') \<longrightarrow>
               e = OSError 36 (lit ''File name too long'')
                          (path_str cfg (Cwd, title_of env prefix src @ lit ''.wav''))"
      using long create_error_long[of cfg "(Cwd, title_of env prefix src @ lit ''.wav'')"] by auto
    from a have fl: "files (snd ?A) = f1" by simp
    from a have rn: "run_calls (trace (snd ?A)) = run_calls (trace s) @ [yt_cmd cfg url cookie_file]"
      by simp
    have c1: "(fst ?A = Inr None) = ?bad" using res c g by simp
    have c2: "(\<exists>e. fst ?A = Inl e) = ?long" using res c g long by simp
    have c3: ?C3 using res by simp
    have c4: ?C4 using g c least res b fl rn long lg by (simp add: title_of_file_name)
    have c6: ?C6 using res by simp
    have c7: ?C7
    proof (intro allI impI, elim conjE)
      fix s0 e
      assume h: "url \<noteq> []" "bin_yt_dlp cfg" "bin_ffmpeg cfg" "ext_import env = None" "s = clear_tmp s0"
        and e: "fst ?A = Inl e"
      from e h(5) have "acquire_audio env cfg url cookie_file prefix (clear_tmp s0) = (Inl e, snd ?A)"
        by (simp add: prod_eq_iff)
      from process_raises_in_acquire[OF h(1-4) this]
      have p: "process_url_to_text env cfg url cookie_file prefix s0 = (Inl e, clear_tmp (snd ?A))" .
      moreover have "run_calls (trace (clear_tmp (snd ?A))) = run_calls (trace s0) @ [yt_cmd cfg url cookie_file]"
        using rn h(5) by simp
      ultimately show "process_url_to_text env cfg url cookie_file prefix s0 = (Inl e, clear_tmp (snd ?A))
          \<and> run_calls (trace (snd (process_url_to_text env cfg url cookie_file prefix s0)))
              = run_calls (trace s0) @ [yt_cmd cfg url cookie_file]"
        by simp
    qed
    from c1 c2 c3 c4 top1 c6 c7 show ?thesis by - (intro conjI, assumption+)
  qed
qed

theorem acquire_audio_outcome_witness:
  "fst (acquire_audio (demo_env []) demo_cfg demo_url [] [] (demo_state [])) = Inr None
   \<and> files (snd (acquire_audio (demo_env []) demo_cfg demo_url [] [] (demo_state []))) = []
   \<and> run_calls (trace (snd (acquire_audio (demo_env []) demo_cfg demo_url [] [] (demo_state []))))
       = [yt_cmd demo_cfg demo_url []]
   \<and> run_calls (trace (snd (process_url_to_text (demo_env []) demo_cfg demo_url [] []
         (demo_state [])))) = [yt_cmd demo_cfg demo_url []]
   \<and> fst (acquire_audio (demo_env demo_tools) demo_cfg demo_url [] [] (demo_state []))
       = Inr (Some ((Cwd, lit ''a_talk_-1.wav''), lit ''a_talk_-1''))
   \<and> map_of (files (snd (acquire_audio (demo_env demo_tools) demo_cfg demo_url [] []
         (demo_state [])))) (DownloadDir, lit ''a talk!-1.wav'') = None
   \<and> map_of (files (snd (acquire_audio (demo_env demo_tools) demo_cfg demo_url [] []
         (demo_state [])))) (Cwd, lit ''a_talk_-1.wav'') = Some (0 # marhaban)
   \<and> process_url_to_text (demo_env demo_tools) (demo_cfg\<lparr>bin_yt_dlp := False\<rparr>) demo_url [] []
         (demo_state [])
       = (Inr (), \<lparr>files = [], world = 0, trace = [St Error MNoYtDlp]\<rparr>)
   \<and> fst (acquire_audio (demo_env demo_tools) demo_cfg demo_url [] long_prefix (demo_state []))
       = Inl (OSError 36 (lit ''File name too long'')
                (lit ''/app/'' @ long_prefix @ lit ''_a_talk_-1.wav''))
   \<and> map_of (files (snd (acquire_audio (demo_env demo_tools) demo_cfg demo_url [] long_prefix
         (demo_state [])))) (DownloadDir, lit ''a talk!-1.wav'') = Some (0 # marhaban)
   \<and> run_calls (trace (snd (process_url_to_text (demo_env demo_tools) demo_cfg demo_url []
         long_prefix (demo_state [])))) = [yt_cmd demo_cfg demo_url []]"
proof -
  let ?s = "demo_state [] :: nat state"
  let ?f = "[((DownloadDir, lit ''b talk-2.wav''), 0 # lit ''hello''),
            ((DownloadDir, lit ''a talk!-1.wav''), 0 # marhaban)] :: fs"
  have r1: "ext_run (demo_env []) (yt_cmd demo_cfg demo_url []) (files ?s, world ?s)
            = (Inl (FileNotFoundError (lit ''yt-dlp'')), [], 0)"
    by (simp add: demo_defs yt_cmd_def)
  note t1 = acquire_audio_outcome[OF r1, of "[]"]
  from t1 have a1: "fst (acquire_audio (demo_env []) demo_cfg demo_url [] [] ?s) = Inr None"
    by simp
  with t1 have a2: "files (snd (acquire_audio (demo_env []) demo_cfg demo_url [] [] ?s)) = []"
      "run_calls (trace (snd (acquire_audio (demo_env []) demo_cfg demo_url [] [] ?s)))
         = run_calls (trace ?s) @ [yt_cmd demo_cfg demo_url []]"
    by blast+
  have pre: "demo_url \<noteq> []" "bin_yt_dlp demo_cfg" "bin_ffmpeg demo_cfg" "ext_import (demo_env []) = None"
      "?s = clear_tmp ?s"
    by (simp_all add: demo_defs demo_url_def lit_def clear_tmp_def)
  from t1 pre a1
  have a3: "run_calls (trace (snd (process_url_to_text (demo_env []) demo_cfg demo_url [] [] ?s)))
       = run_calls (trace ?s) @ [yt_cmd demo_cfg demo_url []]"
    by blast
  have tr: "run_calls (trace ?s) = []" by (simp add: demo_state_def)
  have r2: "ext_run (demo_env demo_tools) (yt_cmd demo_cfg demo_url []) (files ?s, world ?s)
            = (Inr \<lparr>returncode = 0, stdout = Some [], stderr = Some []\<rparr>, ?f, 1)"
    by (simp add: demo_defs demo_tools_def yt_cmd_def)
  have rc: "returncode \<lparr>returncode = 0, stdout = Some [], stderr = Some []\<rparr> = 0" by simp
  have nm: "lit ''a_talk_-1'' @ lit ''.wav'' = lit ''a_talk_-1.wav''" by (simp add: lit_def)
  have short: "create_error demo_cfg
                 (Cwd, title_of (demo_env demo_tools) [] (lit ''a talk!-1.wav'') @ lit ''.wav'') = None"
    by (simp only: demo_title nm demo_create_short)
  note t2 = acquire_audio_outcome[OF r2, of "[]"]
  from t2 rc demo_glob short
  have b: "fst (acquire_audio (demo_env demo_tools) demo_cfg demo_url [] [] ?s)
              = Inr (Some ((Cwd, title_of (demo_env demo_tools) [] (lit ''a talk!-1.wav'') @ lit ''.wav''),
                     title_of (demo_env demo_tools) [] (lit ''a talk!-1.wav'')))"
      "map_of (files (snd (acquire_audio (demo_env demo_tools) demo_cfg demo_url [] [] ?s)))
          (DownloadDir, lit ''a talk!-1.wav'') = None"
      "map_of (files (snd (acquire_audio (demo_env demo_tools) demo_cfg demo_url [] [] ?s)))
          (Cwd, title_of (demo_env demo_tools) [] (lit ''a talk!-1.wav'') @ lit ''.wav'')
         = map_of ?f (DownloadDir, lit ''a talk!-1.wav'')"
    by blast+
  have lk: "map_of ?f (DownloadDir, lit ''a talk!-1.wav'') = Some (0 # marhaban)"
    by (simp add: lit_def)
  have pre2: "demo_url \<noteq> [] \<and> \<not> bin_yt_dlp (demo_cfg\<lparr>bin_yt_dlp := False\<rparr>)"
    by (simp add: demo_url_def lit_def)
  have r3: "ext_run (demo_env demo_tools) (yt_cmd (demo_cfg\<lparr>bin_yt_dlp := False\<rparr>) demo_url [])
              (files ?s, world ?s)
            = (Inr \<lparr>returncode = 0, stdout = Some [], stderr = Some []\<rparr>, ?f, 1)"
    by (simp add: demo_defs demo_tools_def yt_cmd_def)
  from acquire_audio_outcome[OF r3, of "[]"] pre2
  have c: "process_url_to_text (demo_env demo_tools) (demo_cfg\<lparr>bin_yt_dlp := False\<rparr>) demo_url [] [] ?s
       = (Inr (), ?s\<lparr>trace := trace ?s @ [St Error MNoYtDlp]\<rparr>)"
    by blast
  from b(1) have b1: "fst (acquire_audio (demo_env demo_tools) demo_cfg demo_url [] [] ?s)
       = Inr (Some ((Cwd, lit ''a_talk_-1.wav''), lit ''a_talk_-1''))"
    by (simp only: demo_title nm)
  from b(3) have b3: "map_of (files (snd (acquire_audio (demo_env demo_tools) demo_cfg demo_url [] [] ?s)))
          (Cwd, lit ''a_talk_-1.wav'') = Some (0 # marhaban)"
    by (simp only: demo_title nm lk)
  from c have c': "process_url_to_text (demo_env demo_tools) (demo_cfg\<lparr>bin_yt_dlp := False\<rparr>) demo_url [] [] ?s
       = (Inr (), \<lparr>files = [], world = 0, trace = [St Error MNoYtDlp]\<rparr>)"
    by (simp add: demo_state_def)
  from a2(2) a3 tr have a4:
    "run_calls (trace (snd (acquire_audio (demo_env []) demo_cfg demo_url [] [] ?s)))
       = [yt_cmd demo_cfg demo_url []]"
    "run_calls (trace (snd (process_url_to_text (demo_env []) demo_cfg demo_url [] [] ?s)))
       = [yt_cmd demo_cfg demo_url []]"
    by simp_all
  have nl: "title_of (demo_env demo_tools) long_prefix (lit ''a talk!-1.wav'') @ lit ''.wav''
              = long_prefix @ lit ''_a_talk_-1.wav''"
    by (simp add: demo_long_title) (simp add: lit_def)
  have "list_all (\<lambda>c. \<not> surrogate c) (lit ''_a_talk_-1.wav'')" by (simp add: lit_def surrogate_def)
  from demo_create_long[OF this]
  have long: "create_error demo_cfg
                (Cwd, title_of (demo_env demo_tools) long_prefix (lit ''a talk!-1.wav'') @ lit ''.wav'')
              = Some (OSError 36 (lit ''File name too long'')
                        (lit ''/app/'' @ long_prefix @ lit ''_a_talk_-1.wav''))"
    by (simp only: nl)
  note t3 = acquire_audio_outcome[OF r2, of long_prefix]
  from t3 rc demo_glob long
  have d: "fst (acquire_audio (demo_env demo_tools) demo_cfg demo_url [] long_prefix ?s)
              = Inl (OSError 36 (lit ''File name too long'')
                  (lit ''/app/'' @ long_prefix @ lit ''_a_talk_-1.wav''))"
      "files (snd (acquire_audio (demo_env demo_tools) demo_cfg demo_url [] long_prefix ?s)) = ?f"
    by blast+
  note d1 = d(1)
  from d(2) lk have d2: "map_of (files (snd (acquire_audio (demo_env demo_tools) demo_cfg demo_url [] long_prefix ?s)))
       (DownloadDir, lit ''a talk!-1.wav'') = Some (0 # marhaban)"
    by simp
  have pre3: "ext_import (demo_env demo_tools) = None" by (simp add: demo_defs)
  from t3 pre(1-3) pre3 pre(5) d(1)
  have "run_calls (trace (snd (process_url_to_text (demo_env demo_tools) demo_cfg demo_url [] long_prefix ?s)))
       = run_calls (trace ?s) @ [yt_cmd demo_cfg demo_url []]"
    by blast
  with tr have d3: "run_calls (trace (snd (process_url_to_text (demo_env demo_tools) demo_cfg demo_url [] long_prefix ?s)))
       = [yt_cmd demo_cfg demo_url []]"
    by simp
  from a1 a2(1) a4 b1 b(2) b3 c' d1 d2 d3 show ?thesis by - (intro conjI, assumption+)
qed

section \<open>Progress reporting (claim C8)\<close>

text \<open>
  Claim C8: over \<open>n\<close> segments the loop updates the progress bar exactly \<open>n\<close> times, once
  for each segment, after that segment is finished (recognised or failed) and before the
  next one is started; the \<open>i\<close>-th update carries the percentage computed from the
  processed count \<open>i\<close>, with \<open>i\<close> running from 1 to \<open>n\<close>, and the count ends at \<open>n\<close>. The
  call \<open>progress_bar.progress(100)\<close> at the very end of the function is outside the loop.
\<close>

theorem progress_once_per_segment:
  "\<exists>v s'. transcribe_loop env cfg lang split_files s = (Inr v, s')
     \<and> parts_processed v = length split_files
     \<and> progress_steps (trace s') = progress_steps (trace s)
         @ concat (map (\<lambda>(i, p). [Started i p, Finished p,
                                    Progressed (ext_percent env i (length split_files))])
                     (List.enumerate 1 split_files))
     \<and> progress_calls (trace s') = progress_calls (trace s)
         @ map (\<lambda>i. ext_percent env i (length split_files)) [1..<Suc (length split_files)]"
proof -
  obtain outs atts w' where t: "transcribeAll env lang (files s) split_files (world s) = (outs, atts, w')"
    by (metis prod_cases3)
  from transcribe_loop_eq[OF t, of cfg] obtain s' where
    r: "transcribe_loop env cfg lang split_files s =
            (Inr \<lparr>text_lines = texts_of outs, failed_parts = failures_of outs,
                  parts_processed = length split_files\<rparr>, s')"
       "progress_steps (trace s') = progress_steps (trace s)
            @ concat (map (\<lambda>(i, p). [Started i p, Finished p,
                                       Progressed (ext_percent env i (length split_files))])
                        (List.enumerate 1 split_files))"
    by blast
  have "progress_calls (trace s') = progress_calls (trace s)
         @ map (\<lambda>i. ext_percent env i (length split_files)) [1..<Suc (length split_files)]"
    by (simp add: progress_calls_steps r(2) progressed_of_blocks)
  with r show ?thesis by simp
qed

theorem progress_once_per_segment_witness:
  "progress_calls (trace (snd (transcribe_loop (demo_env []) demo_cfg (lit ''en'') demo_names
      (demo_state demo_parts)))) = [33, 66, 100]
   \<and> progress_steps (trace (snd (transcribe_loop (demo_env []) demo_cfg (lit ''en'') demo_names
      (demo_state demo_parts))))
      = [Started 1 (lit ''part_000.wav''), Finished (lit ''part_000.wav''), Progressed 33,
         Started 2 (lit ''part_001.wav''), Finished (lit ''part_001.wav''), Progressed 66,
         Started 3 (lit ''part_002.wav''), Finished (lit ''part_002.wav''), Progressed 100]"
proof -
  from progress_once_per_segment[of "demo_env []" demo_cfg "lit ''en''" demo_names "demo_state demo_parts"]
  obtain v s' where
    r: "transcribe_loop (demo_env []) demo_cfg (lit ''en'') demo_names (demo_state demo_parts) = (Inr v, s')"
       "progress_steps (trace s') = progress_steps (trace (demo_state demo_parts))
         @ concat (map (\<lambda>(i, p). [Started i p, Finished p,
                                    Progressed (ext_percent (demo_env []) i (length demo_names))])
                     (List.enumerate 1 demo_names))"
       "progress_calls (trace s') = progress_calls (trace (demo_state demo_parts))
         @ map (\<lambda>i. ext_percent (demo_env []) i (length demo_names)) [1..<Suc (length demo_names)]"
    by blast
  have l: "[1..<Suc (length demo_names)] = [1, 2, 3]"
    by (simp add: demo_names_def upt_rec)
  from r(2) have 1: "progress_steps (trace s')
      = [Started 1 (lit ''part_000.wav''), Finished (lit ''part_000.wav''), Progressed 33,
         Started 2 (lit ''part_001.wav''), Finished (lit ''part_001.wav''), Progressed 66,
         Started 3 (lit ''part_002.wav''), Finished (lit ''part_002.wav''), Progressed 100]"
    by (simp add: demo_names_def demo_env_def demo_state_def)
  from r(3) have 2: "progress_calls (trace s') = [33, 66, 100]"
    unfolding l by (simp add: demo_names_def demo_env_def demo_state_def progress_calls_def)
  from r(1) 1 2 show ?thesis by simp
qed

section \<open>What a per-segment outcome carries (claim C9)\<close>

text \<open>
  Claim C9 says that a success always carries non-empty text. The loop appends whatever
  \<open>recognize_google\<close> returns without looking at it: with a recogniser that answers with
  the empty string, the empty text is recorded as a success, and the text file gets a
  blank paragraph for it.
\<close>

theorem empty_text_recorded_as_success:
  "fst (transcribe_loop (silent_env []) demo_cfg (lit ''en'') [lit ''part_000.wav'']
      (demo_state demo_parts))
     = Inr \<lparr>text_lines = [[]], failed_parts = [], parts_processed = 1\<rparr>
   \<and> written_text [[]] = [10, 10]"
proof -
  have t: "transcribeAll (silent_env []) (lit ''en'') (files (demo_state demo_parts))
      [lit ''part_000.wav''] (world (demo_state demo_parts))
     = ([Recognized []], [(0 # lit ''hello'', Some (lit ''en''))], 1)"
    by (simp add: loop_demo)
  from transcribe_loop_eq[OF t, of demo_cfg] show ?thesis
    by (auto simp: texts_of_def failures_of_def written_text_def)
qed

text \<open>
  Claim C9 as amended: one iteration either appends to \<open>text_lines\<close> exactly the text
  that the recogniser returned for this segment, or appends the name of the segment to
  \<open>failed_parts\<close>, and nothing else changes in the two lists. The text is the first
  answer among the four attempts on the audio read from the segment's file, made with the
  hints \<open>lang\<close>, none, \<open>ar\<close> and \<open>en\<close>, the first in the world the iteration starts in and
  each later one in the world the attempt before it left; the name is recorded when none
  of the four attempts answers, or when the audio cannot be read. The recorded texts are
  all non-empty provided the recogniser never returns an empty text.
\<close>

theorem outcome_text_or_name:
  "(tp \<noteq> 0 \<longrightarrow>
      (\<exists>t s' a h w0 w1.
          loop_body env cfg lang tp (idx, part) v s =
            (Inr (v\<lparr>parts_processed := parts_processed v + 1, text_lines := text_lines v @ [t]\<rparr>), s')
          \<and> ext_recognize env a h w0 = (Inr t, w1))
      \<or> (\<exists>s'. loop_body env cfg lang tp (idx, part) v s =
            (Inr (v\<lparr>parts_processed := parts_processed v + 1,
                    failed_parts := failed_parts v @ [part]\<rparr>), s')))
   \<and> (\<forall>bytes a r1 w1 r2 w2 r3 w3 r4 w4.
        tp \<noteq> 0 \<and> map_of (files s) (SplitDir, part) = Some bytes
        \<and> ext_record env bytes None = Inr a
        \<and> ext_recognize env a (Some lang) (world s) = (r1, w1)
        \<and> ext_recognize env a None w1 = (r2, w2)
        \<and> ext_recognize env a (Some (lit ''ar'')) w2 = (r3, w3)
        \<and> ext_recognize env a (Some (lit ''en'')) w3 = (r4, w4) \<longrightarrow>
        (\<exists>s'. loop_body env cfg lang tp (idx, part) v s =
            (Inr (case first_answer [(r1, w1), (r2, w2), (r3, w3), (r4, w4)] of
                    Some (t, w) \<Rightarrow>
                      v\<lparr>parts_processed := parts_processed v + 1, text_lines := text_lines v @ [t]\<rparr>
                  | None \<Rightarrow>
                      v\<lparr>parts_processed := parts_processed v + 1,
                        failed_parts := failed_parts v @ [part]\<rparr>), s')
          \<and> world s' = (case first_answer [(r1, w1), (r2, w2), (r3, w3), (r4, w4)] of
                          Some (t, w) \<Rightarrow> w | None \<Rightarrow> w4)))
   \<and> (tp \<noteq> 0
        \<and> (map_of (files s) (SplitDir, part) = None
           \<or> (\<exists>bytes e. map_of (files s) (SplitDir, part) = Some bytes
                \<and> ext_record env bytes None = Inl e)) \<longrightarrow>
        (\<exists>s'. loop_body env cfg lang tp (idx, part) v s =
            (Inr (v\<lparr>parts_processed := parts_processed v + 1,
                    failed_parts := failed_parts v @ [part]\<rparr>), s')
          \<and> world s' = world s \<and> recognize_calls (trace s') = recognize_calls (trace s)))
   \<and> ((\<forall>a h w0 t w1. ext_recognize env a h w0 = (Inr t, w1) \<longrightarrow> t \<noteq> []) \<longrightarrow>
        (\<exists>v' s'. transcribe_loop env cfg lang split_files s = (Inr v', s')
                  \<and> list_all (\<lambda>t. t \<noteq> []) (text_lines v')))"
proof -
  have c1: "tp \<noteq> 0 \<longrightarrow>
      (\<exists>t s' a h w0 w1.
          loop_body env cfg lang tp (idx, part) v s =
            (Inr (v\<lparr>parts_processed := parts_processed v + 1, text_lines := text_lines v @ [t]\<rparr>), s')
          \<and> ext_recognize env a h w0 = (Inr t, w1))
      \<or> (\<exists>s'. loop_body env cfg lang tp (idx, part) v s =
            (Inr (v\<lparr>parts_processed := parts_processed v + 1,
                    failed_parts := failed_parts v @ [part]\<rparr>), s'))"
  proof
    assume tp: "tp \<noteq> 0"
    obtain out att w' where ts: "transcribe_segment env lang (files s) part (world s) = (out, att, w')"
      by (metis prod_cases3)
    from loop_body_eq[OF tp, of env cfg lang idx part v s] ts obtain s' where
      b: "loop_body env cfg lang tp (idx, part) v s =
            (Inr (record_outcome out (v\<lparr>parts_processed := parts_processed v + 1\<rparr>)), s')"
      by auto
    from transcribe_segment_outcome[OF ts] show
      "(\<exists>t s' a h w0 w1.
            loop_body env cfg lang tp (idx, part) v s =
              (Inr (v\<lparr>parts_processed := parts_processed v + 1, text_lines := text_lines v @ [t]\<rparr>), s')
            \<and> ext_recognize env a h w0 = (Inr t, w1))
        \<or> (\<exists>s'. loop_body env cfg lang tp (idx, part) v s =
              (Inr (v\<lparr>parts_processed := parts_processed v + 1,
                      failed_parts := failed_parts v @ [part]\<rparr>), s'))"
    proof
      assume "\<exists>t. out = Recognized t"
      then obtain t where o: "out = Recognized t" by blast
      with ts have "transcribe_segment env lang (files s) part (world s) = (Recognized t, att, w')"
        by simp
      from transcribe_segment_source[OF this] obtain a h w0 w1 where
        rec: "ext_recognize env a h w0 = (Inr t, w1)" by blast
      from b o have "loop_body env cfg lang tp (idx, part) v s =
              (Inr (v\<lparr>parts_processed := parts_processed v + 1, text_lines := text_lines v @ [t]\<rparr>), s')"
        by (simp add: record_outcome_def)
      with rec show ?thesis by blast
    next
      assume "out = Failed part"
      with b have "loop_body env cfg lang tp (idx, part) v s =
              (Inr (v\<lparr>parts_processed := parts_processed v + 1,
                      failed_parts := failed_parts v @ [part]\<rparr>), s')"
        by (simp add: record_outcome_def)
      then show ?thesis by blast
    qed
  qed
  have c2: "\<forall>bytes a r1 w1 r2 w2 r3 w3 r4 w4.
        tp \<noteq> 0 \<and> map_of (files s) (SplitDir, part) = Some bytes
        \<and> ext_record env bytes None = Inr a
        \<and> ext_recognize env a (Some lang) (world s) = (r1, w1)
        \<and> ext_recognize env a None w1 = (r2, w2)
        \<and> ext_recognize env a (Some (lit ''ar'')) w2 = (r3, w3)
        \<and> ext_recognize env a (Some (lit ''en'')) w3 = (r4, w4) \<longrightarrow>
        (\<exists>s'. loop_body env cfg lang tp (idx, part) v s =
            (Inr (case first_answer [(r1, w1), (r2, w2), (r3, w3), (r4, w4)] of
                    Some (t, w) \<Rightarrow>
                      v\<lparr>parts_processed := parts_processed v + 1, text_lines := text_lines v @ [t]\<rparr>
                  | None \<Rightarrow>
                      v\<lparr>parts_processed := parts_processed v + 1,
                        failed_parts := failed_parts v @ [part]\<rparr>), s')
          \<and> world s' = (case first_answer [(r1, w1), (r2, w2), (r3, w3), (r4, w4)] of
                          Some (t, w) \<Rightarrow> w | None \<Rightarrow> w4))"
  proof (intro allI impI, elim conjE)
    fix bytes a r1 w1 r2 w2 r3 w3 r4 w4
    assume h: "tp \<noteq> 0" "map_of (files s) (SplitDir, part) = Some bytes"
      "ext_record env bytes None = Inr a"
      "ext_recognize env a (Some lang) (world s) = (r1, w1)"
      "ext_recognize env a None w1 = (r2, w2)"
      "ext_recognize env a (Some (lit ''ar'')) w2 = (r3, w3)"
      "ext_recognize env a (Some (lit ''en'')) w3 = (r4, w4)"
    show "\<exists>s'. loop_body env cfg lang tp (idx, part) v s =
            (Inr (case first_answer [(r1, w1), (r2, w2), (r3, w3), (r4, w4)] of
                    Some (t, w) \<Rightarrow>
                      v\<lparr>parts_processed := parts_processed v + 1, text_lines := text_lines v @ [t]\<rparr>
                  | None \<Rightarrow>
                      v\<lparr>parts_processed := parts_processed v + 1,
                        failed_parts := failed_parts v @ [part]\<rparr>), s')
          \<and> world s' = (case first_answer [(r1, w1), (r2, w2), (r3, w3), (r4, w4)] of
                          Some (t, w) \<Rightarrow> w | None \<Rightarrow> w4)"
      by (rule loop_body_attempts[OF h])
  qed
  have c3: "tp \<noteq> 0
        \<and> (map_of (files s) (SplitDir, part) = None
           \<or> (\<exists>bytes e. map_of (files s) (SplitDir, part) = Some bytes
                \<and> ext_record env bytes None = Inl e)) \<longrightarrow>
        (\<exists>s'. loop_body env cfg lang tp (idx, part) v s =
            (Inr (v\<lparr>parts_processed := parts_processed v + 1,
                    failed_parts := failed_parts v @ [part]\<rparr>), s')
          \<and> world s' = world s \<and> recognize_calls (trace s') = recognize_calls (trace s))"
    using loop_body_unreadable by blast
  have c4: "(\<forall>a h w0 t w1. ext_recognize env a h w0 = (Inr t, w1) \<longrightarrow> t \<noteq> []) \<longrightarrow>
        (\<exists>v' s'. transcribe_loop env cfg lang split_files s = (Inr v', s')
                  \<and> list_all (\<lambda>t. t \<noteq> []) (text_lines v'))"
  proof
    assume ne: "\<forall>a h w0 t w1. ext_recognize env a h w0 = (Inr t, w1) \<longrightarrow> t \<noteq> []"
    obtain outs atts w' where t: "transcribeAll env lang (files s) split_files (world s) = (outs, atts, w')"
      by (metis prod_cases3)
    from transcribe_loop_eq[OF t, of cfg] obtain s' where
      r: "transcribe_loop env cfg lang split_files s =
              (Inr \<lparr>text_lines = texts_of outs, failed_parts = failures_of outs,
                    parts_processed = length split_files\<rparr>, s')"
      by blast
    have "list_all (\<lambda>t. t \<noteq> []) (texts_of outs)"
      unfolding list_all_iff using transcribeAll_source[OF t] ne by blast
    with r show "\<exists>v' s'. transcribe_loop env cfg lang split_files s = (Inr v', s')
                    \<and> list_all (\<lambda>t. t \<noteq> []) (text_lines v')"
      by simp
  qed
  from c1 c2 c3 c4 show ?thesis by - (intro conjI, assumption+)
qed

theorem outcome_text_or_name_witness:
  "(\<exists>s'. loop_body (demo_env []) demo_cfg (lit ''en'') 3 (3, lit ''part_002.wav'')
            \<lparr>text_lines = [], failed_parts = [], parts_processed = 0\<rparr> (demo_state demo_parts) =
            (Inr \<lparr>text_lines = [lit ''bye''], failed_parts = [], parts_processed = 1\<rparr>, s')
          \<and> world s' = 3)
   \<and> (\<exists>s'. loop_body (demo_env []) demo_cfg (lit ''en'') 3 (2, lit ''part_001.wav'')
            \<lparr>text_lines = [], failed_parts = [], parts_processed = 0\<rparr> (demo_state demo_parts) =
            (Inr \<lparr>text_lines = [], failed_parts = [lit ''part_001.wav''], parts_processed = 1\<rparr>, s')
          \<and> world s' = 4)
   \<and> (\<exists>s'. loop_body (demo_env []) demo_cfg (lit ''en'') 3 (1, lit ''part_003.wav'')
            \<lparr>text_lines = [], failed_parts = [], parts_processed = 0\<rparr> (demo_state demo_parts) =
            (Inr \<lparr>text_lines = [], failed_parts = [lit ''part_003.wav''], parts_processed = 1\<rparr>, s')
          \<and> world s' = 0)
   \<and> ((\<exists>t s' a h w0 w1.
          loop_body (demo_env []) demo_cfg (lit ''en'') 3 (1, lit ''part_000.wav'')
            \<lparr>text_lines = [], failed_parts = [], parts_processed = 0\<rparr> (demo_state demo_parts) =
            (Inr \<lparr>text_lines = [t], failed_parts = [], parts_processed = 1\<rparr>, s')
          \<and> ext_recognize (demo_env []) a h w0 = (Inr t, w1))
      \<or> (\<exists>s'. loop_body (demo_env []) demo_cfg (lit ''en'') 3 (1, lit ''part_000.wav'')
            \<lparr>text_lines = [], failed_parts = [], parts_processed = 0\<rparr> (demo_state demo_parts) =
            (Inr \<lparr>text_lines = [], failed_parts = [lit ''part_000.wav''], parts_processed = 1\<rparr>, s')))
   \<and> (\<exists>v' s'. transcribe_loop (demo_env []) demo_cfg (lit ''en'') demo_names (demo_state demo_parts)
                 = (Inr v', s')
             \<and> list_all (\<lambda>t. t \<noteq> []) (text_lines v'))"
proof -
  let ?E = "demo_env [] :: nat env"
  let ?s = "demo_state demo_parts"
  let ?v = "\<lparr>text_lines = [], failed_parts = [], parts_processed = 0\<rparr>"
  have ne: "\<forall>a h w0 t w1. ext_recognize ?E a h w0 = (Inr t, w1) \<longrightarrow> t \<noteq> []"
    by (auto simp: demo_env_def demo_recognize_def split: list.splits if_splits)
  have tp: "(3::nat) \<noteq> 0" by simp
  note th0 = outcome_text_or_name[of 3 ?E demo_cfg "lit ''en''" 1 "lit ''part_000.wav''" ?v ?s demo_names]
  from th0 tp have d: "(\<exists>t s' a h w0 w1.
          loop_body ?E demo_cfg (lit ''en'') 3 (1, lit ''part_000.wav'') ?v ?s =
            (Inr \<lparr>text_lines = [t], failed_parts = [], parts_processed = 1\<rparr>, s')
          \<and> ext_recognize ?E a h w0 = (Inr t, w1))
      \<or> (\<exists>s'. loop_body ?E demo_cfg (lit ''en'') 3 (1, lit ''part_000.wav'') ?v ?s =
            (Inr \<lparr>text_lines = [], failed_parts = [lit ''part_000.wav''], parts_processed = 1\<rparr>, s'))"
    by simp
  from th0 ne have e: "\<exists>v' s'. transcribe_loop ?E demo_cfg (lit ''en'') demo_names ?s = (Inr v', s')
             \<and> list_all (\<lambda>t. t \<noteq> []) (text_lines v')"
    by blast
  have f2: "map_of (files ?s) (SplitDir, lit ''part_002.wav'') = Some (2 # lit ''bye'')"
    by (simp add: demo_state_def demo_parts_def lit_def)
  have rec2: "ext_record ?E (2 # lit ''bye'') None = Inr (2 # lit ''bye'')"
    by (simp add: demo_defs)
  have k2: "ext_recognize ?E (2 # lit ''bye'') (Some (lit ''en'')) (world ?s)
              = (Inl (PyException (lit ''UnknownValueError'')), 1)"
     "ext_recognize ?E (2 # lit ''bye'') None 1 = (Inl (PyException (lit ''UnknownValueError'')), 2)"
     "ext_recognize ?E (2 # lit ''bye'') (Some (lit ''ar'')) 2 = (Inr (lit ''bye''), 3)"
     "ext_recognize ?E (2 # lit ''bye'') (Some (lit ''en'')) 3
              = (Inl (PyException (lit ''UnknownValueError'')), 4)"
    by (simp_all add: demo_defs demo_state_def lit_def)
  note th2 = outcome_text_or_name[of 3 ?E demo_cfg "lit ''en''" 3 "lit ''part_002.wav''" ?v ?s demo_names]
  from tp f2 rec2 k2
  have p2: "(3::nat) \<noteq> 0 \<and> map_of (files ?s) (SplitDir, lit ''part_002.wav'') = Some (2 # lit ''bye'')
        \<and> ext_record ?E (2 # lit ''bye'') None = Inr (2 # lit ''bye'')
        \<and> ext_recognize ?E (2 # lit ''bye'') (Some (lit ''en'')) (world ?s)
              = (Inl (PyException (lit ''UnknownValueError'')), 1)
        \<and> ext_recognize ?E (2 # lit ''bye'') None 1 = (Inl (PyException (lit ''UnknownValueError'')), 2)
        \<and> ext_recognize ?E (2 # lit ''bye'') (Some (lit ''ar'')) 2 = (Inr (lit ''bye''), 3)
        \<and> ext_recognize ?E (2 # lit ''bye'') (Some (lit ''en'')) 3
              = (Inl (PyException (lit ''UnknownValueError'')), 4)"
    by - (intro conjI, assumption+)
  from th2[THEN conjunct2, THEN conjunct1, rule_format, OF p2]
  have "\<exists>s'. loop_body ?E demo_cfg (lit ''en'') 3 (3, lit ''part_002.wav'') ?v ?s =
            (Inr (case first_answer [(Inl (PyException (lit ''UnknownValueError'')), 1::nat),
                                     (Inl (PyException (lit ''UnknownValueError'')), 2),
                                     (Inr (lit ''bye''), 3),
                                     (Inl (PyException (lit ''UnknownValueError'')), 4)] of
                    Some (t, w) \<Rightarrow>
                      ?v\<lparr>parts_processed := parts_processed ?v + 1, text_lines := text_lines ?v @ [t]\<rparr>
                  | None \<Rightarrow>
                      ?v\<lparr>parts_processed := parts_processed ?v + 1,
                        failed_parts := failed_parts ?v @ [lit ''part_002.wav'']\<rparr>), s')
          \<and> world s' = (case first_answer [(Inl (PyException (lit ''UnknownValueError'')), 1::nat),
                                     (Inl (PyException (lit ''UnknownValueError'')), 2),
                                     (Inr (lit ''bye''), 3),
                                     (Inl (PyException (lit ''UnknownValueError'')), 4)] of
                          Some (t, w) \<Rightarrow> w | None \<Rightarrow> 4)"
    .
  then have a: "\<exists>s'. loop_body ?E demo_cfg (lit ''en'') 3 (3, lit ''part_002.wav'') ?v ?s =
            (Inr \<lparr>text_lines = [lit ''bye''], failed_parts = [], parts_processed = 1\<rparr>, s')
          \<and> world s' = 3"
    by simp
  have f1: "map_of (files ?s) (SplitDir, lit ''part_001.wav'') = Some [4, 1]"
    by (simp add: demo_state_def demo_parts_def lit_def)
  have rec1: "ext_record ?E [4, 1] None = Inr [4, 1]"
    by (simp add: demo_defs)
  have k1: "ext_recognize ?E [4, 1] (Some (lit ''en'')) (world ?s)
              = (Inl (PyException (lit ''UnknownValueError'')), 1)"
     "ext_recognize ?E [4, 1] None 1 = (Inl (PyException (lit ''UnknownValueError'')), 2)"
     "ext_recognize ?E [4, 1] (Some (lit ''ar'')) 2 = (Inl (PyException (lit ''UnknownValueError'')), 3)"
     "ext_recognize ?E [4, 1] (Some (lit ''en'')) 3 = (Inl (PyException (lit ''UnknownValueError'')), 4)"
    by (simp_all add: demo_defs demo_state_def lit_def)
  note th1 = outcome_text_or_name[of 3 ?E demo_cfg "lit ''en''" 2 "lit ''part_001.wav''" ?v ?s demo_names]
  from tp f1 rec1 k1
  have p1: "(3::nat) \<noteq> 0 \<and> map_of (files ?s) (SplitDir, lit ''part_001.wav'') = Some [4, 1]
        \<and> ext_record ?E [4, 1] None = Inr [4, 1]
        \<and> ext_recognize ?E [4, 1] (Some (lit ''en'')) (world ?s)
              = (Inl (PyException (lit ''UnknownValueError'')), 1)
        \<and> ext_recognize ?E [4, 1] None 1 = (Inl (PyException (lit ''UnknownValueError'')), 2)
        \<and> ext_recognize ?E [4, 1] (Some (lit ''ar'')) 2 = (Inl (PyException (lit ''UnknownValueError'')), 3)
        \<and> ext_recognize ?E [4, 1] (Some (lit ''en'')) 3 = (Inl (PyException (lit ''UnknownValueError'')), 4)"
    by - (intro conjI, assumption+)
  from th1[THEN conjunct2, THEN conjunct1, rule_format, OF p1]
  have "\<exists>s'. loop_body ?E demo_cfg (lit ''en'') 3 (2, lit ''part_001.wav'') ?v ?s =
            (Inr (case first_answer [(Inl (PyException (lit ''UnknownValueError'')) :: exn + pystr, 1::nat),
                                     (Inl (PyException (lit ''UnknownValueError'')), 2),
                                     (Inl (PyException (lit ''UnknownValueError'')), 3),
                                     (Inl (PyException (lit ''UnknownValueError'')), 4)] of
                    Some (t, w) \<Rightarrow>
                      ?v\<lparr>parts_processed := parts_processed ?v + 1, text_lines := text_lines ?v @ [t]\<rparr>
                  | None \<Rightarrow>
                      ?v\<lparr>parts_processed := parts_processed ?v + 1,
                        failed_parts := failed_parts ?v @ [lit ''part_001.wav'']\<rparr>), s')
          \<and> world s' = (case first_answer [(Inl (PyException (lit ''UnknownValueError'')) :: exn + pystr, 1::nat),
                                     (Inl (PyException (lit ''UnknownValueError'')), 2),
                                     (Inl (PyException (lit ''UnknownValueError'')), 3),
                                     (Inl (PyException (lit ''UnknownValueError'')), 4)] of
                          Some (t, w) \<Rightarrow> w | None \<Rightarrow> 4)"
    .
  then have b: "\<exists>s'. loop_body ?E demo_cfg (lit ''en'') 3 (2, lit ''part_001.wav'') ?v ?s =
            (Inr \<lparr>text_lines = [], failed_parts = [lit ''part_001.wav''], parts_processed = 1\<rparr>, s')
          \<and> world s' = 4"
    by simp
  have f3: "map_of (files ?s) (SplitDir, lit ''part_003.wav'') = None"
    by (simp add: demo_state_def demo_parts_def lit_def)
  note th3 = outcome_text_or_name[of 3 ?E demo_cfg "lit ''en''" 1 "lit ''part_003.wav''" ?v ?s demo_names]
  from th3 tp f3
  have "\<exists>s'. loop_body ?E demo_cfg (lit ''en'') 3 (1, lit ''part_003.wav'') ?v ?s =
            (Inr (?v\<lparr>parts_processed := parts_processed ?v + 1,
                    failed_parts := failed_parts ?v @ [lit ''part_003.wav'']\<rparr>), s')
          \<and> world s' = world ?s \<and> recognize_calls (trace s') = recognize_calls (trace ?s)"
    by blast
  then have c: "\<exists>s'. loop_body ?E demo_cfg (lit ''en'') 3 (1, lit ''part_003.wav'') ?v ?s =
            (Inr \<lparr>text_lines = [], failed_parts = [lit ''part_003.wav''], parts_processed = 1\<rparr>, s')
          \<and> world s' = 0"
    by (auto simp: demo_state_def)
  from a b c d e show ?thesis by - (intro conjI, assumption+)
qed

section \<open>A run without segments (claim C10)\<close>

text \<open>
  Claim C10: when the splitter leaves no segment file, the loop makes no iteration: it
  returns at once with empty lists, without any recognition call or progress update. The
  division of the progress computation, which raises on a zero total, is not reached.
  Provided the relocated audio file is still in place and the text file, named by a file
  name, can be created, the rest of the function ends normally: the text file is written with an empty body
  and the report says that all parts succeeded, so no failure is listed. The same holds
  for the whole function, from the states its earlier stages leave; there the text file
  can be created because the audio file was relocated under the same name but for its
  extension.
\<close>

theorem empty_split_completes:
  "transcribe_loop env cfg lang [] s =
     (Inr \<lparr>text_lines = [], failed_parts = [], parts_processed = 0\<rparr>,
      s\<lparr>trace := trace s @ [St Info MTranscribing, ProgressCreate 0]\<rparr>)
   \<and> fst (py_percent env p 0 s) = Inl ZeroDivisionError
   \<and> (\<forall>bytes. map_of (files s) dst_wav = Some bytes \<and> dst_wav \<noteq> (Cwd, title_base @ lit ''.txt'')
        \<and> file_name title_base \<and> create_error cfg (Cwd, title_base @ lit ''.txt'') = None \<longrightarrow>
        transcribe_and_save env cfg lang dst_wav title_base [] s =
          (Inr (),
           s\<lparr>files := AList.update (Cwd, title_base @ lit ''.txt'') [] (files s),
             trace := trace s @ empty_run_events cfg title_base (snd dst_wav) bytes\<rparr>)
        \<and> map_of (files (snd (transcribe_and_save env cfg lang dst_wav title_base [] s)))
             (Cwd, title_base @ lit ''.txt'') = Some [])
   \<and> (\<forall>s0 s1 s2 bytes.
        url \<noteq> [] \<and> bin_yt_dlp cfg \<and> bin_ffmpeg cfg \<and> ext_import env = None
        \<and> acquire_audio env cfg url cookie_file prefix (clear_tmp s0)
            = (Inr (Some (dst_wav, title_base)), s1)
        \<and> detect_language env cfg dst_wav s1 = (Inr lang, s2)
        \<and> split_audio env cfg dst_wav s2 = (Inr (Some []), s)
        \<and> map_of (files s) dst_wav = Some bytes \<and> dst_wav \<noteq> (Cwd, title_base @ lit ''.txt'') \<longrightarrow>
        process_url_to_text env cfg url cookie_file prefix s0 =
          (Inr (),
           clear_tmp (s\<lparr>files := AList.update (Cwd, title_base @ lit ''.txt'') [] (files s),
                        trace := trace s @ empty_run_events cfg title_base (snd dst_wav) bytes\<rparr>))
        \<and> map_of (files (snd (process_url_to_text env cfg url cookie_file prefix s0)))
             (Cwd, title_base @ lit ''.txt'') = Some [])"
proof -
  have c1: "transcribe_loop env cfg lang [] s =
     (Inr \<lparr>text_lines = [], failed_parts = [], parts_processed = 0\<rparr>,
      s\<lparr>trace := trace s @ [St Info MTranscribing, ProgressCreate 0]\<rparr>)"
    by (rule transcribe_loop_nil)
  have c2: "fst (py_percent env p 0 s) = Inl ZeroDivisionError"
    by (simp add: py_percent_def py_raise_def)
  have c3: "\<forall>bytes. map_of (files s) dst_wav = Some bytes \<and> dst_wav \<noteq> (Cwd, title_base @ lit ''.txt'')
        \<and> file_name title_base \<and> create_error cfg (Cwd, title_base @ lit ''.txt'') = None \<longrightarrow>
        transcribe_and_save env cfg lang dst_wav title_base [] s =
          (Inr (),
           s\<lparr>files := AList.update (Cwd, title_base @ lit ''.txt'') [] (files s),
             trace := trace s @ empty_run_events cfg title_base (snd dst_wav) bytes\<rparr>)
        \<and> map_of (files (snd (transcribe_and_save env cfg lang dst_wav title_base [] s)))
             (Cwd, title_base @ lit ''.txt'') = Some []"
    by (simp add: transcribe_and_save_empty update_conv')
  have c4: "\<forall>s0 s1 s2 bytes.
        url \<noteq> [] \<and> bin_yt_dlp cfg \<and> bin_ffmpeg cfg \<and> ext_import env = None
        \<and> acquire_audio env cfg url cookie_file prefix (clear_tmp s0)
            = (Inr (Some (dst_wav, title_base)), s1)
        \<and> detect_language env cfg dst_wav s1 = (Inr lang, s2)
        \<and> split_audio env cfg dst_wav s2 = (Inr (Some []), s)
        \<and> map_of (files s) dst_wav = Some bytes \<and> dst_wav \<noteq> (Cwd, title_base @ lit ''.txt'') \<longrightarrow>
        process_url_to_text env cfg url cookie_file prefix s0 =
          (Inr (),
           clear_tmp (s\<lparr>files := AList.update (Cwd, title_base @ lit ''.txt'') [] (files s),
                        trace := trace s @ empty_run_events cfg title_base (snd dst_wav) bytes\<rparr>))
        \<and> map_of (files (snd (process_url_to_text env cfg url cookie_file prefix s0)))
             (Cwd, title_base @ lit ''.txt'') = Some []"
  proof (intro allI impI, elim conjE)
    fix s0 s1 s2 bytes
    assume h: "url \<noteq> []" "bin_yt_dlp cfg" "bin_ffmpeg cfg" "ext_import env = None"
        "acquire_audio env cfg url cookie_file prefix (clear_tmp s0)
            = (Inr (Some (dst_wav, title_base)), s1)"
        "detect_language env cfg dst_wav s1 = (Inr lang, s2)"
        "split_audio env cfg dst_wav s2 = (Inr (Some []), s)"
        "map_of (files s) dst_wav = Some bytes" "dst_wav \<noteq> (Cwd, title_base @ lit ''.txt'')"
    from process_empty_split[OF h]
    have p: "process_url_to_text env cfg url cookie_file prefix s0 =
          (Inr (),
           clear_tmp (s\<lparr>files := AList.update (Cwd, title_base @ lit ''.txt'') [] (files s),
                        trace := trace s @ empty_run_events cfg title_base (snd dst_wav) bytes\<rparr>))" .
    then show "process_url_to_text env cfg url cookie_file prefix s0 =
          (Inr (),
           clear_tmp (s\<lparr>files := AList.update (Cwd, title_base @ lit ''.txt'') [] (files s),
                        trace := trace s @ empty_run_events cfg title_base (snd dst_wav) bytes\<rparr>))
        \<and> map_of (files (snd (process_url_to_text env cfg url cookie_file prefix s0)))
             (Cwd, title_base @ lit ''.txt'') = Some []"
      by (simp add: update_conv')
  qed
  from c1 c2 c3 c4 show ?thesis by - (intro conjI, assumption+)
qed

theorem empty_split_completes_witness:
  "fst (process_url_to_text (demo_env quiet_tools) demo_cfg demo_url [] [] (demo_state [])) = Inr ()
   \<and> map_of (files (snd (process_url_to_text (demo_env quiet_tools) demo_cfg demo_url [] []
         (demo_state [])))) (Cwd, lit ''a_talk_-1.txt'') = Some []"
proof -
  let ?E = "demo_env quiet_tools"
  let ?D = "(Cwd, lit ''a_talk_-1.wav'')"
  let ?T = "lit ''a_talk_-1''"
  let ?a = "acquire_audio ?E demo_cfg demo_url [] [] (clear_tmp (demo_state []))"
  let ?d = "detect_language ?E demo_cfg ?D (snd ?a)"
  let ?p = "split_audio ?E demo_cfg ?D (snd ?d)"
  have pre: "demo_url \<noteq> []" "bin_yt_dlp demo_cfg" "bin_ffmpeg demo_cfg" "ext_import ?E = None"
    by (simp_all add: demo_defs demo_url_def lit_def)
  have "fst ?a = Inr (Some (?D, ?T))"
    by (simp add: model_defs demo_defs quiet_tools_def demo_url_def marhaban_def)
  then have h5: "?a = (Inr (Some (?D, ?T)), snd ?a)" by (simp add: prod_eq_iff)
  have "fst ?d = Inr (lit ''ar'')"
    by (simp add: model_defs demo_defs quiet_tools_def demo_url_def marhaban_def)
  then have h6: "?d = (Inr (lit ''ar''), snd ?d)" by (simp add: prod_eq_iff)
  have "fst ?p = Inr (Some [])"
    by (simp add: model_defs demo_defs quiet_tools_def demo_url_def marhaban_def str_nat.simps)
  then have h7: "?p = (Inr (Some []), snd ?p)" by (simp add: prod_eq_iff)
  have h8: "map_of (files (snd ?p)) ?D = Some (0 # marhaban)"
    by (simp add: model_defs demo_defs quiet_tools_def demo_url_def marhaban_def str_nat.simps)
  have h9: "?D \<noteq> (Cwd, ?T @ lit ''.txt'')" by (simp add: lit_def)
  have nm: "?T @ lit ''.txt'' = lit ''a_talk_-1.txt''" by (simp add: lit_def)
  from empty_split_completes[where env = ?E and cfg = demo_cfg and s = "snd ?p" and dst_wav = ?D
      and title_base = ?T and url = demo_url and cookie_file = "[]" and prefix = "[]"
      and lang = "lit ''ar''"]
    pre h5 h6 h7 h8 h9
  have "process_url_to_text ?E demo_cfg demo_url [] [] (demo_state []) =
          (Inr (),
           clear_tmp ((snd ?p)\<lparr>files := AList.update (Cwd, ?T @ lit ''.txt'') [] (files (snd ?p)),
                        trace := trace (snd ?p) @ empty_run_events demo_cfg ?T (snd ?D) (0 # marhaban)\<rparr>))
        \<and> map_of (files (snd (process_url_to_text ?E demo_cfg demo_url [] [] (demo_state []))))
             (Cwd, ?T @ lit ''.txt'') = Some []"
    by blast
  note pm = this
  from pm[THEN conjunct1]
  have e: "fst (process_url_to_text ?E demo_cfg demo_url [] [] (demo_state [])) = Inr ()"
    by (simp only: fst_conv)
  from pm[THEN conjunct2]
  have m: "map_of (files (snd (process_url_to_text ?E demo_cfg demo_url [] [] (demo_state []))))
             (Cwd, ?T @ lit ''.txt'') = Some []" .
  from m have m': "map_of (files (snd (process_url_to_text ?E demo_cfg demo_url [] [] (demo_state []))))
             (Cwd, lit ''a_talk_-1.txt'') = Some []"
    unfolding nm .
  from e m' show ?thesis by - (intro conjI, assumption+)
qed

end
